theory Spec2Isabelle
  imports Complex_Main
begin

section \<open>Hand-written state machines (01-basic-fsm)\<close>

text \<open>
  The two classes of \<^verbatim>\<open>01-basic-fsm\<close> keep one mutable field, \<^verbatim>\<open>currentState\<close>.
  TypeScript's union types are erased when the program runs, so a state and an event
  are strings here, and the declared states are sets of strings. Console output is not
  modelled: \<^verbatim>\<open>console.log\<close> and \<^verbatim>\<open>console.warn\<close> return normally and change
  no field.
\<close>

record 's StateMachine =
  currentState :: 's

subsection \<open>simple-toggle: \<^verbatim>\<open>ToggleFSM\<close>\<close>

text \<open>\<^verbatim>\<open>type ToggleState = 'ON' | 'OFF'\<close>\<close>

definition ToggleState :: "string set" where
  "ToggleState = {''ON'', ''OFF''}"

text \<open>\<^verbatim>\<open>constructor(initialState: ToggleState = 'OFF')\<close>: \<open>None\<close> is the omitted argument.\<close>

definition ToggleFSM_new :: "string option \<Rightarrow> string StateMachine" where
  "ToggleFSM_new initialState =
     \<lparr>currentState = (case initialState of None \<Rightarrow> ''OFF'' | Some s \<Rightarrow> s)\<rparr>"

definition ToggleFSM_transition :: "string \<Rightarrow> string StateMachine \<Rightarrow> string StateMachine" where
  "ToggleFSM_transition event this =
     (if event = ''TOGGLE''
      then this\<lparr>currentState := (if currentState this = ''OFF'' then ''ON'' else ''OFF'')\<rparr>
      else this)"

definition ToggleFSM_getState :: "string StateMachine \<Rightarrow> string" where
  "ToggleFSM_getState this = currentState this"

subsection \<open>traffic-light: \<^verbatim>\<open>TrafficLightFSM\<close>\<close>

text \<open>\<^verbatim>\<open>type TrafficState = 'RED' | 'YELLOW' | 'GREEN'\<close>\<close>

definition TrafficState :: "string set" where
  "TrafficState = {''RED'', ''YELLOW'', ''GREEN''}"

text \<open>
  The private table \<^verbatim>\<open>transitions\<close>, the same in every instance. Reading a key the
  table does not have gives \<^verbatim>\<open>undefined\<close> in JavaScript, which is \<open>None\<close> here; so
  the field \<^verbatim>\<open>currentState\<close> is a \<open>string option\<close>.
\<close>

definition TrafficLightFSM_transitions :: "string \<rightharpoonup> string" where
  "TrafficLightFSM_transitions =
     map_of [(''RED'', ''GREEN''), (''GREEN'', ''YELLOW''), (''YELLOW'', ''RED'')]"

definition TrafficLightFSM_new :: "string option \<Rightarrow> string option StateMachine" where
  "TrafficLightFSM_new initialState =
     \<lparr>currentState = (case initialState of None \<Rightarrow> Some ''RED'' | Some s \<Rightarrow> Some s)\<rparr>"

definition TrafficLightFSM_transition ::
  "string \<Rightarrow> string option StateMachine \<Rightarrow> string option StateMachine" where
  "TrafficLightFSM_transition event this =
     (if event = ''NEXT''
      then (let nextState = (case currentState this of
                               None \<Rightarrow> None
                             | Some s \<Rightarrow> TrafficLightFSM_transitions s)
            in this\<lparr>currentState := nextState\<rparr>)
      else this)"

definition TrafficLightFSM_getState :: "string option StateMachine \<Rightarrow> string option" where
  "TrafficLightFSM_getState this = currentState this"

subsection \<open>Driving an instance with a sequence of events\<close>

text \<open>
  \<open>send_all\<close> calls \<^verbatim>\<open>transition\<close> once for each event, in order, as the demo scripts
  do; \<open>observed\<close> lists what \<^verbatim>\<open>getState()\<close> returns after each call.
\<close>

fun send_all :: "('e \<Rightarrow> 'm \<Rightarrow> 'm) \<Rightarrow> 'm \<Rightarrow> 'e list \<Rightarrow> 'm" where
  "send_all step m [] = m"
| "send_all step m (e # es) = send_all step (step e m) es"

fun observed :: "('e \<Rightarrow> 'm \<Rightarrow> 'm) \<Rightarrow> ('m \<Rightarrow> 'v) \<Rightarrow> 'm \<Rightarrow> 'e list \<Rightarrow> 'v list" where
  "observed step get m [] = []"
| "observed step get m (e # es) = get (step e m) # observed step get (step e m) es"

section \<open>JavaScript values\<close>

text \<open>
  A JavaScript \<^verbatim>\<open>number\<close> is a double. The model keeps the three special values
  apart, because comparison, \<^verbatim>\<open>typeof\<close> and \<^verbatim>\<open>JSON.stringify\<close> treat them
  differently from finite values. A finite value is an exact real: rounding to the
  nearest double, overflow to \<^verbatim>\<open>Infinity\<close> and the sign of zero are not modelled.
\<close>

datatype number = Finite real | NaN | PosInfinity | NegInfinity

fun js_add :: "number \<Rightarrow> number \<Rightarrow> number" where
  "js_add NaN y = NaN"
| "js_add x NaN = NaN"
| "js_add (Finite a) (Finite b) = Finite (a + b)"
| "js_add PosInfinity NegInfinity = NaN"
| "js_add NegInfinity PosInfinity = NaN"
| "js_add PosInfinity y = PosInfinity"
| "js_add x PosInfinity = PosInfinity"
| "js_add NegInfinity y = NegInfinity"
| "js_add x NegInfinity = NegInfinity"

fun js_neg :: "number \<Rightarrow> number" where
  "js_neg (Finite a) = Finite (- a)"
| "js_neg NaN = NaN"
| "js_neg PosInfinity = NegInfinity"
| "js_neg NegInfinity = PosInfinity"

definition js_sub :: "number \<Rightarrow> number \<Rightarrow> number" where
  "js_sub x y = js_add x (js_neg y)"

text \<open>\<^verbatim>\<open>x < y\<close> and \<^verbatim>\<open>x <= y\<close>: false as soon as one side is \<^verbatim>\<open>NaN\<close>.\<close>

fun js_lt :: "number \<Rightarrow> number \<Rightarrow> bool" where
  "js_lt NaN y = False"
| "js_lt x NaN = False"
| "js_lt (Finite a) (Finite b) = (a < b)"
| "js_lt x NegInfinity = False"
| "js_lt PosInfinity y = False"
| "js_lt NegInfinity y = True"
| "js_lt x PosInfinity = True"

fun js_le :: "number \<Rightarrow> number \<Rightarrow> bool" where
  "js_le NaN y = False"
| "js_le x NaN = False"
| "js_le (Finite a) (Finite b) = (a \<le> b)"
| "js_le NegInfinity y = True"
| "js_le x PosInfinity = True"
| "js_le x NegInfinity = False"
| "js_le PosInfinity y = False"

text \<open>A number is falsy when it is \<^verbatim>\<open>0\<close> or \<^verbatim>\<open>NaN\<close>.\<close>

definition truthy_number :: "number \<Rightarrow> bool" where
  "truthy_number x = (x \<noteq> Finite 0 \<and> x \<noteq> NaN)"

definition isFinite :: "number \<Rightarrow> bool" where
  "isFinite x = (case x of Finite a \<Rightarrow> True | _ \<Rightarrow> False)"

text \<open>
  The values a variable of type \<^verbatim>\<open>unknown\<close> can hold, as plain data. An object is
  the list of its own properties, looked up by key (\<open>map_of\<close>: the keys of an object are
  distinct). Objects with getters, proxies and inherited properties are outside the
  model; \<^verbatim>\<open>JSON.parse\<close> produces none of them.
\<close>

datatype jsvalue =
    JUndefined
  | JNull
  | JBoolean bool
  | JNumber number
  | JString string
  | JBigInt int
  | JSymbol
  | JFunction
  | JArray "jsvalue list"
  | JObject "(string \<times> jsvalue) list"

fun typeof :: "jsvalue \<Rightarrow> string" where
  "typeof JUndefined = ''undefined''"
| "typeof JNull = ''object''"
| "typeof (JBoolean b) = ''boolean''"
| "typeof (JNumber n) = ''number''"
| "typeof (JString s) = ''string''"
| "typeof (JBigInt i) = ''bigint''"
| "typeof JSymbol = ''symbol''"
| "typeof JFunction = ''function''"
| "typeof (JArray xs) = ''object''"
| "typeof (JObject ps) = ''object''"

text \<open>
  The key of an array element is the canonical decimal string of its index:
  digits only, no leading zero.
\<close>

definition digit_value :: "char \<Rightarrow> nat option" where
  "digit_value c =
     (let n = (of_char c :: nat) in if 48 \<le> n \<and> n \<le> 57 then Some (n - 48) else None)"

fun decimal_value :: "nat \<Rightarrow> string \<Rightarrow> nat option" where
  "decimal_value acc [] = Some acc"
| "decimal_value acc (c # cs) =
     (case digit_value c of None \<Rightarrow> None | Some d \<Rightarrow> decimal_value (10 * acc + d) cs)"

definition array_index :: "string \<Rightarrow> nat option" where
  "array_index k =
     (if k = [] \<or> (hd k = CHR ''0'' \<and> k \<noteq> ''0'') then None else decimal_value 0 k)"

text \<open>
  Reading a property, \<^verbatim>\<open>v[k]\<close>, of a value that is an object or an array. A missing
  property reads as \<^verbatim>\<open>undefined\<close>.
\<close>

fun get_property :: "jsvalue \<Rightarrow> string \<Rightarrow> jsvalue" where
  "get_property (JObject ps) k = (case map_of ps k of None \<Rightarrow> JUndefined | Some v \<Rightarrow> v)"
| "get_property (JArray xs) k =
     (if k = ''length'' then JNumber (Finite (real (length xs)))
      else (case array_index k of
              None \<Rightarrow> JUndefined
            | Some i \<Rightarrow> if i < length xs then xs ! i else JUndefined))"
| "get_property v k = JUndefined"

text \<open>
  The text of a JSON document, by its abstract syntax. JSON has no \<^verbatim>\<open>NaN\<close> and no
  infinity: a JSON number is finite. \<^verbatim>\<open>JSON.parse\<close> keeps the last of several members
  with one key, so the members are reversed into the property list.
\<close>

datatype json =
    JsonNull
  | JsonBool bool
  | JsonNumber real
  | JsonString string
  | JsonArray "json list"
  | JsonObject "(string \<times> json) list"

primrec JSON_parse :: "json \<Rightarrow> jsvalue" where
  "JSON_parse JsonNull = JNull"
| "JSON_parse (JsonBool b) = JBoolean b"
| "JSON_parse (JsonNumber r) = JNumber (Finite r)"
| "JSON_parse (JsonString s) = JString s"
| "JSON_parse (JsonArray xs) = JArray (map JSON_parse xs)"
| "JSON_parse (JsonObject ps) = JObject (rev (map (map_prod id JSON_parse) ps))"

text \<open>
  \<^verbatim>\<open>JSON.stringify\<close> of a property whose value is a number writes \<^verbatim>\<open>null\<close> for
  \<^verbatim>\<open>NaN\<close> and the infinities; of a string, the string.
\<close>

definition JSON_stringify_number :: "number \<Rightarrow> json" where
  "JSON_stringify_number x = (case x of Finite a \<Rightarrow> JsonNumber a | _ \<Rightarrow> JsonNull)"

definition JSON_stringify_string :: "string \<Rightarrow> json" where
  "JSON_stringify_string s = JsonString s"

section \<open>Running an XState machine\<close>

text \<open>
  The machines of \<^verbatim>\<open>02-xstate-examples\<close>, \<^verbatim>\<open>03-workflow-comparison\<close> and
  \<^verbatim>\<open>04-advanced-topics\<close> are configuration objects handed to \<^verbatim>\<open>createMachine\<close>.
  A configuration is data: per state its \<^verbatim>\<open>entry\<close> and \<^verbatim>\<open>exit\<close> actions, its
  transitions by event (\<^verbatim>\<open>on\<close>), its eventless transitions (\<^verbatim>\<open>always\<close>) and whether
  it is \<^verbatim>\<open>type: 'final'\<close>. A transition has an optional \<^verbatim>\<open>guard\<close>, an optional
  \<^verbatim>\<open>target\<close> and a list of \<^verbatim>\<open>actions\<close>. All machines of the repository are flat:
  every state is atomic.

  An action is its effect on the context; \<open>assign\<close> marks the actions the source
  builds with \<^verbatim>\<open>assign\<close>, and an action that only prints is \<open>console_log\<close>.

  The library delivers a delayed transition (\<^verbatim>\<open>after\<close>), the settling of an invoked
  promise and the start of the actor as events of its own. Each machine's event type
  lists them next to the events of the source's event type, and a state's \<^verbatim>\<open>after\<close>
  and \<^verbatim>\<open>invoke\<close> entries are the transitions of these events. When such an event
  arrives is the environment's choice: time is not modelled.
\<close>

record ('s, 'c, 'e) transition =
  guard :: "('c \<Rightarrow> 'e \<Rightarrow> bool) option"
  target :: "'s option"
  actions :: "('c \<Rightarrow> 'e \<Rightarrow> 'c) list"

record ('s, 'c, 'e) state_node =
  entry :: "('c \<Rightarrow> 'e \<Rightarrow> 'c) list"
  exit :: "('c \<Rightarrow> 'e \<Rightarrow> 'c) list"
  on :: "'e \<Rightarrow> ('s, 'c, 'e) transition list"
  always :: "('s, 'c, 'e) transition list"
  final :: bool

record ('s, 'c, 'e) machine =
  initial :: 's
  initial_context :: 'c
  states :: "'s \<Rightarrow> ('s, 'c, 'e) state_node"

datatype actor_status = Active | Done | Stopped

record ('s, 'c) snapshot =
  state_value :: 's
  ctx :: 'c
  status :: actor_status

definition assign :: "('c \<Rightarrow> 'e \<Rightarrow> 'c) \<Rightarrow> 'c \<Rightarrow> 'e \<Rightarrow> 'c" where
  "assign f = f"

definition console_log :: "'c \<Rightarrow> 'e \<Rightarrow> 'c" where
  "console_log c e = c"

text \<open>The shorthand \<^verbatim>\<open>EVENT: 'state'\<close>: no guard, no action.\<close>

definition go :: "'s \<Rightarrow> ('s, 'c, 'e) transition" where
  "go s = \<lparr>guard = None, target = Some s, actions = []\<rparr>"

text \<open>
  The interpreter of a machine is the library \<^verbatim>\<open>xstate\<close>, which the repository
  imports; it is not among the sources. Sections 4.1, 4.2 and 4.5 of the specification
  describe it, and the definitions of this section follow them, for flat machines.
\<close>

text \<open>
  Modelled from the spec: \<^verbatim>\<open>xstate\<close>'s evaluation of a guard is missing. A transition
  is a candidate when its guard is absent or evaluates true (section 4.2).
\<close>

definition guard_passes :: "('s, 'c, 'e) transition \<Rightarrow> 'c \<Rightarrow> 'e \<Rightarrow> bool" where
  "guard_passes t c e = (case guard t of None \<Rightarrow> True | Some g \<Rightarrow> g c e)"

text \<open>
  Modelled from the spec: \<^verbatim>\<open>xstate\<close>'s transition resolver is missing. Given the
  transitions declared for the current state and the event, it evaluates the guards
  left to right and returns the first transition whose guard is absent or evaluates
  true (section 4.2).
\<close>

definition resolve ::
  "('s, 'c, 'e) transition list \<Rightarrow> 'c \<Rightarrow> 'e \<Rightarrow> ('s, 'c, 'e) transition option" where
  "resolve candidates c e = find (\<lambda>t. guard_passes t c e) candidates"

text \<open>
  Modelled from the spec: \<^verbatim>\<open>xstate\<close>'s action executor is missing. Actions run
  strictly one after the other, each on the context the previous one left
  (section 4.5).
\<close>

fun run_actions :: "('c \<Rightarrow> 'e \<Rightarrow> 'c) list \<Rightarrow> 'c \<Rightarrow> 'e \<Rightarrow> 'c" where
  "run_actions [] c e = c"
| "run_actions (a # as) c e = run_actions as (a c e) e"

text \<open>
  Modelled from the spec: \<^verbatim>\<open>xstate\<close>'s entry of a state is missing. Entering a state
  runs its entry actions; reaching a final state ends the machine's active life
  (sections 3 and 4.1).
\<close>

definition enter :: "('s, 'c, 'e) machine \<Rightarrow> 's \<Rightarrow> 'c \<Rightarrow> 'e \<Rightarrow> ('s, 'c) snapshot" where
  "enter M s c e =
     \<lparr>state_value = s,
      ctx = run_actions (entry (states M s)) c e,
      status = (if final (states M s) then Done else Active)\<rparr>"

text \<open>
  Modelled from the spec: \<^verbatim>\<open>xstate\<close>'s execution of one transition is missing. It runs
  the exit actions of the source state, then the transition's actions, then the entry
  actions of the target state (sections 4.1 and 4.5). A transition without a target,
  or to the state it starts from, leaves and enters no state and runs its own actions
  only.
\<close>

definition microstep ::
  "('s, 'c, 'e) machine \<Rightarrow> ('s, 'c, 'e) transition \<Rightarrow> 'e \<Rightarrow> ('s, 'c) snapshot
   \<Rightarrow> ('s, 'c) snapshot" where
  "microstep M t e snap =
     (case target t of
        None \<Rightarrow> snap\<lparr>ctx := run_actions (actions t) (ctx snap) e\<rparr>
      | Some s \<Rightarrow>
          if s = state_value snap
          then snap\<lparr>ctx := run_actions (actions t) (ctx snap) e\<rparr>
          else enter M s
                 (run_actions (actions t)
                    (run_actions (exit (states M (state_value snap))) (ctx snap) e) e) e)"

text \<open>
  Modelled from the spec: \<^verbatim>\<open>xstate\<close>'s handling of eventless transitions is missing,
  and the specification does not describe it. The comments of the sources say what
  these transitions do (\<^verbatim>\<open>playing.always\<close>: at once to game over when no life is left;
  \<^verbatim>\<open>validating.always\<close>: branch at once on the errors): after the entry of a state and
  after every event, the eventless transitions of the current state are resolved like
  any others and taken, until none is enabled or the machine is no longer active. That
  loop need not end, so the result is an option: \<open>None\<close> for a run that never settles.
\<close>

partial_function (option) settle ::
  "('s, 'c, 'e) machine \<Rightarrow> 'e \<Rightarrow> ('s, 'c) snapshot \<Rightarrow> ('s, 'c) snapshot option" where
  "settle M e snap =
     (if status snap \<noteq> Active then Some snap
      else (case resolve (always (states M (state_value snap))) (ctx snap) e of
              None \<Rightarrow> Some snap
            | Some t \<Rightarrow> settle M e (microstep M t e snap)))"

declare settle.simps [code]

text \<open>
  Modelled from the spec: \<^verbatim>\<open>xstate\<close>'s \<^verbatim>\<open>send\<close> is missing. It resolves the
  applicable transition and executes it; it is a silent no-op when no transition
  matches the event in the current state, and when the machine has reached a final
  state or was stopped (section 4.1).
\<close>

definition send ::
  "('s, 'c, 'e) machine \<Rightarrow> 'e \<Rightarrow> ('s, 'c) snapshot \<Rightarrow> ('s, 'c) snapshot option" where
  "send M e snap =
     (if status snap \<noteq> Active then Some snap
      else settle M e
             (case resolve (on (states M (state_value snap)) e) (ctx snap) e of
                None \<Rightarrow> snap
              | Some t \<Rightarrow> microstep M t e snap))"

text \<open>
  Modelled from the spec: \<^verbatim>\<open>xstate\<close>'s \<^verbatim>\<open>createActor(machine).start()\<close> is missing.
  It enters the initial state with the initial context, running its entry actions
  (section 4.1); \<open>e\<close> is the library's start event.
\<close>

definition start :: "('s, 'c, 'e) machine \<Rightarrow> 'e \<Rightarrow> ('s, 'c) snapshot option" where
  "start M e = settle M e (enter M (initial M) (initial_context M) e)"

text \<open>
  Modelled from the spec: \<^verbatim>\<open>xstate\<close>'s \<^verbatim>\<open>stop\<close> is missing. It marks the machine
  inert; further \<^verbatim>\<open>send\<close> calls are no-ops (section 4.1).
\<close>

definition stop :: "('s, 'c) snapshot \<Rightarrow> ('s, 'c) snapshot" where
  "stop snap = snap\<lparr>status := Stopped\<rparr>"

text \<open>Sending a list of events, one after the other, to a started actor.\<close>

fun send_events ::
  "('s, 'c, 'e) machine \<Rightarrow> ('s, 'c) snapshot \<Rightarrow> 'e list \<Rightarrow> ('s, 'c) snapshot option" where
  "send_events M snap [] = Some snap"
| "send_events M snap (e # es) =
     (case send M e snap of None \<Rightarrow> None | Some snap' \<Rightarrow> send_events M snap' es)"

definition run :: "('s, 'c, 'e) machine \<Rightarrow> 'e \<Rightarrow> 'e list \<Rightarrow> ('s, 'c) snapshot option" where
  "run M e0 es = (case start M e0 of None \<Rightarrow> None | Some snap \<Rightarrow> send_events M snap es)"

section \<open>The LLM chat machine (02-xstate-examples/src/llm-chat.ts)\<close>

text \<open>\<^verbatim>\<open>null\<close> in \<^verbatim>\<open>response\<close> and \<^verbatim>\<open>error\<close> is \<open>None\<close>.\<close>

record ChatContext =
  message :: string
  response :: "string option"
  error :: "string option"
  retryCount :: int

datatype ChatState = idle | calling_llm | success | error | failed

text \<open>
  \<^verbatim>\<open>ChatEvent\<close>, and the library's events: the start, the delayed transition of a
  state, and the two ways the invoked promise \<^verbatim>\<open>callLLM\<close> settles. \<open>done_actor\<close>
  carries \<^verbatim>\<open>event.output\<close>; \<open>error_actor\<close> carries the text that the source computes
  from \<^verbatim>\<open>event.error\<close>.
\<close>

datatype ChatEvent =
    SEND_MESSAGE string
  | RETRY
  | chat_init
  | chat_after nat ChatState
  | done_actor string
  | error_actor string

fun idle_on :: "ChatEvent \<Rightarrow> (ChatState, ChatContext, ChatEvent) transition list" where
  "idle_on (SEND_MESSAGE m) =
     [\<lparr>guard = None, target = Some calling_llm,
       actions = [assign (\<lambda>c e. c\<lparr>message := m, response := None, ChatContext.error := None,
                                    ChatContext.retryCount := 0\<rparr>)]\<rparr>]"
| "idle_on _ = []"

text \<open>\<^verbatim>\<open>invoke\<close>: \<^verbatim>\<open>onDone\<close> and \<^verbatim>\<open>onError\<close>.\<close>

fun calling_llm_on :: "ChatEvent \<Rightarrow> (ChatState, ChatContext, ChatEvent) transition list" where
  "calling_llm_on (done_actor output) =
     [\<lparr>guard = None, target = Some ChatState.success,
       actions = [assign (\<lambda>c e. c\<lparr>response := Some output\<rparr>)]\<rparr>]"
| "calling_llm_on (error_actor msg) =
     [\<lparr>guard = None, target = Some ChatState.error,
       actions = [assign (\<lambda>c e. c\<lparr>ChatContext.error := Some msg\<rparr>)]\<rparr>]"
| "calling_llm_on _ = []"

fun success_on :: "ChatEvent \<Rightarrow> (ChatState, ChatContext, ChatEvent) transition list" where
  "success_on (SEND_MESSAGE m) =
     [\<lparr>guard = None, target = Some calling_llm,
       actions = [assign (\<lambda>c e. c\<lparr>message := m, response := None,
                                    ChatContext.error := None\<rparr>)]\<rparr>]"
| "success_on _ = []"

text \<open>\<^verbatim>\<open>after: { 1500: [...] }\<close> and \<^verbatim>\<open>on: { RETRY: ... }\<close> of the state \<^verbatim>\<open>error\<close>.\<close>

fun error_on :: "ChatEvent \<Rightarrow> (ChatState, ChatContext, ChatEvent) transition list" where
  "error_on (chat_after d s) =
     (if d = 1500 \<and> s = ChatState.error
      then [\<lparr>guard = Some (\<lambda>c e. ChatContext.retryCount c < 3),
              target = Some calling_llm,
              actions = [assign (\<lambda>c e. c\<lparr>ChatContext.retryCount := ChatContext.retryCount c + 1,
                                           ChatContext.error := None\<rparr>),
                         console_log]\<rparr>,
            \<lparr>guard = None, target = Some failed, actions = []\<rparr>]
      else [])"
| "error_on RETRY =
     [\<lparr>guard = None, target = Some calling_llm,
       actions = [assign (\<lambda>c e. c\<lparr>ChatContext.retryCount := ChatContext.retryCount c + 1,
                                    ChatContext.error := None\<rparr>)]\<rparr>]"
| "error_on _ = []"

fun chat_states :: "ChatState \<Rightarrow> (ChatState, ChatContext, ChatEvent) state_node" where
  "chat_states idle =
     \<lparr>entry = [console_log], exit = [], on = idle_on, always = [], final = False\<rparr>"
| "chat_states calling_llm =
     \<lparr>entry = [console_log], exit = [], on = calling_llm_on, always = [], final = False\<rparr>"
| "chat_states ChatState.success =
     \<lparr>entry = [console_log], exit = [], on = success_on, always = [], final = False\<rparr>"
| "chat_states ChatState.error =
     \<lparr>entry = [console_log], exit = [], on = error_on, always = [], final = False\<rparr>"
| "chat_states failed =
     \<lparr>entry = [console_log], exit = [], on = (\<lambda>e. []), always = [], final = True\<rparr>"

definition chatMachine :: "(ChatState, ChatContext, ChatEvent) machine" where
  "chatMachine =
     \<lparr>initial = idle,
      initial_context =
        \<lparr>message = [], response = None, ChatContext.error = None, ChatContext.retryCount = 0\<rparr>,
      states = chat_states\<rparr>"

section \<open>The order workflow with XState (03-workflow-comparison)\<close>

text \<open>
  The constants of the two order workflows; both files give them the same values.
  Delays are in milliseconds.
\<close>

definition PAYMENT_DELAY_MS :: nat where
  "PAYMENT_DELAY_MS = 1000"

definition SHIPPING_DELAY_MS :: nat where
  "SHIPPING_DELAY_MS = 2000"

definition RETRY_EVENT_DELAY_MS :: nat where
  "RETRY_EVENT_DELAY_MS = 1500"

definition PAYMENT_SUCCESS_RATE :: real where
  "PAYMENT_SUCCESS_RATE = 0.7"

definition MAX_PAYMENT_RETRIES :: int where
  "MAX_PAYMENT_RETRIES = 3"

text \<open>\<^verbatim>\<open>orderStatus\<close> is one of six strings; \<^verbatim>\<open>total\<close> is never computed with.\<close>

record OrderContext =
  orderId :: string
  items :: "string list"
  total :: int
  orderStatus :: string
  retryCount :: int

datatype OrderState =
  pending | confirmed | processing_payment | paid | payment_failed | shipping | delivered
  | canceled

text \<open>
  \<^verbatim>\<open>OrderEvent\<close>, and the library's events. A delayed transition carries, besides its
  delay and state, the number that \<^verbatim>\<open>Math.random()\<close> returns should a guard call it
  while the event is handled: the guard of \<^verbatim>\<open>processing_payment\<close> does.
\<close>

datatype OrderEvent =
    CONFIRM_ORDER
  | PROCESS_PAYMENT
  | PAYMENT_SUCCESS
  | PAYMENT_FAILED
  | RETRY_PAYMENT
  | SHIP_ORDER
  | DELIVER_ORDER
  | CANCEL
  | order_init
  | order_after nat OrderState real

definition Math_random :: "OrderEvent \<Rightarrow> real" where
  "Math_random e = (case e of order_after d s r \<Rightarrow> r | _ \<Rightarrow> 0)"

fun pending_on :: "OrderEvent \<Rightarrow> (OrderState, OrderContext, OrderEvent) transition list" where
  "pending_on CONFIRM_ORDER = [go confirmed]"
| "pending_on _ = []"

fun confirmed_on :: "OrderEvent \<Rightarrow> (OrderState, OrderContext, OrderEvent) transition list" where
  "confirmed_on PROCESS_PAYMENT = [go processing_payment]"
| "confirmed_on CANCEL = [go canceled]"
| "confirmed_on _ = []"

fun processing_payment_on ::
  "OrderEvent \<Rightarrow> (OrderState, OrderContext, OrderEvent) transition list" where
  "processing_payment_on (order_after d s r) =
     (if d = PAYMENT_DELAY_MS \<and> s = processing_payment
      then [\<lparr>guard = Some (\<lambda>c e. Math_random e < PAYMENT_SUCCESS_RATE),
              target = Some paid,
              actions = [assign (\<lambda>c e. c\<lparr>OrderContext.orderStatus := ''paid'',
                                           OrderContext.retryCount := 0\<rparr>)]\<rparr>,
            \<lparr>guard = None,
              target = Some payment_failed,
              actions = [assign (\<lambda>c e. c\<lparr>OrderContext.retryCount :=
                                             OrderContext.retryCount c + 1\<rparr>)]\<rparr>]
      else [])"
| "processing_payment_on _ = []"

fun paid_on :: "OrderEvent \<Rightarrow> (OrderState, OrderContext, OrderEvent) transition list" where
  "paid_on SHIP_ORDER = [go shipping]"
| "paid_on _ = []"

fun payment_failed_on ::
  "OrderEvent \<Rightarrow> (OrderState, OrderContext, OrderEvent) transition list" where
  "payment_failed_on (order_after d s r) =
     (if d = RETRY_EVENT_DELAY_MS \<and> s = payment_failed
      then [\<lparr>guard = Some (\<lambda>c e. OrderContext.retryCount c < MAX_PAYMENT_RETRIES),
              target = Some processing_payment,
              actions = [console_log]\<rparr>,
            \<lparr>guard = None, target = Some canceled, actions = []\<rparr>]
      else [])"
| "payment_failed_on _ = []"

fun shipping_on :: "OrderEvent \<Rightarrow> (OrderState, OrderContext, OrderEvent) transition list" where
  "shipping_on (order_after d s r) =
     (if d = SHIPPING_DELAY_MS \<and> s = shipping
      then [\<lparr>guard = None, target = Some delivered,
              actions = [assign (\<lambda>c e. c\<lparr>OrderContext.orderStatus := ''delivered''\<rparr>)]\<rparr>]
      else [])"
| "shipping_on _ = []"

fun order_states :: "OrderState \<Rightarrow> (OrderState, OrderContext, OrderEvent) state_node" where
  "order_states pending =
     \<lparr>entry = [console_log], exit = [], on = pending_on, always = [], final = False\<rparr>"
| "order_states confirmed =
     \<lparr>entry = [console_log], exit = [], on = confirmed_on, always = [], final = False\<rparr>"
| "order_states processing_payment =
     \<lparr>entry = [assign (\<lambda>c e. c\<lparr>OrderContext.orderStatus := ''processing_payment''\<rparr>)],
      exit = [console_log], on = processing_payment_on, always = [], final = False\<rparr>"
| "order_states paid =
     \<lparr>entry = [console_log], exit = [], on = paid_on, always = [], final = False\<rparr>"
| "order_states payment_failed =
     \<lparr>entry = [console_log], exit = [], on = payment_failed_on, always = [], final = False\<rparr>"
| "order_states shipping =
     \<lparr>entry = [assign (\<lambda>c e. c\<lparr>OrderContext.orderStatus := ''shipping''\<rparr>), console_log],
      exit = [], on = shipping_on, always = [], final = False\<rparr>"
| "order_states delivered =
     \<lparr>entry = [console_log], exit = [], on = (\<lambda>e. []), always = [], final = True\<rparr>"
| "order_states canceled =
     \<lparr>entry = [assign (\<lambda>c e. c\<lparr>OrderContext.orderStatus := ''canceled''\<rparr>), console_log],
      exit = [], on = (\<lambda>e. []), always = [], final = True\<rparr>"

definition orderMachine :: "(OrderState, OrderContext, OrderEvent) machine" where
  "orderMachine =
     \<lparr>initial = pending,
      initial_context =
        \<lparr>orderId = ''ORD-001'', items = [''Item A'', ''Item B''], total = 100,
         OrderContext.orderStatus = ''pending'', OrderContext.retryCount = 0\<rparr>,
      states = order_states\<rparr>"

section \<open>The order workflow with LangGraph (03-workflow-comparison)\<close>

text \<open>
  The lines of the history \<^verbatim>\<open>messages\<close> are Korean text; each constructor names one
  of them, and \<open>payment_failed_line\<close> carries the attempt number printed in the line.
\<close>

datatype message_line =
    order_created_line
  | order_confirmed_line
  | payment_done_line
  | payment_failed_line int
  | shipping_started_line
  | delivered_line

record OrderGraphState =
  orderId :: string
  items :: "string list"
  total :: int
  orderStatus :: string
  retryCount :: int
  messages :: "message_line list"

text \<open>
  A node returns a partial state, which the graph merges into the state: the fields it
  names are replaced. Each function below is the node followed by that merge.
  \<open>random\<close> is what \<^verbatim>\<open>Math.random()\<close> returns in \<^verbatim>\<open>processPaymentNode\<close>.
\<close>

definition createOrderNode :: "OrderGraphState \<Rightarrow> OrderGraphState" where
  "createOrderNode state =
     state\<lparr>OrderGraphState.orderId := ''ORD-001'',
           OrderGraphState.items := [''Item A'', ''Item B''],
           OrderGraphState.total := 100,
           OrderGraphState.orderStatus := ''pending'',
           OrderGraphState.retryCount := 0,
           messages := messages state @ [order_created_line]\<rparr>"

definition confirmOrderNode :: "OrderGraphState \<Rightarrow> OrderGraphState" where
  "confirmOrderNode state = state\<lparr>messages := messages state @ [order_confirmed_line]\<rparr>"

definition processPaymentNode :: "real \<Rightarrow> OrderGraphState \<Rightarrow> OrderGraphState" where
  "processPaymentNode random state =
     (let success = (random < PAYMENT_SUCCESS_RATE)
      in if success
         then state\<lparr>OrderGraphState.orderStatus := ''paid'',
                    messages := messages state @ [payment_done_line]\<rparr>
         else state\<lparr>OrderGraphState.orderStatus := ''pending'',
                    OrderGraphState.retryCount := OrderGraphState.retryCount state + 1,
                    messages := messages state
                                @ [payment_failed_line (OrderGraphState.retryCount state + 1)]\<rparr>)"

definition shipOrderNode :: "OrderGraphState \<Rightarrow> OrderGraphState" where
  "shipOrderNode state =
     state\<lparr>OrderGraphState.orderStatus := ''shipping'',
           messages := messages state @ [shipping_started_line]\<rparr>"

definition deliverOrderNode :: "OrderGraphState \<Rightarrow> OrderGraphState" where
  "deliverOrderNode state =
     state\<lparr>OrderGraphState.orderStatus := ''delivered'',
           messages := messages state @ [delivered_line]\<rparr>"

text \<open>The nodes of the graph, and \<^verbatim>\<open>END\<close>.\<close>

datatype node = create_order | confirm_order | process_payment | ship_order | deliver_order | END

definition shouldRetryPayment :: "OrderGraphState \<Rightarrow> node" where
  "shouldRetryPayment state =
     (if OrderGraphState.orderStatus state = ''pending'' \<and>
         OrderGraphState.retryCount state < MAX_PAYMENT_RETRIES
      then process_payment
      else if OrderGraphState.orderStatus state = ''pending'' \<and>
              OrderGraphState.retryCount state \<ge> MAX_PAYMENT_RETRIES
      then END
      else ship_order)"

text \<open>
  The graph as \<^verbatim>\<open>workflow\<close> builds it: what a node runs, and the edge that leaves it
  (\<^verbatim>\<open>addEdge\<close>, and \<^verbatim>\<open>addConditionalEdges\<close> for \<^verbatim>\<open>process_payment\<close>), followed with
  the state the node left.
\<close>

fun run_node :: "node \<Rightarrow> real \<Rightarrow> OrderGraphState \<Rightarrow> OrderGraphState" where
  "run_node create_order random state = createOrderNode state"
| "run_node confirm_order random state = confirmOrderNode state"
| "run_node process_payment random state = processPaymentNode random state"
| "run_node ship_order random state = shipOrderNode state"
| "run_node deliver_order random state = deliverOrderNode state"
| "run_node END random state = state"

fun next_node :: "node \<Rightarrow> OrderGraphState \<Rightarrow> node" where
  "next_node create_order state = confirm_order"
| "next_node confirm_order state = process_payment"
| "next_node process_payment state = shouldRetryPayment state"
| "next_node ship_order state = deliver_order"
| "next_node deliver_order state = END"
| "next_node END state = END"

text \<open>
  Modelled from the spec: the engine that runs a compiled graph (the library
  \<^verbatim>\<open>@langchain/langgraph\<close>) is not among the sources. It runs one node after the
  other along the edges until \<^verbatim>\<open>END\<close>, and gives up with an error after
  \<open>recursionLimit\<close> steps (25 unless the caller says otherwise), which is \<open>None\<close> here.
  \<open>draws k\<close> is the number that the call of \<^verbatim>\<open>Math.random()\<close> after \<open>k\<close> earlier calls
  returns. The result lists the nodes that ran, in order, and the final state.
\<close>

fun invoke_from ::
  "nat \<Rightarrow> (nat \<Rightarrow> real) \<Rightarrow> nat \<Rightarrow> node \<Rightarrow> OrderGraphState
   \<Rightarrow> (node list \<times> OrderGraphState) option" where
  "invoke_from limit draws k END state = Some ([], state)"
| "invoke_from 0 draws k n state = None"
| "invoke_from (Suc limit) draws k n state =
     (let state' = run_node n (draws k) state;
          k' = (if n = process_payment then Suc k else k)
      in case invoke_from limit draws k' (next_node n state') state' of
           None \<Rightarrow> None
         | Some (visited, final_state) \<Rightarrow> Some (n # visited, final_state))"

definition recursionLimit :: nat where
  "recursionLimit = 25"

text \<open>\<^verbatim>\<open>app.invoke(initialState)\<close>: the edge from \<^verbatim>\<open>__start__\<close> leads to \<^verbatim>\<open>create_order\<close>.\<close>

definition app_invoke ::
  "(nat \<Rightarrow> real) \<Rightarrow> OrderGraphState \<Rightarrow> (node list \<times> OrderGraphState) option" where
  "app_invoke draws state0 = invoke_from recursionLimit draws 0 create_order state0"

definition initialState :: OrderGraphState where
  "initialState =
     \<lparr>OrderGraphState.orderId = [], OrderGraphState.items = [], OrderGraphState.total = 0,
      OrderGraphState.orderStatus = ''pending'', OrderGraphState.retryCount = 0,
      messages = []\<rparr>"

section \<open>Form validation (02-xstate-examples/src/form-validation.ts)\<close>

text \<open>The four error messages are Korean text; each constructor names one of them.\<close>

datatype form_error = email_missing | email_malformed | password_missing | password_too_short

record FormContext =
  email :: string
  password :: string
  errors :: "form_error list"

datatype FormState = editing | validating | submitting | success | error

datatype FormEvent =
    INPUT_EMAIL string
  | INPUT_PASSWORD string
  | SUBMIT
  | RESET
  | form_init
  | form_after nat FormState

definition MIN_PASSWORD_LENGTH :: nat where
  "MIN_PASSWORD_LENGTH = 6"

text \<open>
  The entry action of \<^verbatim>\<open>validating\<close>. The regular expression engine is the
  platform's: \<open>EMAIL_REGEX_test\<close> stands for \<^verbatim>\<open>EMAIL_REGEX.test\<close> and is a parameter of
  the machine, so what is proved holds whatever strings it accepts.
\<close>

definition validate :: "(string \<Rightarrow> bool) \<Rightarrow> FormContext \<Rightarrow> form_error list" where
  "validate EMAIL_REGEX_test c =
     (if email c = [] then [email_missing]
      else if \<not> EMAIL_REGEX_test (email c) then [email_malformed]
      else [])
     @ (if password c = [] then [password_missing]
        else if length (password c) < MIN_PASSWORD_LENGTH then [password_too_short]
        else [])"

fun editing_on :: "FormEvent \<Rightarrow> (FormState, FormContext, FormEvent) transition list" where
  "editing_on (INPUT_EMAIL v) =
     [\<lparr>guard = None, target = None, actions = [assign (\<lambda>c e. c\<lparr>email := v\<rparr>)]\<rparr>]"
| "editing_on (INPUT_PASSWORD v) =
     [\<lparr>guard = None, target = None, actions = [assign (\<lambda>c e. c\<lparr>password := v\<rparr>)]\<rparr>]"
| "editing_on SUBMIT = [\<lparr>guard = None, target = Some validating, actions = []\<rparr>]"
| "editing_on _ = []"

fun submitting_on :: "FormEvent \<Rightarrow> (FormState, FormContext, FormEvent) transition list" where
  "submitting_on (form_after d s) =
     (if d = 1000 \<and> s = submitting then [go FormState.success] else [])"
| "submitting_on _ = []"

fun form_success_on :: "FormEvent \<Rightarrow> (FormState, FormContext, FormEvent) transition list" where
  "form_success_on RESET = [go editing]"
| "form_success_on _ = []"

fun form_error_on :: "FormEvent \<Rightarrow> (FormState, FormContext, FormEvent) transition list" where
  "form_error_on (INPUT_EMAIL v) =
     [\<lparr>guard = None, target = Some editing, actions = [assign (\<lambda>c e. c\<lparr>email := v\<rparr>)]\<rparr>]"
| "form_error_on (INPUT_PASSWORD v) =
     [\<lparr>guard = None, target = Some editing, actions = [assign (\<lambda>c e. c\<lparr>password := v\<rparr>)]\<rparr>]"
| "form_error_on RESET =
     [\<lparr>guard = None, target = Some editing,
       actions = [assign (\<lambda>c e. c\<lparr>email := [], password := [], errors := []\<rparr>)]\<rparr>]"
| "form_error_on _ = []"

fun form_states ::
  "(string \<Rightarrow> bool) \<Rightarrow> FormState \<Rightarrow> (FormState, FormContext, FormEvent) state_node" where
  "form_states EMAIL_REGEX_test editing =
     \<lparr>entry = [], exit = [], on = editing_on, always = [], final = False\<rparr>"
| "form_states EMAIL_REGEX_test validating =
     \<lparr>entry = [assign (\<lambda>c e. c\<lparr>errors := validate EMAIL_REGEX_test c\<rparr>)],
      exit = [],
      on = (\<lambda>e. []),
      always = [\<lparr>guard = Some (\<lambda>c e. length (errors c) = 0),
                 target = Some submitting, actions = []\<rparr>,
                \<lparr>guard = None, target = Some FormState.error, actions = []\<rparr>],
      final = False\<rparr>"
| "form_states EMAIL_REGEX_test submitting =
     \<lparr>entry = [console_log], exit = [], on = submitting_on, always = [], final = False\<rparr>"
| "form_states EMAIL_REGEX_test FormState.success =
     \<lparr>entry = [console_log], exit = [], on = form_success_on, always = [], final = False\<rparr>"
| "form_states EMAIL_REGEX_test FormState.error =
     \<lparr>entry = [console_log], exit = [], on = form_error_on, always = [], final = False\<rparr>"

definition formMachine :: "(string \<Rightarrow> bool) \<Rightarrow> (FormState, FormContext, FormEvent) machine" where
  "formMachine EMAIL_REGEX_test =
     \<lparr>initial = editing,
      initial_context = \<lparr>email = [], password = [], errors = []\<rparr>,
      states = form_states EMAIL_REGEX_test\<rparr>"

section \<open>State persistence: the game (04-advanced-topics)\<close>

record GameContext =
  level :: number
  score :: number
  lives :: number
  playerName :: string

text \<open>
  The record \<open>GameContext\<close> is a value of the interface: three numbers and a string. The
  context object that the actor holds while it runs can differ from it: \<^verbatim>\<open>LOAD_GAME\<close>
  merges a \<^verbatim>\<open>Partial<GameContext>\<close> into it, and in such an object a key may be
  present and hold \<^verbatim>\<open>undefined\<close>, which \<^verbatim>\<open>assign\<close> copies over the context like
  any other value. So a field of the context object holds a value of its declared type
  or \<^verbatim>\<open>undefined\<close>.
\<close>

datatype 'a held = Undefined | Defined 'a

record GameContext_object =
  held_level :: "number held"
  held_score :: "number held"
  held_lives :: "number held"
  held_playerName :: "string held"

definition context_object :: "GameContext \<Rightarrow> GameContext_object" where
  "context_object c =
     \<lparr>held_level = Defined (level c), held_score = Defined (score c),
      held_lives = Defined (lives c), held_playerName = Defined (playerName c)\<rparr>"

text \<open>
  Arithmetic and comparison convert an operand to a number first; \<^verbatim>\<open>undefined\<close>
  converts to \<^verbatim>\<open>NaN\<close>.
\<close>

definition to_number :: "number held \<Rightarrow> number" where
  "to_number v = (case v of Undefined \<Rightarrow> NaN | Defined n \<Rightarrow> n)"

text \<open>
  \<^verbatim>\<open>Partial<GameContext>\<close>, the payload of \<^verbatim>\<open>LOAD_GAME\<close>: each key is absent
  (\<open>None\<close>), or present and holding \<^verbatim>\<open>undefined\<close> or a value of the declared type.
\<close>

record GameContext_Partial =
  opt_level :: "number held option"
  opt_score :: "number held option"
  opt_lives :: "number held option"
  opt_playerName :: "string held option"

datatype GameState = menu | playing | paused | savingFromPlaying | savingFromPaused | gameOver

text \<open>
  \<^verbatim>\<open>GameEvent\<close>. The payload of \<^verbatim>\<open>LOAD_GAME\<close> is optional because the action reads
  \<^verbatim>\<open>savedState || {}\<close>. The last two constructors are the library's events: the start
  of the actor, and the delayed transition \<^verbatim>\<open>after\<close> of a state, named by its delay and
  its state.
\<close>

datatype GameEvent =
    NEW_GAME
  | LOAD_GAME "GameContext_Partial option"
  | EARN_POINTS number
  | LOSE_LIFE
  | LEVEL_UP
  | SAVE
  | PAUSE
  | RESUME
  | QUIT
  | RESTART
  | game_init
  | game_after nat GameState

subsection \<open>Reading and writing the save file\<close>

definition isRecord :: "jsvalue \<Rightarrow> bool" where
  "isRecord v = (typeof v = ''object'' \<and> v \<noteq> JNull)"

definition parseSavedGame :: "jsvalue \<Rightarrow> GameContext option" where
  "parseSavedGame data =
     (if \<not> isRecord data then None
      else (let level = get_property data ''level'';
                score = get_property data ''score'';
                lives = get_property data ''lives'';
                playerName = get_property data ''playerName''
            in if typeof level \<noteq> ''number'' \<or> typeof score \<noteq> ''number'' \<or>
                  typeof lives \<noteq> ''number'' \<or> typeof playerName \<noteq> ''string''
               then None
               else (case (level, score, lives, playerName) of
                       (JNumber l, JNumber s, JNumber v, JString p) \<Rightarrow>
                         Some \<lparr>level = l, score = s, lives = v, playerName = p\<rparr>
                     | _ \<Rightarrow> None)))"

text \<open>
  The save file \<^verbatim>\<open>game-save.json\<close>: missing; holding a JSON document; holding text
  that \<^verbatim>\<open>JSON.parse\<close> rejects; or there but unreadable (\<^verbatim>\<open>readFileSync\<close> throws).
\<close>

datatype save_file = Missing | Holds json | HoldsGarbage | Unreadable

text \<open>
  \<^verbatim>\<open>saveGame\<close>: \<open>savedAt\<close> is the time stamp \<^verbatim>\<open>new Date().toISOString()\<close>, and
  \<open>writable\<close> says whether \<^verbatim>\<open>writeFileSync\<close> succeeds. When it throws, the
  \<^verbatim>\<open>catch\<close> prints the error and the file is as it was.
\<close>

definition saveData :: "GameContext \<Rightarrow> string \<Rightarrow> json" where
  "saveData context' savedAt =
     JsonObject
       [(''level'', JSON_stringify_number (level context')),
        (''score'', JSON_stringify_number (score context')),
        (''lives'', JSON_stringify_number (lives context')),
        (''playerName'', JSON_stringify_string (playerName context')),
        (''savedAt'', JSON_stringify_string savedAt)]"

definition saveGame :: "GameContext \<Rightarrow> string \<Rightarrow> bool \<Rightarrow> save_file \<Rightarrow> save_file" where
  "saveGame context' savedAt writable file =
     (if writable then Holds (saveData context' savedAt) else file)"

text \<open>
  \<^verbatim>\<open>loadSavedGame\<close>: every exception inside the \<^verbatim>\<open>try\<close> is caught and the function
  returns \<^verbatim>\<open>null\<close>, which is \<open>None\<close>.
\<close>

definition loadSavedGame :: "save_file \<Rightarrow> GameContext option" where
  "loadSavedGame file =
     (case file of
        Missing \<Rightarrow> None
      | Unreadable \<Rightarrow> None
      | HoldsGarbage \<Rightarrow> None
      | Holds text' \<Rightarrow>
          (case parseSavedGame (JSON_parse text') of
             None \<Rightarrow> None
           | Some parsedState \<Rightarrow> Some parsedState))"

subsection \<open>\<^verbatim>\<open>gameMachine\<close>\<close>

text \<open>
  \<^verbatim>\<open>assign\<close> with an object: every key the object has replaces the field of the
  context, also when it holds \<^verbatim>\<open>undefined\<close>; an absent key leaves the field as it
  is.
\<close>

definition merge_partial :: "GameContext_object \<Rightarrow> GameContext_Partial \<Rightarrow> GameContext_object" where
  "merge_partial c p =
     \<lparr>held_level = (case opt_level p of None \<Rightarrow> held_level c | Some v \<Rightarrow> v),
      held_score = (case opt_score p of None \<Rightarrow> held_score c | Some v \<Rightarrow> v),
      held_lives = (case opt_lives p of None \<Rightarrow> held_lives c | Some v \<Rightarrow> v),
      held_playerName =
        (case opt_playerName p of None \<Rightarrow> held_playerName c | Some v \<Rightarrow> v)\<rparr>"

definition empty_partial :: GameContext_Partial where
  "empty_partial =
     \<lparr>opt_level = None, opt_score = None, opt_lives = None, opt_playerName = None\<rparr>"

text \<open>A whole \<^verbatim>\<open>GameContext\<close> passed where a \<^verbatim>\<open>Partial<GameContext>\<close> is expected.\<close>

definition as_partial :: "GameContext \<Rightarrow> GameContext_Partial" where
  "as_partial c =
     \<lparr>opt_level = Some (Defined (level c)), opt_score = Some (Defined (score c)),
      opt_lives = Some (Defined (lives c)), opt_playerName = Some (Defined (playerName c))\<rparr>"

fun menu_on :: "GameEvent \<Rightarrow> (GameState, GameContext_object, GameEvent) transition list" where
  "menu_on NEW_GAME =
     [\<lparr>guard = None, target = Some playing,
       actions = [assign (\<lambda>c e. c\<lparr>held_level := Defined (Finite 1),
                                    held_score := Defined (Finite 0),
                                    held_lives := Defined (Finite 3)\<rparr>)]\<rparr>]"
| "menu_on (LOAD_GAME savedState) =
     [\<lparr>guard = None, target = Some playing,
       actions = [assign (\<lambda>c e. merge_partial c
                    (case savedState of None \<Rightarrow> empty_partial | Some p \<Rightarrow> p))]\<rparr>]"
| "menu_on _ = []"

fun playing_on :: "GameEvent \<Rightarrow> (GameState, GameContext_object, GameEvent) transition list" where
  "playing_on (EARN_POINTS points) =
     [\<lparr>guard = None, target = None,
       actions = [assign (\<lambda>c e. c\<lparr>held_score :=
                    Defined (js_add (to_number (held_score c))
                               (if truthy_number points then points else Finite 100))\<rparr>)]\<rparr>]"
| "playing_on LOSE_LIFE =
     [\<lparr>guard = None, target = None,
       actions = [assign (\<lambda>c e. c\<lparr>held_lives :=
                    Defined (js_sub (to_number (held_lives c)) (Finite 1))\<rparr>)]\<rparr>]"
| "playing_on LEVEL_UP =
     [\<lparr>guard = None, target = None,
       actions = [assign (\<lambda>c e. c\<lparr>held_level :=
                                      Defined (js_add (to_number (held_level c)) (Finite 1)),
                                    held_lives :=
                                      Defined (js_add (to_number (held_lives c)) (Finite 1))\<rparr>)]\<rparr>]"
| "playing_on SAVE = [go savingFromPlaying]"
| "playing_on PAUSE = [go paused]"
| "playing_on _ = []"

fun paused_on :: "GameEvent \<Rightarrow> (GameState, GameContext_object, GameEvent) transition list" where
  "paused_on RESUME = [go playing]"
| "paused_on SAVE = [go savingFromPaused]"
| "paused_on QUIT = [go menu]"
| "paused_on _ = []"

text \<open>\<^verbatim>\<open>after: { 1000: 'playing' }\<close> and \<^verbatim>\<open>after: { 1000: 'paused' }\<close>.\<close>

fun savingFromPlaying_on :: "GameEvent \<Rightarrow> (GameState, GameContext_object, GameEvent) transition list" where
  "savingFromPlaying_on (game_after d s) =
     (if d = 1000 \<and> s = savingFromPlaying then [go playing] else [])"
| "savingFromPlaying_on _ = []"

fun savingFromPaused_on :: "GameEvent \<Rightarrow> (GameState, GameContext_object, GameEvent) transition list" where
  "savingFromPaused_on (game_after d s) =
     (if d = 1000 \<and> s = savingFromPaused then [go paused] else [])"
| "savingFromPaused_on _ = []"

fun gameOver_on :: "GameEvent \<Rightarrow> (GameState, GameContext_object, GameEvent) transition list" where
  "gameOver_on RESTART = [go menu]"
| "gameOver_on _ = []"

text \<open>
  The entry action of the two saving states calls \<^verbatim>\<open>saveGame(context)\<close>, which writes
  the file and leaves the context as it is; for the context it is \<open>console_log\<close>.
\<close>

fun game_states :: "GameState \<Rightarrow> (GameState, GameContext_object, GameEvent) state_node" where
  "game_states menu =
     \<lparr>entry = [console_log], exit = [], on = menu_on, always = [], final = False\<rparr>"
| "game_states playing =
     \<lparr>entry = [console_log], exit = [], on = playing_on,
      always = [\<lparr>guard = Some (\<lambda>c e. js_le (to_number (held_lives c)) (Finite 0)),
                 target = Some gameOver, actions = []\<rparr>],
      final = False\<rparr>"
| "game_states paused =
     \<lparr>entry = [console_log], exit = [], on = paused_on, always = [], final = False\<rparr>"
| "game_states savingFromPlaying =
     \<lparr>entry = [console_log], exit = [], on = savingFromPlaying_on, always = [], final = False\<rparr>"
| "game_states savingFromPaused =
     \<lparr>entry = [console_log], exit = [], on = savingFromPaused_on, always = [], final = False\<rparr>"
| "game_states gameOver =
     \<lparr>entry = [console_log], exit = [], on = gameOver_on, always = [], final = False\<rparr>"

definition gameMachine :: "(GameState, GameContext_object, GameEvent) machine" where
  "gameMachine =
     \<lparr>initial = menu,
      initial_context =
        context_object
          \<lparr>level = Finite 1, score = Finite 0, lives = Finite 3, playerName = ''Player''\<rparr>,
      states = game_states\<rparr>"

text \<open>
  The second scenario of the demo: a new actor is started, and \<^verbatim>\<open>LOAD_GAME\<close> is sent
  with what \<^verbatim>\<open>loadSavedGame()\<close> returned, if it returned a game.
\<close>

definition load_scenario :: "save_file \<Rightarrow> (GameState, GameContext_object) snapshot option" where
  "load_scenario file =
     (case start gameMachine game_init of
        None \<Rightarrow> None
      | Some newGameActor \<Rightarrow>
          (case loadSavedGame file of
             None \<Rightarrow> Some newGameActor
           | Some savedState \<Rightarrow>
               send gameMachine (LOAD_GAME (Some (as_partial savedState))) newGameActor))"

text \<open>
  An event whose payload sets \<^verbatim>\<open>lives\<close> to something no comparison holds for:
  \<^verbatim>\<open>LOAD_GAME\<close> with the key \<^verbatim>\<open>lives\<close> present and holding \<^verbatim>\<open>undefined\<close> or
  \<^verbatim>\<open>NaN\<close>.
\<close>

definition spoils_lives :: "GameEvent \<Rightarrow> bool" where
  "spoils_lives e =
     (case e of
        LOAD_GAME (Some p) \<Rightarrow> opt_lives p = Some Undefined \<or> opt_lives p = Some (Defined NaN)
      | _ \<Rightarrow> False)"

text \<open>
  What every snapshot of the order machine satisfies (an invariant used in the proofs):
  the counter stays between 0 and 3, it is 0 before the first payment, and a payment is
  only in progress while it is below 3.
\<close>

definition order_inv :: "(OrderState, OrderContext) snapshot \<Rightarrow> bool" where
  "order_inv snap \<longleftrightarrow>
     0 \<le> OrderContext.retryCount (ctx snap) \<and> OrderContext.retryCount (ctx snap) \<le> 3
     \<and> (state_value snap = processing_payment \<longrightarrow> OrderContext.retryCount (ctx snap) < 3)
     \<and> (state_value snap = pending \<or> state_value snap = confirmed
          \<longrightarrow> OrderContext.retryCount (ctx snap) = 0)"

text \<open>
  Counting along a run: the number of events whose handling took the machine from a
  state \<open>p\<close> to a state \<open>q\<close> with \<open>moved p q\<close>. It is \<open>None\<close> when the run does not
  settle.
\<close>

fun count_moves ::
  "('s \<Rightarrow> 's \<Rightarrow> bool) \<Rightarrow> ('s, 'c, 'e) machine \<Rightarrow> ('s, 'c) snapshot \<Rightarrow> 'e list
   \<Rightarrow> nat option" where
  "count_moves moved M snap [] = Some 0"
| "count_moves moved M snap (e # es) =
     (case send M e snap of
        None \<Rightarrow> None
      | Some snap' \<Rightarrow>
          (case count_moves moved M snap' es of
             None \<Rightarrow> None
           | Some n \<Rightarrow>
               Some ((if moved (state_value snap) (state_value snap') then 1 else 0) + n)))"

definition run_count ::
  "('s \<Rightarrow> 's \<Rightarrow> bool) \<Rightarrow> ('s, 'c, 'e) machine \<Rightarrow> 'e \<Rightarrow> 'e list \<Rightarrow> nat option" where
  "run_count moved M e0 es =
     (case start M e0 of None \<Rightarrow> None | Some snap \<Rightarrow> count_moves moved M snap es)"

text \<open>
  A payment attempt of the order machine begins when \<^verbatim>\<open>processing_payment\<close> is
  entered; a retry of the chat machine is a move from \<^verbatim>\<open>error\<close> back to
  \<^verbatim>\<open>calling_llm\<close>.
\<close>

definition starts_payment :: "OrderState \<Rightarrow> OrderState \<Rightarrow> bool" where
  "starts_payment p q \<longleftrightarrow> q = processing_payment \<and> p \<noteq> processing_payment"

definition retries_call :: "ChatState \<Rightarrow> ChatState \<Rightarrow> bool" where
  "retries_call p q \<longleftrightarrow> p = ChatState.error \<and> q = calling_llm"

text \<open>
  Invariants used in the proofs, with \<open>k\<close> the number of attempts (retries) counted so
  far: the order machine's counter is the number of failed attempts, the chat machine's
  counter is the number of retries.
\<close>

definition order_attempts_inv :: "nat \<Rightarrow> (OrderState, OrderContext) snapshot \<Rightarrow> bool" where
  "order_attempts_inv k snap \<longleftrightarrow>
     k \<le> 3
     \<and> (state_value snap = pending \<or> state_value snap = confirmed
          \<longrightarrow> k = 0 \<and> OrderContext.retryCount (ctx snap) = 0)
     \<and> (state_value snap = processing_payment
          \<longrightarrow> int k = OrderContext.retryCount (ctx snap) + 1)
     \<and> (state_value snap = payment_failed \<longrightarrow> int k = OrderContext.retryCount (ctx snap))"

definition chat_retries_inv :: "nat \<Rightarrow> (ChatState, ChatContext) snapshot \<Rightarrow> bool" where
  "chat_retries_inv k snap \<longleftrightarrow>
     k \<le> 3 \<and> int k = ChatContext.retryCount (ctx snap)
     \<and> (state_value snap = idle \<longrightarrow> k = 0)"


section \<open>Delayed transitions: the timer scheduler\<close>

text \<open>
  The delays that a state declares under \<^verbatim>\<open>after\<close>, and the event that the
  library delivers when the timer of delay \<open>d\<close> of state \<open>s\<close> fires at time \<open>t\<close>
  (milliseconds since the actor was started).
\<close>

record ('s, 'e) timing =
  delays :: "'s \<Rightarrow> nat list"
  timer_event :: "nat \<Rightarrow> 's \<Rightarrow> nat \<Rightarrow> 'e"

text \<open>\<^verbatim>\<open>after: { 1500: [...] }\<close> of the state \<^verbatim>\<open>error\<close> of \<^verbatim>\<open>chatMachine\<close>.\<close>

definition chat_timing :: "(ChatState, ChatEvent) timing" where
  "chat_timing =
     \<lparr>delays = (\<lambda>s. if s = ChatState.error then [1500] else []),
      timer_event = (\<lambda>d s t. chat_after d s)\<rparr>"

text \<open>
  \<^verbatim>\<open>after\<close> of the states \<^verbatim>\<open>processing_payment\<close>, \<^verbatim>\<open>payment_failed\<close> and
  \<^verbatim>\<open>shipping\<close> of \<^verbatim>\<open>orderMachine\<close>; \<open>draws t\<close> is what \<^verbatim>\<open>Math.random()\<close> returns
  to a guard evaluated at time \<open>t\<close>.
\<close>

definition order_timing :: "(nat \<Rightarrow> real) \<Rightarrow> (OrderState, OrderEvent) timing" where
  "order_timing draws =
     \<lparr>delays = (\<lambda>s. if s = processing_payment then [PAYMENT_DELAY_MS]
                     else if s = payment_failed then [RETRY_EVENT_DELAY_MS]
                     else if s = shipping then [SHIPPING_DELAY_MS]
                     else []),
      timer_event = (\<lambda>d s t. order_after d s (draws t))\<rparr>"

text \<open>\<^verbatim>\<open>after: { 1000: ... }\<close> of the two saving states of \<^verbatim>\<open>gameMachine\<close>.\<close>

definition game_timing :: "(GameState, GameEvent) timing" where
  "game_timing =
     \<lparr>delays = (\<lambda>s. if s = savingFromPlaying \<or> s = savingFromPaused then [1000] else []),
      timer_event = (\<lambda>d s t. game_after d s)\<rparr>"

text \<open>
  Modelled from the spec: \<^verbatim>\<open>xstate\<close>'s timer is missing. A timer is associated with
  a state and fires after a fixed delay (section 3). \<open>visit\<close> is the value that the
  generation counter of section 5 had when the timer was armed.
\<close>

record 's timer =
  armed_at :: nat
  delay :: nat
  owner :: 's
  visit :: nat

text \<open>
  Modelled from the spec: \<^verbatim>\<open>xstate\<close>'s actor with its clock is missing. A machine
  instance together with the time in milliseconds, the generation counter that is
  incremented on every state change (section 5), and the timers that are scheduled
  and not cancelled. \<open>deliveries\<close> is a log: each timer whose event was passed to
  \<^verbatim>\<open>send\<close>, with the state and the generation at that moment.
\<close>

record ('s, 'c) timed_actor =
  actor :: "('s, 'c) snapshot"
  clock :: nat
  generation :: nat
  timers :: "'s timer list"
  deliveries :: "('s timer \<times> 's \<times> nat) list"

text \<open>
  Modelled from the spec: \<^verbatim>\<open>xstate\<close>'s scheduling on entry is missing. On entering a
  state, a one-shot timer is scheduled for each delay it declares (section 4.3).
\<close>

definition arm :: "('s, 'e) timing \<Rightarrow> 's \<Rightarrow> nat \<Rightarrow> nat \<Rightarrow> 's timer list" where
  "arm T s t g = map (\<lambda>d. \<lparr>armed_at = t, delay = d, owner = s, visit = g\<rparr>) (delays T s)"

definition due :: "'s timer \<Rightarrow> nat" where
  "due tm = armed_at tm + delay tm"

text \<open>
  Modelled from the spec: \<^verbatim>\<open>xstate\<close>'s re-arming of timers is missing. After
  \<^verbatim>\<open>send\<close> has committed a step: when the state was exited, its timers are cancelled
  and those of the new state are armed; a machine that has reached a final state
  has all its timers cancelled (sections 3, 4.1 and 4.3). The state was exited when
  the step ended in another state: a transition without a target leaves no state,
  and in \<^verbatim>\<open>chatMachine\<close>, \<^verbatim>\<open>orderMachine\<close> and \<^verbatim>\<open>gameMachine\<close> every transition
  with a target ends in another state.
\<close>

definition after_step ::
  "('s, 'e) timing \<Rightarrow> ('s, 'c) timed_actor \<Rightarrow> ('s, 'c) snapshot \<Rightarrow> ('s, 'c) timed_actor" where
  "after_step T ta snap' =
     (if state_value snap' \<noteq> state_value (actor ta)
      then ta\<lparr>actor := snap', generation := generation ta + 1,
              timers := (if status snap' = Active
                         then arm T (state_value snap') (clock ta) (generation ta + 1)
                         else [])\<rparr>
      else ta\<lparr>actor := snap',
              timers := (if status snap' = Active then timers ta else [])\<rparr>)"

text \<open>
  Modelled from the spec: \<^verbatim>\<open>xstate\<close>'s \<^verbatim>\<open>createActor(machine).start()\<close> is missing.
  The timers of the initial state are armed at time 0.
\<close>

definition t_start ::
  "('s, 'e) timing \<Rightarrow> ('s, 'c, 'e) machine \<Rightarrow> 'e \<Rightarrow> ('s, 'c) timed_actor option" where
  "t_start T M e0 =
     (case start M e0 of
        None \<Rightarrow> None
      | Some snap \<Rightarrow>
          Some \<lparr>actor = snap, clock = 0, generation = 0,
                timers = (if status snap = Active then arm T (state_value snap) 0 0 else []),
                deliveries = []\<rparr>)"

text \<open>
  Modelled from the spec: \<^verbatim>\<open>xstate\<close>'s \<^verbatim>\<open>send\<close> is missing. \<^verbatim>\<open>send\<close> runs to
  completion, re-arming the timers, before anything else happens (sections 4.1
  and 5).
\<close>

definition t_send ::
  "('s, 'e) timing \<Rightarrow> ('s, 'c, 'e) machine \<Rightarrow> 'e \<Rightarrow> ('s, 'c) timed_actor
   \<Rightarrow> ('s, 'c) timed_actor option" where
  "t_send T M e ta =
     (case send M e (actor ta) of None \<Rightarrow> None | Some snap' \<Rightarrow> Some (after_step T ta snap'))"

text \<open>
  Modelled from the spec: \<^verbatim>\<open>xstate\<close>'s \<^verbatim>\<open>stop\<close> is missing. It cancels all pending
  timers and marks the machine inert (section 4.1).
\<close>

definition t_stop :: "('s, 'c) timed_actor \<Rightarrow> ('s, 'c) timed_actor" where
  "t_stop ta = ta\<lparr>actor := stop (actor ta), timers := []\<rparr>"

text \<open>
  Modelled from the spec: \<^verbatim>\<open>xstate\<close>'s timer callback is missing. A timer that is
  still scheduled is one-shot: it is removed, and its expiry is an event passed to
  \<^verbatim>\<open>send\<close> (sections 4.3 and 8). A timer that was cancelled does nothing.
\<close>

definition fire ::
  "('s, 'e) timing \<Rightarrow> ('s, 'c, 'e) machine \<Rightarrow> 's timer \<Rightarrow> ('s, 'c) timed_actor
   \<Rightarrow> ('s, 'c) timed_actor option" where
  "fire T M tm ta =
     (if tm \<in> set (timers ta)
      then t_send T M (timer_event T (delay tm) (owner tm) (clock ta))
             (ta\<lparr>timers := remove1 tm (timers ta),
                 deliveries := deliveries ta @ [(tm, state_value (actor ta), generation ta)]\<rparr>)
      else Some ta)"

fun fire_all ::
  "('s, 'e) timing \<Rightarrow> ('s, 'c, 'e) machine \<Rightarrow> 's timer list \<Rightarrow> ('s, 'c) timed_actor
   \<Rightarrow> ('s, 'c) timed_actor option" where
  "fire_all T M [] ta = Some ta"
| "fire_all T M (tm # tms) ta =
     (case fire T M tm ta of None \<Rightarrow> None | Some ta' \<Rightarrow> fire_all T M tms ta')"

text \<open>
  Modelled from the spec: the host's delay primitive is missing (section 6). One
  millisecond passes; the timers that are due by then fire in the order in which
  they were scheduled (section 5), each only if it is still scheduled when its
  turn comes.
\<close>

definition tick ::
  "('s, 'e) timing \<Rightarrow> ('s, 'c, 'e) machine \<Rightarrow> ('s, 'c) timed_actor
   \<Rightarrow> ('s, 'c) timed_actor option" where
  "tick T M ta =
     fire_all T M (filter (\<lambda>tm. due tm \<le> clock ta + 1) (timers ta))
       (ta\<lparr>clock := clock ta + 1\<rparr>)"

fun advance ::
  "('s, 'e) timing \<Rightarrow> ('s, 'c, 'e) machine \<Rightarrow> nat \<Rightarrow> ('s, 'c) timed_actor
   \<Rightarrow> ('s, 'c) timed_actor option" where
  "advance T M 0 ta = Some ta"
| "advance T M (Suc n) ta =
     (case tick T M ta of None \<Rightarrow> None | Some ta' \<Rightarrow> advance T M n ta')"

text \<open>
  What the owner of an actor does to it, one thing after the other: it sends an
  event, lets \<open>n\<close> milliseconds pass, or stops the actor.
\<close>

datatype 'e timed_op = Send 'e | Wait nat | Stop

definition t_apply ::
  "('s, 'e) timing \<Rightarrow> ('s, 'c, 'e) machine \<Rightarrow> 'e timed_op \<Rightarrow> ('s, 'c) timed_actor
   \<Rightarrow> ('s, 'c) timed_actor option" where
  "t_apply T M op ta =
     (case op of
        Send e \<Rightarrow> t_send T M e ta
      | Wait n \<Rightarrow> advance T M n ta
      | Stop \<Rightarrow> Some (t_stop ta))"

fun t_run ::
  "('s, 'e) timing \<Rightarrow> ('s, 'c, 'e) machine \<Rightarrow> ('s, 'c) timed_actor \<Rightarrow> 'e timed_op list
   \<Rightarrow> ('s, 'c) timed_actor option" where
  "t_run T M ta [] = Some ta"
| "t_run T M ta (op # ops) =
     (case t_apply T M op ta of None \<Rightarrow> None | Some ta' \<Rightarrow> t_run T M ta' ops)"

definition timed_run ::
  "('s, 'e) timing \<Rightarrow> ('s, 'c, 'e) machine \<Rightarrow> 'e \<Rightarrow> 'e timed_op list
   \<Rightarrow> ('s, 'c) timed_actor option" where
  "timed_run T M e0 ops =
     (case t_start T M e0 of None \<Rightarrow> None | Some ta \<Rightarrow> t_run T M ta ops)"

text \<open>
  Every scheduled timer belongs to the present visit of the present state of a
  running machine.
\<close>

definition timers_current :: "('s, 'e) timing \<Rightarrow> ('s, 'c) timed_actor \<Rightarrow> bool" where
  "timers_current T ta \<longleftrightarrow>
     (\<forall>tm \<in> set (timers ta).
        owner tm = state_value (actor ta) \<and> visit tm = generation ta
        \<and> status (actor ta) = Active \<and> armed_at tm \<le> clock ta
        \<and> delay tm \<in> set (delays T (owner tm)))"

text \<open>
  Every timer event that was deliveries was deliveries in the state that armed the
  timer, during the visit that armed it.
\<close>

definition deliveries_current :: "('s, 'c) timed_actor \<Rightarrow> bool" where
  "deliveries_current ta \<longleftrightarrow>
     (\<forall>x \<in> set (deliveries ta). owner (fst x) = fst (snd x) \<and> visit (fst x) = snd (snd x))"

text \<open>The deliveries of the timer \<open>tm\<close>.\<close>

definition deliveries_of :: "'s timer \<Rightarrow> ('s, 'c) timed_actor \<Rightarrow> ('s timer \<times> 's \<times> nat) list" where
  "deliveries_of tm ta = filter (\<lambda>x. fst x = tm) (deliveries ta)"

text \<open>
  The visit that armed \<open>tm\<close> is over, and \<open>D\<close> are the deliveries of \<open>tm\<close>.
\<close>

definition exited ::
  "('s, 'e) timing \<Rightarrow> 's timer \<Rightarrow> ('s timer \<times> 's \<times> nat) list \<Rightarrow> ('s, 'c) timed_actor \<Rightarrow> bool"
  where
  "exited T tm D ta \<longleftrightarrow>
     timers_current T ta \<and> visit tm < generation ta \<and> deliveries_of tm ta = D"

section \<open>Properties of the hand-written machines\<close>

lemma ToggleFSM_transition_declared:
  "currentState (ToggleFSM_transition e m) \<in> ToggleState \<or>
   ToggleFSM_transition e m = m"
  by (simp add: ToggleFSM_transition_def ToggleState_def)

lemma ToggleFSM_send_all_declared:
  "currentState m \<in> ToggleState \<Longrightarrow>
   currentState (send_all ToggleFSM_transition m es) \<in> ToggleState"
proof (induction es arbitrary: m)
  case Nil
  then show ?case by simp
next
  case (Cons e es)
  have "currentState (ToggleFSM_transition e m) \<in> ToggleState"
    using ToggleFSM_transition_declared [of e m] Cons.prems by auto
  then show ?case using Cons.IH by simp
qed

lemma TrafficLightFSM_transition_declared:
  assumes "currentState m \<in> Some ` TrafficState"
  shows "currentState (TrafficLightFSM_transition e m) \<in> Some ` TrafficState"
proof -
  from assms obtain s where s: "currentState m = Some s" "s \<in> TrafficState" by auto
  then consider "s = ''RED''" | "s = ''YELLOW''" | "s = ''GREEN''"
    by (auto simp: TrafficState_def)
  then show ?thesis
    using s assms
    by cases (simp_all add: TrafficLightFSM_transition_def TrafficLightFSM_transitions_def
        TrafficState_def)
qed

lemma TrafficLightFSM_send_all_declared:
  "currentState m \<in> Some ` TrafficState \<Longrightarrow>
   currentState (send_all TrafficLightFSM_transition m es) \<in> Some ` TrafficState"
proof (induction es arbitrary: m)
  case Nil
  then show ?case by simp
next
  case (Cons e es)
  then show ?case using TrafficLightFSM_transition_declared [of m e] by simp
qed

text \<open>
  Claim C3. A machine created in a declared initial state and sent any finite sequence
  of events (any strings, not only the declared event) is in a declared state after the
  whole sequence and after every prefix \<open>take n events\<close> of it. For the traffic light
  this says in particular that \<^verbatim>\<open>currentState\<close> never becomes \<^verbatim>\<open>undefined\<close>.
\<close>

theorem send_never_leaves_declared_states:
  assumes "t0 \<in> ToggleState" and "l0 \<in> TrafficState"
  shows "currentState (send_all ToggleFSM_transition (ToggleFSM_new (Some t0)) (take n events))
           \<in> ToggleState
       \<and> currentState (send_all ToggleFSM_transition (ToggleFSM_new None) (take n events))
           \<in> ToggleState
       \<and> currentState (send_all TrafficLightFSM_transition (TrafficLightFSM_new (Some l0))
            (take n events)) \<in> Some ` TrafficState
       \<and> currentState (send_all TrafficLightFSM_transition (TrafficLightFSM_new None)
            (take n events)) \<in> Some ` TrafficState"
proof -
  have a: "currentState (ToggleFSM_new (Some t0)) \<in> ToggleState"
    using assms(1) by (simp add: ToggleFSM_new_def)
  have b: "currentState (ToggleFSM_new None) \<in> ToggleState"
    by (simp add: ToggleFSM_new_def ToggleState_def)
  have c: "currentState (TrafficLightFSM_new (Some l0)) \<in> Some ` TrafficState"
    using assms(2) by (simp add: TrafficLightFSM_new_def)
  have d: "currentState (TrafficLightFSM_new None) \<in> Some ` TrafficState"
    by (simp add: TrafficLightFSM_new_def TrafficState_def)
  show ?thesis
    using ToggleFSM_send_all_declared [OF a] ToggleFSM_send_all_declared [OF b]
      TrafficLightFSM_send_all_declared [OF c] TrafficLightFSM_send_all_declared [OF d]
    by blast
qed

theorem send_never_leaves_declared_states_witness:
  "''ON'' \<in> ToggleState \<and> ''YELLOW'' \<in> TrafficState
   \<and> currentState (send_all ToggleFSM_transition (ToggleFSM_new (Some ''ON''))
        (take 2 [''TOGGLE'', ''RESET'', ''TOGGLE''])) = ''OFF''
   \<and> currentState (send_all ToggleFSM_transition (ToggleFSM_new (Some ''ON''))
        (take 2 [''TOGGLE'', ''RESET'', ''TOGGLE''])) \<in> ToggleState
   \<and> currentState (send_all TrafficLightFSM_transition (TrafficLightFSM_new (Some ''YELLOW''))
        (take 2 [''TOGGLE'', ''RESET'', ''TOGGLE''])) \<in> Some ` TrafficState"
proof -
  have t: "''ON'' \<in> ToggleState" by (simp add: ToggleState_def)
  have l: "''YELLOW'' \<in> TrafficState" by (simp add: TrafficState_def)
  have v: "currentState (send_all ToggleFSM_transition (ToggleFSM_new (Some ''ON''))
        (take 2 [''TOGGLE'', ''RESET'', ''TOGGLE''])) = ''OFF''"
    by (simp add: ToggleFSM_new_def ToggleFSM_transition_def)
  show ?thesis
    using t l v
      send_never_leaves_declared_states [OF t l, of 2 "[''TOGGLE'', ''RESET'', ''TOGGLE'']"]
    by simp
qed

text \<open>
  Claim C5. An event that no transition is declared for (any string other than
  \<^verbatim>\<open>'TOGGLE'\<close>, respectively \<^verbatim>\<open>'NEXT'\<close>) leaves the instance as it was. The method
  takes the \<^verbatim>\<open>else\<close> branch, which only calls \<^verbatim>\<open>console.warn\<close>: there is no
  \<^verbatim>\<open>throw\<close> on any path of either method, so the model has no error result.
\<close>

theorem unmatched_event_is_noop:
  "(event \<noteq> ''TOGGLE'' \<longrightarrow> ToggleFSM_transition event toggle = toggle)
 \<and> (event \<noteq> ''NEXT'' \<longrightarrow> TrafficLightFSM_transition event light = light)"
  by (simp add: ToggleFSM_transition_def TrafficLightFSM_transition_def)

theorem unmatched_event_is_noop_witness:
  "''NEXT'' \<noteq> ''TOGGLE''
 \<and> ToggleFSM_transition ''NEXT'' (ToggleFSM_new None) = ToggleFSM_new None
 \<and> ToggleFSM_getState (ToggleFSM_transition ''NEXT'' (ToggleFSM_new None)) = ''OFF''
 \<and> ''TOGGLE'' \<noteq> ''NEXT''
 \<and> TrafficLightFSM_transition ''TOGGLE'' (TrafficLightFSM_new None) = TrafficLightFSM_new None"
  using unmatched_event_is_noop [of "''NEXT''" "ToggleFSM_new None"]
    unmatched_event_is_noop [of "''TOGGLE''" _ "TrafficLightFSM_new None"]
  by (simp add: ToggleFSM_getState_def ToggleFSM_new_def)

text \<open>
  Claim C6. The toggle demo: \<^verbatim>\<open>new ToggleFSM()\<close> starts in \<^verbatim>\<open>OFF\<close>; three
  \<^verbatim>\<open>TOGGLE\<close> events are observed as \<^verbatim>\<open>ON, OFF, ON\<close>, and the final state is \<^verbatim>\<open>ON\<close>.
\<close>

theorem toggle_scenario:
  "ToggleFSM_getState (ToggleFSM_new None) = ''OFF''
 \<and> observed ToggleFSM_transition ToggleFSM_getState (ToggleFSM_new None)
      [''TOGGLE'', ''TOGGLE'', ''TOGGLE''] = [''ON'', ''OFF'', ''ON'']
 \<and> ToggleFSM_getState (send_all ToggleFSM_transition (ToggleFSM_new None)
      [''TOGGLE'', ''TOGGLE'', ''TOGGLE'']) = ''ON''"
  by (simp add: ToggleFSM_getState_def ToggleFSM_new_def ToggleFSM_transition_def)

text \<open>
  Claim C7. The traffic light: \<^verbatim>\<open>new TrafficLightFSM()\<close> starts in \<^verbatim>\<open>RED\<close>; four
  \<^verbatim>\<open>NEXT\<close> events are observed as \<^verbatim>\<open>GREEN, YELLOW, RED, GREEN\<close>.
\<close>

theorem traffic_light_scenario:
  "TrafficLightFSM_getState (TrafficLightFSM_new None) = Some ''RED''
 \<and> observed TrafficLightFSM_transition TrafficLightFSM_getState (TrafficLightFSM_new None)
      [''NEXT'', ''NEXT'', ''NEXT'', ''NEXT'']
    = [Some ''GREEN'', Some ''YELLOW'', Some ''RED'', Some ''GREEN'']"
  by (simp add: TrafficLightFSM_getState_def TrafficLightFSM_new_def
      TrafficLightFSM_transition_def TrafficLightFSM_transitions_def)

section \<open>Running a machine: when the eventless transitions settle\<close>

lemma settle_rest:
  "status snap \<noteq> Active \<or> resolve (always (states M (state_value snap))) (ctx snap) e = None
   \<Longrightarrow> settle M e snap = Some snap"
  by (subst settle.simps) auto

lemma settle_fire:
  "status snap = Active \<Longrightarrow>
   resolve (always (states M (state_value snap))) (ctx snap) e = Some t \<Longrightarrow>
   settle M e snap = settle M e (microstep M t e snap)"
  by (subst settle.simps) simp

lemma game_always_resolve:
  "resolve (always (states gameMachine s)) c e =
     (if s = playing \<and> js_le (to_number (held_lives c)) (Finite 0)
      then Some \<lparr>guard = Some (\<lambda>c e. js_le (to_number (held_lives c)) (Finite 0)), target = Some gameOver, actions = []\<rparr>
      else None)"
  by (cases s) (simp_all add: gameMachine_def resolve_def guard_passes_def)

lemma game_settle:
  "settle gameMachine e snap =
     Some (if status snap = Active \<and> state_value snap = playing \<and> js_le (to_number (held_lives (ctx snap))) (Finite 0)
           then \<lparr>state_value = gameOver, ctx = ctx snap, status = Active\<rparr> else snap)"
proof (cases "status snap = Active \<and> state_value snap = playing \<and> js_le (to_number (held_lives (ctx snap))) (Finite 0)")
  case True
  let ?t = "\<lparr>guard = Some (\<lambda>c e. js_le (to_number (held_lives c)) (Finite 0)), target = Some gameOver, actions = []\<rparr> :: (GameState, GameContext_object, GameEvent) transition"
  have r: "resolve (always (states gameMachine (state_value snap))) (ctx snap) e = Some ?t"
    using True by (simp add: game_always_resolve)
  have m: "microstep gameMachine ?t e snap = \<lparr>state_value = gameOver, ctx = ctx snap, status = Active\<rparr>"
    using True by (simp add: microstep_def enter_def gameMachine_def console_log_def)
  have "settle gameMachine e snap = settle gameMachine e (microstep gameMachine ?t e snap)"
    using True r by (intro settle_fire) simp_all
  also have "\<dots> = Some \<lparr>state_value = gameOver, ctx = ctx snap, status = Active\<rparr>"
    unfolding m by (rule settle_rest) (simp add: game_always_resolve)
  finally show ?thesis using True by simp
next
  case False
  then have "settle gameMachine e snap = Some snap"
    by (intro settle_rest) (auto simp: game_always_resolve)
  then show ?thesis using False by auto
qed

lemma game_microstep_active:
  "status snap = Active \<Longrightarrow> status (microstep gameMachine t e snap) = Active"
proof (cases "target t")
  case None then show ?thesis if "status snap = Active" using that by (simp add: microstep_def)
next
  case (Some s)
  then show ?thesis if "status snap = Active" using that
    by (cases s) (simp_all add: microstep_def enter_def gameMachine_def)
qed

lemma game_send_rests:
  assumes "status snap = Active"
  shows "\<exists>snap'. send gameMachine e snap = Some snap' \<and> status snap' = Active
           \<and> \<not> (state_value snap' = playing \<and> js_le (to_number (held_lives (ctx snap'))) (Finite 0))"
proof -
  define mid where "mid = (case resolve (on (states gameMachine (state_value snap)) e) (ctx snap) e of
                None \<Rightarrow> snap | Some t \<Rightarrow> microstep gameMachine t e snap)"
  have a: "status mid = Active"
    using assms by (simp add: mid_def game_microstep_active split: option.split)
  have s: "send gameMachine e snap = settle gameMachine e mid"
    using assms by (simp add: send_def mid_def)
  show ?thesis unfolding s game_settle using a by simp
qed

lemma game_start:
  "start gameMachine game_init =
     Some \<lparr>state_value = menu,
           ctx = context_object
                  \<lparr>level = Finite 1, score = Finite 0, lives = Finite 3, playerName = ''Player''\<rparr>,
           status = Active\<rparr>"
  unfolding start_def game_settle
  by (simp add: enter_def gameMachine_def console_log_def)

lemma game_send_events_rests:
  "status snap = Active \<Longrightarrow>
   \<not> (state_value snap = playing \<and> js_le (to_number (held_lives (ctx snap))) (Finite 0)) \<Longrightarrow>
   \<exists>snap'. send_events gameMachine snap es = Some snap' \<and> status snap' = Active
           \<and> \<not> (state_value snap' = playing \<and> js_le (to_number (held_lives (ctx snap'))) (Finite 0))"
proof (induction es arbitrary: snap)
  case Nil
  then show ?case by simp
next
  case (Cons e es)
  from game_send_rests [OF Cons.prems(1), of e] obtain mid where
    m: "send gameMachine e snap = Some mid" "status mid = Active"
       "\<not> (state_value mid = playing \<and> js_le (to_number (held_lives (ctx mid))) (Finite 0))" by blast
  from Cons.IH [OF m(2) m(3)] m(1) show ?case by simp
qed

lemma js_add_one_not_NaN: "x \<noteq> NaN \<Longrightarrow> js_add x (Finite a) \<noteq> NaN"
  by (cases x) simp_all

lemma js_sub_one_not_NaN: "x \<noteq> NaN \<Longrightarrow> js_sub x (Finite a) \<noteq> NaN"
  by (cases x) (simp_all add: js_sub_def)

lemma to_number_eq:
  "to_number (Defined n) = n" "to_number Undefined = NaN"
  by (simp_all add: to_number_def)

lemma to_number_NaN_iff: "to_number x = NaN \<longleftrightarrow> x = Undefined \<or> x = Defined NaN"
  by (cases x) (simp_all add: to_number_def)

lemma game_send_lives_not_NaN:
  assumes "status snap = Active" "to_number (held_lives (ctx snap)) \<noteq> NaN" "\<not> spoils_lives e"
    "send gameMachine e snap = Some snap'"
  shows "to_number (held_lives (ctx snap')) \<noteq> NaN"
proof -
  define mid where "mid = (case resolve (on (states gameMachine (state_value snap)) e) (ctx snap) e of
                None \<Rightarrow> snap | Some t \<Rightarrow> microstep gameMachine t e snap)"
  have s: "send gameMachine e snap = settle gameMachine e mid"
    using assms(1) by (simp add: send_def mid_def)
  have l: "to_number (held_lives (ctx mid)) \<noteq> NaN"
    unfolding mid_def using assms(2,3)
    by (cases "state_value snap"; cases e)
      (auto simp: gameMachine_def resolve_def guard_passes_def microstep_def enter_def go_def
        assign_def console_log_def merge_partial_def empty_partial_def spoils_lives_def
        js_add_one_not_NaN js_sub_one_not_NaN to_number_eq to_number_NaN_iff
        split: option.splits)
  show ?thesis using assms(4) l unfolding s game_settle by (auto split: if_splits)
qed

lemma not_le_not_NaN: "x \<noteq> NaN \<Longrightarrow> \<not> js_le x (Finite 0) \<Longrightarrow> js_lt (Finite 0) x"
  by (cases x) simp_all

section \<open>Properties of the game\<close>

text \<open>
  Claim C9. Whatever events the game receives after its start (with payloads of their
  declared types), it settles; it never rests in \<^verbatim>\<open>playing\<close> with
  \<^verbatim>\<open>lives <= 0\<close>, because the eventless transition of \<^verbatim>\<open>playing\<close> is taken at
  once; and when no \<^verbatim>\<open>LOAD_GAME\<close> payload set \<^verbatim>\<open>lives\<close> to \<^verbatim>\<open>undefined\<close> or
  to \<^verbatim>\<open>NaN\<close>, then in every settled \<^verbatim>\<open>playing\<close> state \<^verbatim>\<open>lives\<close> is a number
  and \<^verbatim>\<open>lives > 0\<close> holds.
\<close>

theorem playing_never_rests_without_lives:
  "\<exists>snap. run gameMachine game_init events = Some snap \<and> status snap = Active
     \<and> \<not> (state_value snap = playing \<and> js_le (to_number (held_lives (ctx snap))) (Finite 0))
     \<and> ((\<forall>e \<in> set events. \<not> spoils_lives e) \<longrightarrow> state_value snap = playing
          \<longrightarrow> (\<exists>n. held_lives (ctx snap) = Defined n \<and> js_lt (Finite 0) n))"
proof -
  let ?s0 = "\<lparr>state_value = menu,
           ctx = context_object
                  \<lparr>level = Finite 1, score = Finite 0, lives = Finite 3, playerName = ''Player''\<rparr>,
           status = Active\<rparr>"
  have r: "run gameMachine game_init events = send_events gameMachine ?s0 events"
    by (simp add: run_def game_start)
  obtain snap where s: "send_events gameMachine ?s0 events = Some snap" "status snap = Active"
      "\<not> (state_value snap = playing \<and> js_le (to_number (held_lives (ctx snap))) (Finite 0))"
    using game_send_events_rests [of ?s0 events] by auto
  have n: "to_number (held_lives (ctx snap')) \<noteq> NaN"
    if "\<forall>e \<in> set es. \<not> spoils_lives e" "status s = Active" "to_number (held_lives (ctx s)) \<noteq> NaN"
       "send_events gameMachine s es = Some snap'" for es s snap'
    using that
  proof (induction es arbitrary: s)
    case Nil
    then show ?case by simp
  next
    case (Cons e es)
    from game_send_rests [OF Cons.prems(2), of e] obtain mid where
      m: "send gameMachine e s = Some mid" "status mid = Active" by blast
    have "to_number (held_lives (ctx mid)) \<noteq> NaN"
      using game_send_lives_not_NaN [OF Cons.prems(2,3) _ m(1)] Cons.prems(1) by simp
    then show ?case using Cons.IH [of mid] Cons.prems m by simp
  qed
  have "\<exists>n. held_lives (ctx snap) = Defined n \<and> js_lt (Finite 0) n"
    if "\<forall>e \<in> set events. \<not> spoils_lives e" "state_value snap = playing"
  proof -
    have a: "to_number (held_lives (ctx snap)) \<noteq> NaN"
      using n [OF that(1) _ _ s(1)] by (simp add: context_object_def to_number_def)
    then obtain k where k: "held_lives (ctx snap) = Defined k"
      by (cases "held_lives (ctx snap)") (simp_all add: to_number_def)
    with a s(3) that(2) not_le_not_NaN [of k] show ?thesis by (simp add: to_number_def)
  qed
  then show ?thesis using r s by auto
qed

lemma game_run_eval:
  "run gameMachine game_init [NEW_GAME, LOSE_LIFE, LOSE_LIFE]
     = Some \<lparr>state_value = playing,
          ctx = context_object
                  \<lparr>level = Finite 1, score = Finite 0, lives = Finite 1, playerName = ''Player''\<rparr>,
          status = Active\<rparr>"
  by code_simp

lemma game_run_eval2:
  "run gameMachine game_init [NEW_GAME, LOSE_LIFE, LOSE_LIFE, LOSE_LIFE]
     = Some \<lparr>state_value = gameOver,
          ctx = context_object
                  \<lparr>level = Finite 1, score = Finite 0, lives = Finite 0, playerName = ''Player''\<rparr>,
          status = Active\<rparr>"
  by code_simp

theorem playing_never_rests_without_lives_witness:
  "\<not> spoils_lives NEW_GAME \<and> \<not> spoils_lives LOSE_LIFE
   \<and> run gameMachine game_init [NEW_GAME, LOSE_LIFE, LOSE_LIFE]
       = Some \<lparr>state_value = playing,
            ctx = context_object
                  \<lparr>level = Finite 1, score = Finite 0, lives = Finite 1, playerName = ''Player''\<rparr>,
            status = Active\<rparr>
   \<and> held_lives (context_object
         \<lparr>level = Finite 1, score = Finite 0, lives = Finite 1, playerName = ''Player''\<rparr>)
       = Defined (Finite 1)
   \<and> js_lt (Finite 0) (Finite 1)
   \<and> run gameMachine game_init [NEW_GAME, LOSE_LIFE, LOSE_LIFE, LOSE_LIFE]
       = Some \<lparr>state_value = gameOver,
            ctx = context_object
                  \<lparr>level = Finite 1, score = Finite 0, lives = Finite 0, playerName = ''Player''\<rparr>,
            status = Active\<rparr>"
  using playing_never_rests_without_lives [of "[NEW_GAME, LOSE_LIFE, LOSE_LIFE]"]
    game_run_eval game_run_eval2
  by (simp add: spoils_lives_def context_object_def)

text \<open>
  For C9 as it is stated (\<^verbatim>\<open>lives > 0\<close> in every settled \<^verbatim>\<open>playing\<close> state):
  \<^verbatim>\<open>LOAD_GAME\<close> with \<^verbatim>\<open>lives: NaN\<close> leaves the machine in \<^verbatim>\<open>playing\<close>, since
  \<^verbatim>\<open>NaN <= 0\<close> is false, and \<^verbatim>\<open>NaN > 0\<close> is false as well. So does
  \<^verbatim>\<open>LOAD_GAME\<close> with \<^verbatim>\<open>lives: undefined\<close>, and a following \<^verbatim>\<open>LOSE_LIFE\<close> turns
  \<^verbatim>\<open>lives\<close> into \<^verbatim>\<open>NaN\<close>, still in \<^verbatim>\<open>playing\<close>.
\<close>

theorem playing_with_NaN_lives_counterexample:
  "run gameMachine game_init
     [LOAD_GAME (Some \<lparr>opt_level = None, opt_score = None, opt_lives = Some (Defined NaN),
                       opt_playerName = None\<rparr>)]
     = Some \<lparr>state_value = playing,
          ctx = \<lparr>held_level = Defined (Finite 1), held_score = Defined (Finite 0),
                 held_lives = Defined NaN, held_playerName = Defined ''Player''\<rparr>,
          status = Active\<rparr>
   \<and> \<not> js_lt (Finite 0) (to_number (Defined NaN))
   \<and> \<not> js_le (to_number (Defined NaN)) (Finite 0)
   \<and> run gameMachine game_init
     [LOAD_GAME (Some \<lparr>opt_level = None, opt_score = None, opt_lives = Some Undefined,
                       opt_playerName = None\<rparr>)]
     = Some \<lparr>state_value = playing,
          ctx = \<lparr>held_level = Defined (Finite 1), held_score = Defined (Finite 0),
                 held_lives = Undefined, held_playerName = Defined ''Player''\<rparr>,
          status = Active\<rparr>
   \<and> \<not> js_lt (Finite 0) (to_number Undefined)
   \<and> run gameMachine game_init
     [LOAD_GAME (Some \<lparr>opt_level = None, opt_score = None, opt_lives = Some Undefined,
                       opt_playerName = None\<rparr>),
      LOSE_LIFE]
     = Some \<lparr>state_value = playing,
          ctx = \<lparr>held_level = Defined (Finite 1), held_score = Defined (Finite 0),
                 held_lives = Defined NaN, held_playerName = Defined ''Player''\<rparr>,
          status = Active\<rparr>"
  by code_simp

section \<open>Properties of the save file\<close>

lemma array_index_names:
  "array_index ''level'' = None" "array_index ''score'' = None"
  "array_index ''lives'' = None" "array_index ''playerName'' = None"
  by (simp_all add: array_index_def digit_value_def)

lemma typeof_number: "typeof v = ''number'' \<longleftrightarrow> (\<exists>n. v = JNumber n)"
  by (cases v) simp_all

lemma typeof_string: "typeof v = ''string'' \<longleftrightarrow> (\<exists>s. v = JString s)"
  by (cases v) simp_all

lemma isRecord_iff: "isRecord v \<longleftrightarrow> (\<exists>ps. v = JObject ps) \<or> (\<exists>xs. v = JArray xs)"
  by (cases v) (simp_all add: isRecord_def)

lemma parseSavedGame_array: "parseSavedGame (JArray xs) = None"
  by (simp add: parseSavedGame_def array_index_names)

lemma parseSavedGame_fields:
  assumes "isRecord data"
    "get_property data ''level'' = JNumber l" "get_property data ''score'' = JNumber s"
    "get_property data ''lives'' = JNumber v" "get_property data ''playerName'' = JString p"
  shows "parseSavedGame data = Some \<lparr>level = l, score = s, lives = v, playerName = p\<rparr>"
  using assms by (simp add: parseSavedGame_def)

lemma parseSavedGame_rejects:
  assumes "\<not> (isRecord data
        \<and> typeof (get_property data ''level'') = ''number''
        \<and> typeof (get_property data ''score'') = ''number''
        \<and> typeof (get_property data ''lives'') = ''number''
        \<and> typeof (get_property data ''playerName'') = ''string'')"
  shows "parseSavedGame data = None"
  using assms by (auto simp: parseSavedGame_def Let_def)

lemma parseSavedGame_None_iff:
  "parseSavedGame data = None \<longleftrightarrow>
     \<not> (isRecord data
        \<and> typeof (get_property data ''level'') = ''number''
        \<and> typeof (get_property data ''score'') = ''number''
        \<and> typeof (get_property data ''lives'') = ''number''
        \<and> typeof (get_property data ''playerName'') = ''string'')"
proof
  assume n: "parseSavedGame data = None"
  show "\<not> (isRecord data
        \<and> typeof (get_property data ''level'') = ''number''
        \<and> typeof (get_property data ''score'') = ''number''
        \<and> typeof (get_property data ''lives'') = ''number''
        \<and> typeof (get_property data ''playerName'') = ''string'')"
  proof
    assume a: "isRecord data
        \<and> typeof (get_property data ''level'') = ''number''
        \<and> typeof (get_property data ''score'') = ''number''
        \<and> typeof (get_property data ''lives'') = ''number''
        \<and> typeof (get_property data ''playerName'') = ''string''"
    then obtain l s v p where
      "get_property data ''level'' = JNumber l" "get_property data ''score'' = JNumber s"
      "get_property data ''lives'' = JNumber v" "get_property data ''playerName'' = JString p"
      unfolding typeof_number typeof_string by blast
    with a n parseSavedGame_fields show False by fastforce
  qed
next
  assume "\<not> (isRecord data
        \<and> typeof (get_property data ''level'') = ''number''
        \<and> typeof (get_property data ''score'') = ''number''
        \<and> typeof (get_property data ''lives'') = ''number''
        \<and> typeof (get_property data ''playerName'') = ''string'')"
  then show "parseSavedGame data = None" by (rule parseSavedGame_rejects)
qed

lemma parseSavedGame_Some_iff:
  "parseSavedGame data = Some c \<longleftrightarrow>
     isRecord data
     \<and> get_property data ''level'' = JNumber (level c)
     \<and> get_property data ''score'' = JNumber (score c)
     \<and> get_property data ''lives'' = JNumber (lives c)
     \<and> get_property data ''playerName'' = JString (playerName c)"
proof
  assume s: "parseSavedGame data = Some c"
  then have "parseSavedGame data \<noteq> None" by simp
  then have a: "isRecord data"
    and t: "typeof (get_property data ''level'') = ''number''"
        "typeof (get_property data ''score'') = ''number''"
        "typeof (get_property data ''lives'') = ''number''"
        "typeof (get_property data ''playerName'') = ''string''"
    unfolding parseSavedGame_None_iff by simp_all
  from t obtain l s' v p where g:
      "get_property data ''level'' = JNumber l" "get_property data ''score'' = JNumber s'"
      "get_property data ''lives'' = JNumber v" "get_property data ''playerName'' = JString p"
    unfolding typeof_number typeof_string by blast
  from parseSavedGame_fields [OF a g] s have "c = \<lparr>level = l, score = s', lives = v, playerName = p\<rparr>"
    by simp
  with a g show "isRecord data
     \<and> get_property data ''level'' = JNumber (level c)
     \<and> get_property data ''score'' = JNumber (score c)
     \<and> get_property data ''lives'' = JNumber (lives c)
     \<and> get_property data ''playerName'' = JString (playerName c)" by simp
next
  assume "isRecord data
     \<and> get_property data ''level'' = JNumber (level c)
     \<and> get_property data ''score'' = JNumber (score c)
     \<and> get_property data ''lives'' = JNumber (lives c)
     \<and> get_property data ''playerName'' = JString (playerName c)"
  then have "parseSavedGame data = Some \<lparr>level = level c, score = score c, lives = lives c, playerName = playerName c\<rparr>"
    by (intro parseSavedGame_fields) simp_all
  then show "parseSavedGame data = Some c" by simp
qed

lemma parse_saveData:
  assumes "isFinite (level c)" "isFinite (score c)" "isFinite (lives c)"
  shows "parseSavedGame (JSON_parse (saveData c savedAt)) = Some (c :: GameContext)"
proof -
  from assms obtain l s v where f: "level c = Finite l" "score c = Finite s" "lives c = Finite v"
    by (auto simp: isFinite_def split: number.splits)
  have "parseSavedGame (JSON_parse (saveData c savedAt))
          = Some \<lparr>level = Finite l, score = Finite s, lives = Finite v, playerName = playerName c\<rparr>"
    by (rule parseSavedGame_fields)
       (simp_all add: saveData_def f JSON_stringify_number_def JSON_stringify_string_def
          isRecord_def)
  then show ?thesis using f by simp
qed

lemma game_send_LOAD_GAME:
  "send gameMachine (LOAD_GAME (Some (as_partial c)))
      \<lparr>state_value = menu, ctx = c0, status = Active\<rparr>
     = Some \<lparr>state_value = (if js_le (lives c) (Finite 0) then gameOver else playing),
             ctx = context_object c, status = Active\<rparr>"
proof -
  have m: "(case resolve (on (states gameMachine menu) (LOAD_GAME (Some (as_partial c)))) c0
                 (LOAD_GAME (Some (as_partial c))) of
              None \<Rightarrow> \<lparr>state_value = menu, ctx = c0, status = Active\<rparr>
            | Some t \<Rightarrow> microstep gameMachine t (LOAD_GAME (Some (as_partial c)))
                         \<lparr>state_value = menu, ctx = c0, status = Active\<rparr>)
           = \<lparr>state_value = playing, ctx = context_object c, status = Active\<rparr>"
    by (simp add: gameMachine_def resolve_def guard_passes_def microstep_def enter_def
        assign_def console_log_def merge_partial_def as_partial_def context_object_def)
  show ?thesis
    unfolding send_def game_settle
    by (simp add: m context_object_def to_number_def)
qed

text \<open>
  Claim C8. A context whose \<^verbatim>\<open>level\<close>, \<^verbatim>\<open>score\<close> and \<^verbatim>\<open>lives\<close> are finite
  survives the round trip: \<^verbatim>\<open>parseSavedGame\<close> reads back from the document that
  \<^verbatim>\<open>saveGame\<close> writes exactly the context that was saved, \<^verbatim>\<open>loadSavedGame\<close> returns
  it after a successful write whatever the file held before, and a new actor that is
  sent \<^verbatim>\<open>LOAD_GAME\<close> with it has that context (in \<^verbatim>\<open>playing\<close>, or in
  \<^verbatim>\<open>gameOver\<close> when the saved game had no life left).
\<close>

theorem save_then_load_restores_context:
  fixes c :: GameContext
  assumes "isFinite (level c)" "isFinite (score c)" "isFinite (lives c)"
  shows "parseSavedGame (JSON_parse (saveData c savedAt)) = Some c
       \<and> loadSavedGame (saveGame c savedAt True file) = Some c
       \<and> load_scenario (saveGame c savedAt True file)
           = Some \<lparr>state_value = (if js_le (lives c) (Finite 0) then gameOver else playing),
                   ctx = context_object c, status = Active\<rparr>"
proof -
  have p: "parseSavedGame (JSON_parse (saveData c savedAt)) = Some c"
    using assms by (rule parse_saveData)
  have l: "loadSavedGame (saveGame c savedAt True file) = Some c"
    by (simp add: loadSavedGame_def saveGame_def p)
  have "load_scenario (saveGame c savedAt True file)
           = Some \<lparr>state_value = (if js_le (lives c) (Finite 0) then gameOver else playing),
                   ctx = context_object c, status = Active\<rparr>"
    unfolding load_scenario_def game_start l by (simp add: game_send_LOAD_GAME)
  with p l show ?thesis by simp
qed

theorem save_then_load_restores_context_witness:
  "isFinite (Finite 2) \<and> isFinite (Finite 550) \<and> isFinite (Finite 4)
   \<and> loadSavedGame (saveGame \<lparr>level = Finite 2, score = Finite 550, lives = Finite 4,
        playerName = ''Player''\<rparr> ''2026-01-01T00:00:00.000Z'' True Missing)
      = Some \<lparr>level = Finite 2, score = Finite 550, lives = Finite 4, playerName = ''Player''\<rparr>
   \<and> load_scenario (saveGame \<lparr>level = Finite 2, score = Finite 550, lives = Finite 4,
        playerName = ''Player''\<rparr> ''2026-01-01T00:00:00.000Z'' True Missing)
      = Some \<lparr>state_value = playing,
          ctx = context_object
                  \<lparr>level = Finite 2, score = Finite 550, lives = Finite 4, playerName = ''Player''\<rparr>,
          status = Active\<rparr>"
  using save_then_load_restores_context
    [of "\<lparr>level = Finite 2, score = Finite 550, lives = Finite 4, playerName = ''Player''\<rparr>"
        "''2026-01-01T00:00:00.000Z''" Missing]
  by (simp add: isFinite_def)

text \<open>
  For C8 as it is stated (every \<^verbatim>\<open>GameContext\<close>): a score of \<^verbatim>\<open>Infinity\<close> is
  written as \<^verbatim>\<open>null\<close>, the document is rejected when it is read back, no
  \<^verbatim>\<open>LOAD_GAME\<close> is sent and the new actor stays in the menu with the initial context.
\<close>

theorem save_infinite_score_counterexample:
  "parseSavedGame (JSON_parse (saveData \<lparr>level = Finite 2, score = PosInfinity,
        lives = Finite 4, playerName = ''Player''\<rparr> ''2026-01-01T00:00:00.000Z'')) = None
   \<and> loadSavedGame (saveGame \<lparr>level = Finite 2, score = PosInfinity, lives = Finite 4,
        playerName = ''Player''\<rparr> ''2026-01-01T00:00:00.000Z'' True Missing) = None
   \<and> load_scenario (saveGame \<lparr>level = Finite 2, score = PosInfinity, lives = Finite 4,
        playerName = ''Player''\<rparr> ''2026-01-01T00:00:00.000Z'' True Missing)
      = Some \<lparr>state_value = menu,
          ctx = context_object
                  \<lparr>level = Finite 1, score = Finite 0, lives = Finite 3, playerName = ''Player''\<rparr>,
          status = Active\<rparr>"
  by code_simp

text \<open>
  Claim C10. \<^verbatim>\<open>parseSavedGame\<close> returns a context exactly when its argument is an
  object (not \<^verbatim>\<open>null\<close>) whose \<^verbatim>\<open>level\<close>, \<^verbatim>\<open>score\<close> and \<^verbatim>\<open>lives\<close> are numbers
  and whose \<^verbatim>\<open>playerName\<close> is a string, and the context has these four values; for
  every other argument, an array among them, it returns \<^verbatim>\<open>null\<close>. \<^verbatim>\<open>loadSavedGame\<close> returns \<^verbatim>\<open>null\<close>
  for a missing, unreadable or malformed file and otherwise what \<^verbatim>\<open>parseSavedGame\<close>
  returns for the parsed document; and when it returns \<^verbatim>\<open>null\<close>, the new actor is
  left as it started: in the menu, with the initial context.
\<close>

theorem parseSavedGame_total:
  "(parseSavedGame data = Some c \<longleftrightarrow>
      isRecord data
      \<and> get_property data ''level'' = JNumber (level c)
      \<and> get_property data ''score'' = JNumber (score c)
      \<and> get_property data ''lives'' = JNumber (lives c)
      \<and> get_property data ''playerName'' = JString (playerName c))
 \<and> (parseSavedGame data = None \<longleftrightarrow>
      \<not> (isRecord data
         \<and> typeof (get_property data ''level'') = ''number''
         \<and> typeof (get_property data ''score'') = ''number''
         \<and> typeof (get_property data ''lives'') = ''number''
         \<and> typeof (get_property data ''playerName'') = ''string''))
 \<and> (isRecord data \<longleftrightarrow> (\<exists>ps. data = JObject ps) \<or> (\<exists>xs. data = JArray xs))
 \<and> parseSavedGame (JArray elements) = None
 \<and> loadSavedGame Missing = None
 \<and> loadSavedGame Unreadable = None
 \<and> loadSavedGame HoldsGarbage = None
 \<and> loadSavedGame (Holds document) = parseSavedGame (JSON_parse document)
 \<and> (loadSavedGame file = None \<longrightarrow>
      load_scenario file
        = Some \<lparr>state_value = menu,
             ctx = context_object
                  \<lparr>level = Finite 1, score = Finite 0, lives = Finite 3,
                    playerName = ''Player''\<rparr>,
             status = Active\<rparr>)"
proof -
  have a: "loadSavedGame (Holds document) = parseSavedGame (JSON_parse document)"
    by (simp add: loadSavedGame_def split: option.split)
  have b: "loadSavedGame file = None \<longrightarrow>
      load_scenario file
        = Some \<lparr>state_value = menu,
             ctx = context_object
                  \<lparr>level = Finite 1, score = Finite 0, lives = Finite 3,
                    playerName = ''Player''\<rparr>,
             status = Active\<rparr>"
    by (simp add: load_scenario_def game_start)
  show ?thesis
    using parseSavedGame_Some_iff [of data c] parseSavedGame_None_iff [of data]
      isRecord_iff [of data] a b parseSavedGame_array [of elements]
    by (simp add: loadSavedGame_def)
qed

theorem parseSavedGame_total_witness:
  "parseSavedGame (JObject [(''level'', JNumber (Finite 2)), (''score'', JNumber (Finite 550)),
       (''lives'', JNumber (Finite 4)), (''playerName'', JString ''Player''),
       (''savedAt'', JString ''2026-01-01T00:00:00.000Z'')])
     = Some \<lparr>level = Finite 2, score = Finite 550, lives = Finite 4, playerName = ''Player''\<rparr>
   \<and> parseSavedGame (JObject [(''level'', JString ''2''), (''score'', JNumber (Finite 550)),
       (''lives'', JNumber (Finite 4)), (''playerName'', JString ''Player'')]) = None
   \<and> parseSavedGame (JArray [JNumber (Finite 2)]) = None
   \<and> parseSavedGame JNull = None
   \<and> loadSavedGame (Holds (JsonObject [(''level'', JsonNull)])) = None
   \<and> load_scenario (Holds (JsonObject [(''level'', JsonNull)]))
        = Some \<lparr>state_value = menu,
             ctx = context_object
                  \<lparr>level = Finite 1, score = Finite 0, lives = Finite 3,
                    playerName = ''Player''\<rparr>,
             status = Active\<rparr>"
proof -
  have n: "loadSavedGame (Holds (JsonObject [(''level'', JsonNull)])) = None"
    by code_simp
  have "parseSavedGame (JObject [(''level'', JNumber (Finite 2)), (''score'', JNumber (Finite 550)),
       (''lives'', JNumber (Finite 4)), (''playerName'', JString ''Player''),
       (''savedAt'', JString ''2026-01-01T00:00:00.000Z'')])
     = Some \<lparr>level = Finite 2, score = Finite 550, lives = Finite 4, playerName = ''Player''\<rparr>"
    by code_simp
  moreover have "parseSavedGame (JObject [(''level'', JString ''2''), (''score'', JNumber (Finite 550)),
       (''lives'', JNumber (Finite 4)), (''playerName'', JString ''Player'')]) = None"
    by code_simp
  moreover have "parseSavedGame (JArray [JNumber (Finite 2)]) = None" by code_simp
  moreover have "parseSavedGame JNull = None" by code_simp
  ultimately show ?thesis
    using n parseSavedGame_total [of _ _ _ _ "Holds (JsonObject [(''level'', JsonNull)])"]
    by simp
qed

section \<open>The resolver\<close>

lemma resolve_Some_iff:
  "resolve candidates c e = Some t \<longleftrightarrow>
     (\<exists>before rest. candidates = before @ t # rest \<and> guard_passes t c e
        \<and> (\<forall>u \<in> set before. \<not> guard_passes u c e))"
proof (induction candidates)
  case Nil
  then show ?case by (simp add: resolve_def)
next
  case (Cons a candidates)
  show ?case
  proof (cases "guard_passes a c e")
    case True
    have "(\<exists>before rest. a # candidates = before @ t # rest \<and> guard_passes t c e
        \<and> (\<forall>u \<in> set before. \<not> guard_passes u c e)) \<longleftrightarrow> a = t"
    proof
      assume "\<exists>before rest. a # candidates = before @ t # rest \<and> guard_passes t c e
        \<and> (\<forall>u \<in> set before. \<not> guard_passes u c e)"
      then obtain before rest where b: "a # candidates = before @ t # rest"
        "\<forall>u \<in> set before. \<not> guard_passes u c e" by blast
      show "a = t"
      proof (cases before)
        case Nil
        with b show ?thesis by simp
      next
        case (Cons x xs)
        with b True show ?thesis by auto
      qed
    next
      assume "a = t"
      with True have "a # candidates = [] @ t # candidates \<and> guard_passes t c e
        \<and> (\<forall>u \<in> set []. \<not> guard_passes u c e)" by simp
      then show "\<exists>before rest. a # candidates = before @ t # rest \<and> guard_passes t c e
        \<and> (\<forall>u \<in> set before. \<not> guard_passes u c e)" by blast
    qed
    with True show ?thesis by (simp add: resolve_def)
  next
    case False
    have "(\<exists>before rest. a # candidates = before @ t # rest \<and> guard_passes t c e
        \<and> (\<forall>u \<in> set before. \<not> guard_passes u c e))
      \<longleftrightarrow> (\<exists>before rest. candidates = before @ t # rest \<and> guard_passes t c e
        \<and> (\<forall>u \<in> set before. \<not> guard_passes u c e))"
    proof
      assume "\<exists>before rest. a # candidates = before @ t # rest \<and> guard_passes t c e
        \<and> (\<forall>u \<in> set before. \<not> guard_passes u c e)"
      then obtain before rest where b: "a # candidates = before @ t # rest"
        "guard_passes t c e" "\<forall>u \<in> set before. \<not> guard_passes u c e" by blast
      show "\<exists>before rest. candidates = before @ t # rest \<and> guard_passes t c e
        \<and> (\<forall>u \<in> set before. \<not> guard_passes u c e)"
      proof (cases before)
        case Nil
        with b False show ?thesis by simp
      next
        case (Cons x xs)
        with b have "candidates = xs @ t # rest" "\<forall>u \<in> set xs. \<not> guard_passes u c e"
          by simp_all
        with b(2) show ?thesis by blast
      qed
    next
      assume "\<exists>before rest. candidates = before @ t # rest \<and> guard_passes t c e
        \<and> (\<forall>u \<in> set before. \<not> guard_passes u c e)"
      then obtain before rest where b: "candidates = before @ t # rest"
        "guard_passes t c e" "\<forall>u \<in> set before. \<not> guard_passes u c e" by blast
      with False have "a # candidates = (a # before) @ t # rest \<and> guard_passes t c e
        \<and> (\<forall>u \<in> set (a # before). \<not> guard_passes u c e)" by simp
      then show "\<exists>before rest. a # candidates = before @ t # rest \<and> guard_passes t c e
        \<and> (\<forall>u \<in> set before. \<not> guard_passes u c e)" by blast
    qed
    with False Cons.IH show ?thesis by (simp add: resolve_def)
  qed
qed

lemma resolve_None_iff:
  "resolve candidates c e = None \<longleftrightarrow> (\<forall>u \<in> set candidates. \<not> guard_passes u c e)"
  by (auto simp: resolve_def find_None_iff)

lemma resolve_second:
  "\<not> guard_passes t1 c e \<Longrightarrow> guard_passes t2 c e \<Longrightarrow> resolve (t1 # t2 # others) c e = Some t2"
  by (simp add: resolve_def)

lemma send_fires_resolved:
  "status snap = Active \<Longrightarrow> resolve (on (states M (state_value snap)) e) (ctx snap) e = Some t
   \<Longrightarrow> send M e snap = settle M e (microstep M t e snap)"
  by (simp add: send_def)

lemma settle_no_always:
  "always (states M (state_value snap)) = [] \<Longrightarrow> settle M e snap = Some snap"
  by (rule settle_rest) (simp add: resolve_def)


section \<open>Steps of the order, chat and form machines\<close>

lemma order_settle: "settle orderMachine e snap = Some snap"
  by (rule settle_no_always, cases "state_value snap") (simp_all add: orderMachine_def)

lemma chat_settle: "settle chatMachine e snap = Some snap"
  by (rule settle_no_always, cases "state_value snap") (simp_all add: chatMachine_def)

lemma order_payment_timer:
  "send orderMachine (order_after PAYMENT_DELAY_MS processing_payment r)
      \<lparr>state_value = processing_payment, ctx = c, status = Active\<rparr>
   = Some (if r < PAYMENT_SUCCESS_RATE
           then \<lparr>state_value = paid,
                 ctx = c\<lparr>OrderContext.orderStatus := ''paid'', OrderContext.retryCount := 0\<rparr>,
                 status = Active\<rparr>
           else \<lparr>state_value = payment_failed,
                 ctx = c\<lparr>OrderContext.retryCount := OrderContext.retryCount c + 1\<rparr>,
                 status = Active\<rparr>)"
  unfolding send_def order_settle
  by (simp add: orderMachine_def resolve_def guard_passes_def microstep_def enter_def
      assign_def console_log_def Math_random_def)

lemma order_retry_timer:
  "send orderMachine (order_after RETRY_EVENT_DELAY_MS payment_failed r)
      \<lparr>state_value = payment_failed, ctx = c, status = Active\<rparr>
   = Some (if OrderContext.retryCount c < MAX_PAYMENT_RETRIES
           then \<lparr>state_value = processing_payment,
                 ctx = c\<lparr>OrderContext.orderStatus := ''processing_payment''\<rparr>,
                 status = Active\<rparr>
           else \<lparr>state_value = canceled,
                 ctx = c\<lparr>OrderContext.orderStatus := ''canceled''\<rparr>,
                 status = Done\<rparr>)"
  unfolding send_def order_settle
  by (simp add: orderMachine_def resolve_def guard_passes_def microstep_def enter_def
      assign_def console_log_def)

lemma chat_failure:
  "send chatMachine (error_actor msg) \<lparr>state_value = calling_llm, ctx = c, status = Active\<rparr>
   = Some \<lparr>state_value = ChatState.error, ctx = c\<lparr>ChatContext.error := Some msg\<rparr>,
           status = Active\<rparr>"
  unfolding send_def chat_settle
  by (simp add: chatMachine_def resolve_def guard_passes_def microstep_def enter_def
      assign_def console_log_def)

lemma chat_retry_timer:
  "send chatMachine (chat_after 1500 ChatState.error)
      \<lparr>state_value = ChatState.error, ctx = c, status = Active\<rparr>
   = Some (if ChatContext.retryCount c < 3
           then \<lparr>state_value = calling_llm,
                 ctx = c\<lparr>ChatContext.retryCount := ChatContext.retryCount c + 1,
                        ChatContext.error := None\<rparr>,
                 status = Active\<rparr>
           else \<lparr>state_value = failed, ctx = c, status = Done\<rparr>)"
  unfolding send_def chat_settle
  by (simp add: chatMachine_def resolve_def guard_passes_def microstep_def enter_def
      assign_def console_log_def)

lemma chat_RETRY:
  "send chatMachine RETRY \<lparr>state_value = ChatState.error, ctx = c, status = Active\<rparr>
   = Some \<lparr>state_value = calling_llm,
           ctx = c\<lparr>ChatContext.retryCount := ChatContext.retryCount c + 1,
                  ChatContext.error := None\<rparr>,
           status = Active\<rparr>"
  unfolding send_def chat_settle
  by (simp add: chatMachine_def resolve_def guard_passes_def microstep_def enter_def
      assign_def console_log_def)

lemma form_submit:
  "send (formMachine T) SUBMIT \<lparr>state_value = editing, ctx = c, status = Active\<rparr>
   = Some \<lparr>state_value = (if validate T c = [] then submitting else FormState.error),
           ctx = c\<lparr>errors := validate T c\<rparr>, status = Active\<rparr>"
proof -
  let ?v = "\<lparr>state_value = validating, ctx = c\<lparr>errors := validate T c\<rparr>, status = Active\<rparr>"
  let ?r = "\<lparr>state_value = (if validate T c = [] then submitting else FormState.error),
           ctx = c\<lparr>errors := validate T c\<rparr>, status = Active\<rparr>"
  have s: "send (formMachine T) SUBMIT \<lparr>state_value = editing, ctx = c, status = Active\<rparr>
            = settle (formMachine T) SUBMIT ?v"
    by (simp add: send_def formMachine_def resolve_def guard_passes_def microstep_def enter_def
        assign_def)
  have "settle (formMachine T) SUBMIT ?v = settle (formMachine T) SUBMIT ?r"
  proof (cases "validate T c = []")
    case True
    let ?t = "\<lparr>guard = Some (\<lambda>c e. length (errors c) = 0), target = Some submitting,
               actions = []\<rparr> :: (FormState, FormContext, FormEvent) transition"
    have "resolve (always (states (formMachine T) (state_value ?v))) (ctx ?v) SUBMIT = Some ?t"
      using True by (simp add: formMachine_def resolve_def guard_passes_def)
    moreover have "microstep (formMachine T) ?t SUBMIT ?v = ?r"
      using True by (simp add: formMachine_def microstep_def enter_def console_log_def)
    ultimately show ?thesis using settle_fire [of ?v "formMachine T" SUBMIT ?t] by simp
  next
    case False
    let ?t = "\<lparr>guard = None, target = Some FormState.error, actions = []\<rparr>
               :: (FormState, FormContext, FormEvent) transition"
    have "resolve (always (states (formMachine T) (state_value ?v))) (ctx ?v) SUBMIT = Some ?t"
      using False by (simp add: formMachine_def resolve_def guard_passes_def)
    moreover have "microstep (formMachine T) ?t SUBMIT ?v = ?r"
      using False by (simp add: formMachine_def microstep_def enter_def console_log_def)
    ultimately show ?thesis using settle_fire [of ?v "formMachine T" SUBMIT ?t] by simp
  qed
  also have "\<dots> = Some ?r"
    by (rule settle_no_always) (simp add: formMachine_def)
  finally show ?thesis using s by simp
qed

lemma order_send_bounded:
  assumes "order_inv snap"
  shows "\<exists>snap'. send orderMachine e snap = Some snap' \<and> order_inv snap'"
proof (cases "status snap = Active")
  case False
  then show ?thesis using assms by (simp add: send_def)
next
  case True
  then show ?thesis
    unfolding send_def order_settle using assms
    by (cases "state_value snap"; cases e)
      (auto simp: orderMachine_def resolve_def guard_passes_def microstep_def enter_def go_def
        assign_def console_log_def Math_random_def MAX_PAYMENT_RETRIES_def order_inv_def)
qed

lemma order_send_events_bounded:
  "order_inv snap \<Longrightarrow>
   \<exists>snap'. send_events orderMachine snap es = Some snap' \<and> order_inv snap'"
proof (induction es arbitrary: snap)
  case Nil
  then show ?case by simp
next
  case (Cons e es)
  from order_send_bounded [OF Cons.prems, of e] obtain mid where
    m: "send orderMachine e snap = Some mid" "order_inv mid"
    by blast
  from Cons.IH [OF m(2)] m(1) show ?case by simp
qed

lemma order_start:
  "start orderMachine order_init =
     Some \<lparr>state_value = pending,
           ctx = \<lparr>OrderContext.orderId = ''ORD-001'', OrderContext.items = [''Item A'', ''Item B''],
                  OrderContext.total = 100,
                  OrderContext.orderStatus = ''pending'', OrderContext.retryCount = 0\<rparr>,
           status = Active\<rparr>"
  unfolding start_def order_settle
  by (simp add: enter_def orderMachine_def console_log_def)

lemma order_run_bounded:
  "\<exists>snap. run orderMachine order_init es = Some snap
      \<and> 0 \<le> OrderContext.retryCount (ctx snap) \<and> OrderContext.retryCount (ctx snap) \<le> 3
      \<and> (state_value snap = processing_payment \<longrightarrow> OrderContext.retryCount (ctx snap) < 3)"
proof -
  let ?s0 = "\<lparr>state_value = pending,
           ctx = \<lparr>OrderContext.orderId = ''ORD-001'', OrderContext.items = [''Item A'', ''Item B''],
                  OrderContext.total = 100,
                  OrderContext.orderStatus = ''pending'', OrderContext.retryCount = 0\<rparr>,
           status = Active\<rparr>"
  have "order_inv ?s0" by (simp add: order_inv_def)
  from order_send_events_bounded [OF this, of es] show ?thesis
    unfolding run_def order_start by (auto simp: order_inv_def)
qed

lemma chat_send_bounded:
  assumes "0 \<le> ChatContext.retryCount (ctx snap)" "ChatContext.retryCount (ctx snap) \<le> 3"
    "e \<noteq> RETRY"
  shows "\<exists>snap'. send chatMachine e snap = Some snap'
           \<and> 0 \<le> ChatContext.retryCount (ctx snap') \<and> ChatContext.retryCount (ctx snap') \<le> 3"
proof (cases "status snap = Active")
  case False
  then show ?thesis using assms by (simp add: send_def)
next
  case True
  then show ?thesis
    unfolding send_def chat_settle using assms
    by (cases "state_value snap"; cases e)
      (auto simp: chatMachine_def resolve_def guard_passes_def microstep_def enter_def go_def
        assign_def console_log_def)
qed

lemma chat_send_events_bounded:
  "0 \<le> ChatContext.retryCount (ctx snap) \<Longrightarrow> ChatContext.retryCount (ctx snap) \<le> 3 \<Longrightarrow>
   RETRY \<notin> set es \<Longrightarrow>
   \<exists>snap'. send_events chatMachine snap es = Some snap'
           \<and> 0 \<le> ChatContext.retryCount (ctx snap') \<and> ChatContext.retryCount (ctx snap') \<le> 3"
proof (induction es arbitrary: snap)
  case Nil
  then show ?case by simp
next
  case (Cons e es)
  from Cons.prems(3) have ne: "e \<noteq> RETRY" "RETRY \<notin> set es" by auto
  from chat_send_bounded [OF Cons.prems(1,2) ne(1)] obtain mid where
    m: "send chatMachine e snap = Some mid" "0 \<le> ChatContext.retryCount (ctx mid)"
      "ChatContext.retryCount (ctx mid) \<le> 3"
    by blast
  from Cons.IH [OF m(2,3) ne(2)] m(1) show ?case by simp
qed

lemma chat_start:
  "start chatMachine chat_init =
     Some \<lparr>state_value = idle,
           ctx = \<lparr>message = [], response = None, ChatContext.error = None,
                  ChatContext.retryCount = 0\<rparr>,
           status = Active\<rparr>"
  unfolding start_def chat_settle
  by (simp add: enter_def chatMachine_def console_log_def)

lemma chat_run_bounded:
  "RETRY \<notin> set es \<Longrightarrow>
   \<exists>snap. run chatMachine chat_init es = Some snap
      \<and> 0 \<le> ChatContext.retryCount (ctx snap) \<and> ChatContext.retryCount (ctx snap) \<le> 3"
  unfolding run_def chat_start
  using chat_send_events_bounded
    [of "\<lparr>state_value = idle,
           ctx = \<lparr>message = [], response = None, ChatContext.error = None,
                  ChatContext.retryCount = 0\<rparr>,
           status = Active\<rparr>" es]
  by simp

lemma chat_first_message:
  "send chatMachine (SEND_MESSAGE m) \<lparr>state_value = idle, ctx = c, status = Active\<rparr>
   = Some \<lparr>state_value = calling_llm,
           ctx = c\<lparr>message := m, response := None, ChatContext.error := None,
                  ChatContext.retryCount := 0\<rparr>,
           status = Active\<rparr>"
  unfolding send_def chat_settle
  by (simp add: chatMachine_def resolve_def guard_passes_def microstep_def enter_def
      assign_def console_log_def)

lemma chat_four_failures:
  "run chatMachine chat_init
     [SEND_MESSAGE m,
      error_actor x, chat_after 1500 ChatState.error,
      error_actor x, chat_after 1500 ChatState.error,
      error_actor x, chat_after 1500 ChatState.error,
      error_actor x, chat_after 1500 ChatState.error]
   = Some \<lparr>state_value = failed,
           ctx = \<lparr>message = m, response = None, ChatContext.error = Some x,
                  ChatContext.retryCount = 3\<rparr>,
           status = Done\<rparr>"
  by (simp add: run_def chat_start chat_first_message chat_failure chat_retry_timer)

lemma order_confirm:
  "send orderMachine CONFIRM_ORDER \<lparr>state_value = pending, ctx = c, status = Active\<rparr>
   = Some \<lparr>state_value = confirmed, ctx = c, status = Active\<rparr>"
  unfolding send_def order_settle
  by (simp add: orderMachine_def resolve_def guard_passes_def microstep_def enter_def go_def
      assign_def console_log_def)

lemma order_process_payment:
  "send orderMachine PROCESS_PAYMENT \<lparr>state_value = confirmed, ctx = c, status = Active\<rparr>
   = Some \<lparr>state_value = processing_payment,
           ctx = c\<lparr>OrderContext.orderStatus := ''processing_payment''\<rparr>, status = Active\<rparr>"
  unfolding send_def order_settle
  by (simp add: orderMachine_def resolve_def guard_passes_def microstep_def enter_def go_def
      assign_def console_log_def)

lemma order_three_failures:
  assumes "\<not> r1 < PAYMENT_SUCCESS_RATE" "\<not> r2 < PAYMENT_SUCCESS_RATE"
    "\<not> r3 < PAYMENT_SUCCESS_RATE"
  shows "run orderMachine order_init
     [CONFIRM_ORDER, PROCESS_PAYMENT,
      order_after PAYMENT_DELAY_MS processing_payment r1,
      order_after RETRY_EVENT_DELAY_MS payment_failed q1,
      order_after PAYMENT_DELAY_MS processing_payment r2,
      order_after RETRY_EVENT_DELAY_MS payment_failed q2,
      order_after PAYMENT_DELAY_MS processing_payment r3,
      order_after RETRY_EVENT_DELAY_MS payment_failed q3]
   = Some \<lparr>state_value = canceled,
           ctx = \<lparr>OrderContext.orderId = ''ORD-001'', OrderContext.items = [''Item A'', ''Item B''],
                  OrderContext.total = 100,
                  OrderContext.orderStatus = ''canceled'', OrderContext.retryCount = 3\<rparr>,
           status = Done\<rparr>"
  using assms
  by (simp add: run_def order_start order_confirm order_process_payment order_payment_timer
      order_retry_timer MAX_PAYMENT_RETRIES_def)

lemma order_attempt_step:
  assumes "order_attempts_inv k snap"
  shows "\<exists>snap'. send orderMachine e snap = Some snap'
           \<and> order_attempts_inv
                ((if starts_payment (state_value snap) (state_value snap') then 1 else 0) + k) snap'"
proof (cases "status snap = Active")
  case False
  then show ?thesis using assms by (simp add: send_def starts_payment_def)
next
  case True
  then show ?thesis
    unfolding send_def order_settle using assms
    by (cases "state_value snap"; cases e)
      (auto simp: orderMachine_def resolve_def guard_passes_def microstep_def enter_def go_def
        assign_def console_log_def Math_random_def MAX_PAYMENT_RETRIES_def
        order_attempts_inv_def starts_payment_def)
qed

lemma order_attempts_bounded:
  "order_attempts_inv k snap \<Longrightarrow>
   \<exists>n. count_moves starts_payment orderMachine snap es = Some n \<and> k + n \<le> 3"
proof (induction es arbitrary: k snap)
  case Nil
  then show ?case by (simp add: order_attempts_inv_def)
next
  case (Cons e es)
  from order_attempt_step [OF Cons.prems, of e] obtain mid where
    m: "send orderMachine e snap = Some mid"
       "order_attempts_inv
          ((if starts_payment (state_value snap) (state_value mid) then 1 else 0) + k) mid"
    by blast
  from Cons.IH [OF m(2)] obtain n where
    n: "count_moves starts_payment orderMachine mid es = Some n"
       "(if starts_payment (state_value snap) (state_value mid) then 1 else 0) + k + n \<le> 3"
    by blast
  show ?case using m(1) n by simp
qed

lemma order_no_fourth_attempt:
  "\<exists>n. run_count starts_payment orderMachine order_init es = Some n \<and> n \<le> 3"
proof -
  let ?s0 = "\<lparr>state_value = pending,
           ctx = \<lparr>OrderContext.orderId = ''ORD-001'', OrderContext.items = [''Item A'', ''Item B''],
                  OrderContext.total = 100,
                  OrderContext.orderStatus = ''pending'', OrderContext.retryCount = 0\<rparr>,
           status = Active\<rparr>"
  have "order_attempts_inv 0 ?s0" by (simp add: order_attempts_inv_def)
  from order_attempts_bounded [OF this, of es] show ?thesis
    unfolding run_count_def order_start by simp
qed

lemma order_payment_failed_other:
  assumes "\<forall>r. e \<noteq> order_after RETRY_EVENT_DELAY_MS payment_failed r"
  shows "send orderMachine e \<lparr>state_value = payment_failed, ctx = c, status = Active\<rparr>
         = Some \<lparr>state_value = payment_failed, ctx = c, status = Active\<rparr>"
  unfolding send_def order_settle using assms
  by (cases e) (auto simp: orderMachine_def resolve_def)

lemma chat_retry_step:
  assumes "chat_retries_inv k snap" "e \<noteq> RETRY"
  shows "\<exists>snap'. send chatMachine e snap = Some snap'
           \<and> chat_retries_inv
                ((if retries_call (state_value snap) (state_value snap') then 1 else 0) + k) snap'"
proof (cases "status snap = Active")
  case False
  then show ?thesis using assms by (auto simp: send_def retries_call_def)
next
  case True
  then show ?thesis
    unfolding send_def chat_settle using assms
    by (cases "state_value snap"; cases e)
      (auto simp: chatMachine_def resolve_def guard_passes_def microstep_def enter_def go_def
        assign_def console_log_def chat_retries_inv_def retries_call_def)
qed

lemma chat_retries_bounded:
  "chat_retries_inv k snap \<Longrightarrow> RETRY \<notin> set es \<Longrightarrow>
   \<exists>n. count_moves retries_call chatMachine snap es = Some n \<and> k + n \<le> 3"
proof (induction es arbitrary: k snap)
  case Nil
  then show ?case by (simp add: chat_retries_inv_def)
next
  case (Cons e es)
  from Cons.prems(2) have ne: "e \<noteq> RETRY" "RETRY \<notin> set es" by auto
  from chat_retry_step [OF Cons.prems(1) ne(1)] obtain mid where
    m: "send chatMachine e snap = Some mid"
       "chat_retries_inv
          ((if retries_call (state_value snap) (state_value mid) then 1 else 0) + k) mid"
    by blast
  from Cons.IH [OF m(2) ne(2)] obtain n where
    n: "count_moves retries_call chatMachine mid es = Some n"
       "(if retries_call (state_value snap) (state_value mid) then 1 else 0) + k + n \<le> 3"
    by blast
  show ?case using m(1) n by simp
qed

lemma chat_at_most_three_retries:
  "RETRY \<notin> set es \<Longrightarrow>
   \<exists>n. run_count retries_call chatMachine chat_init es = Some n \<and> n \<le> 3"
proof -
  assume r: "RETRY \<notin> set es"
  let ?s0 = "\<lparr>state_value = idle,
           ctx = \<lparr>message = [], response = None, ChatContext.error = None,
                  ChatContext.retryCount = 0\<rparr>,
           status = Active\<rparr>"
  have "chat_retries_inv 0 ?s0" by (simp add: chat_retries_inv_def)
  from chat_retries_bounded [OF this r] show ?thesis
    unfolding run_count_def chat_start by simp
qed

lemma chat_error_other:
  assumes "e \<noteq> RETRY" "e \<noteq> chat_after 1500 ChatState.error"
  shows "send chatMachine e \<lparr>state_value = ChatState.error, ctx = c, status = Active\<rparr>
         = Some \<lparr>state_value = ChatState.error, ctx = c, status = Active\<rparr>"
  unfolding send_def chat_settle using assms
  by (cases e) (auto simp: chatMachine_def resolve_def)

lemma order_processing_other:
  assumes "\<forall>r. e \<noteq> order_after PAYMENT_DELAY_MS processing_payment r"
  shows "send orderMachine e \<lparr>state_value = processing_payment, ctx = c, status = Active\<rparr>
         = Some \<lparr>state_value = processing_payment, ctx = c, status = Active\<rparr>"
  unfolding send_def order_settle using assms
  by (cases e) (auto simp: orderMachine_def resolve_def)

section \<open>Guard ordering\<close>

text \<open>
  Claim C2. The resolver returns a transition exactly when it is the first of the
  candidates, in the order they were declared, whose guard is absent or true, and
  nothing when no candidate passes; when the first candidate's guard is false and the
  second passes, the second is returned; and \<open>send\<close> fires the transition the resolver
  returned. On the two lists of the sources: the timer of \<^verbatim>\<open>processing_payment\<close>
  leads to \<^verbatim>\<open>paid\<close> when the guard on \<^verbatim>\<open>Math.random()\<close> holds and otherwise to
  \<^verbatim>\<open>payment_failed\<close> with the counter increased; \<^verbatim>\<open>SUBMIT\<close> leads through
  \<^verbatim>\<open>validating\<close> to \<^verbatim>\<open>submitting\<close> when there is no error and otherwise to
  \<^verbatim>\<open>error\<close>.
\<close>

theorem first_passing_guard_wins:
  "(resolve candidates c e = Some t \<longleftrightarrow>
      (\<exists>before rest. candidates = before @ t # rest \<and> guard_passes t c e
         \<and> (\<forall>u \<in> set before. \<not> guard_passes u c e)))
 \<and> (resolve candidates c e = None \<longleftrightarrow> (\<forall>u \<in> set candidates. \<not> guard_passes u c e))
 \<and> (\<not> guard_passes t1 c e \<and> guard_passes t2 c e \<longrightarrow>
      resolve (t1 # t2 # others) c e = Some t2)
 \<and> (status snap = Active \<and> resolve (on (states M (state_value snap)) e) (ctx snap) e = Some t
      \<longrightarrow> send M e snap = settle M e (microstep M t e snap))
 \<and> send orderMachine (order_after PAYMENT_DELAY_MS processing_payment r)
       \<lparr>state_value = processing_payment, ctx = oc, status = Active\<rparr>
     = Some (if r < PAYMENT_SUCCESS_RATE
             then \<lparr>state_value = paid,
                   ctx = oc\<lparr>OrderContext.orderStatus := ''paid'', OrderContext.retryCount := 0\<rparr>,
                   status = Active\<rparr>
             else \<lparr>state_value = payment_failed,
                   ctx = oc\<lparr>OrderContext.retryCount := OrderContext.retryCount oc + 1\<rparr>,
                   status = Active\<rparr>)
 \<and> send (formMachine EMAIL_REGEX_test) SUBMIT
       \<lparr>state_value = editing, ctx = fc, status = Active\<rparr>
     = Some \<lparr>state_value = (if validate EMAIL_REGEX_test fc = [] then submitting
                             else FormState.error),
             ctx = fc\<lparr>errors := validate EMAIL_REGEX_test fc\<rparr>, status = Active\<rparr>"
proof -
  have a: "\<not> guard_passes t1 c e \<and> guard_passes t2 c e \<longrightarrow>
      resolve (t1 # t2 # others) c e = Some t2"
    using resolve_second [of t1 c e t2 others] by blast
  have b: "status snap = Active \<and> resolve (on (states M (state_value snap)) e) (ctx snap) e = Some t
      \<longrightarrow> send M e snap = settle M e (microstep M t e snap)"
    using send_fires_resolved [of snap M e t] by blast
  show ?thesis
    by (intro conjI resolve_Some_iff resolve_None_iff a b order_payment_timer form_submit)
qed

theorem first_passing_guard_wins_witness:
  "\<not> guard_passes
       \<lparr>guard = Some (\<lambda>c e. length (errors c) = 0), target = Some submitting,
         actions = ([] :: (FormContext \<Rightarrow> FormEvent \<Rightarrow> FormContext) list)\<rparr>
       \<lparr>email = [], password = [], errors = [email_missing, password_missing]\<rparr> SUBMIT
 \<and> guard_passes
       \<lparr>guard = None, target = Some FormState.error,
         actions = ([] :: (FormContext \<Rightarrow> FormEvent \<Rightarrow> FormContext) list)\<rparr>
       \<lparr>email = [], password = [], errors = [email_missing, password_missing]\<rparr> SUBMIT
 \<and> resolve (always (form_states (\<lambda>s. True) validating))
       \<lparr>email = [], password = [], errors = [email_missing, password_missing]\<rparr> SUBMIT
     = Some \<lparr>guard = None, target = Some FormState.error, actions = []\<rparr>
 \<and> send (formMachine (\<lambda>s. True)) SUBMIT
       \<lparr>state_value = editing, ctx = \<lparr>email = [], password = [], errors = []\<rparr>,
        status = Active\<rparr>
     = Some \<lparr>state_value = FormState.error,
             ctx = \<lparr>email = [], password = [], errors = [email_missing, password_missing]\<rparr>,
             status = Active\<rparr>
 \<and> \<not> (9 / 10 :: real) < PAYMENT_SUCCESS_RATE
 \<and> send orderMachine (order_after PAYMENT_DELAY_MS processing_payment (9 / 10))
       \<lparr>state_value = processing_payment, ctx = initial_context orderMachine, status = Active\<rparr>
     = Some \<lparr>state_value = payment_failed,
             ctx = \<lparr>OrderContext.orderId = ''ORD-001'',
                    OrderContext.items = [''Item A'', ''Item B''], OrderContext.total = 100,
                    OrderContext.orderStatus = ''pending'', OrderContext.retryCount = 1\<rparr>,
             status = Active\<rparr>"
  using first_passing_guard_wins
    [where ?t1.0 = "\<lparr>guard = Some (\<lambda>c e. length (errors c) = 0), target = Some submitting,
                     actions = ([] :: (FormContext \<Rightarrow> FormEvent \<Rightarrow> FormContext) list)\<rparr>"
       and ?t2.0 = "\<lparr>guard = None, target = Some FormState.error,
                     actions = ([] :: (FormContext \<Rightarrow> FormEvent \<Rightarrow> FormContext) list)\<rparr>"
       and others = "[]"
       and c = "\<lparr>email = [], password = [], errors = [email_missing, password_missing]\<rparr>"
       and e = SUBMIT
       and EMAIL_REGEX_test = "\<lambda>s. True"
       and fc = "\<lparr>email = [], password = [], errors = []\<rparr>"
       and r = "9 / 10"
       and oc = "initial_context orderMachine"
       and candidates = "[]"
       and t = "\<lparr>guard = None, target = Some FormState.error,
                     actions = ([] :: (FormContext \<Rightarrow> FormEvent \<Rightarrow> FormContext) list)\<rparr>"
       and M = "formMachine (\<lambda>s. True)"
       and snap = "\<lparr>state_value = FormState.error,
                     ctx = \<lparr>email = [], password = [], errors = []\<rparr>, status = Done\<rparr>"]
  by (simp add: guard_passes_def validate_def PAYMENT_SUCCESS_RATE_def orderMachine_def
      resolve_def)

section \<open>The retry bound\<close>

lemma processPaymentNode_failure:
  "\<not> random < PAYMENT_SUCCESS_RATE \<Longrightarrow>
   OrderGraphState.retryCount (processPaymentNode random s) = OrderGraphState.retryCount s + 1
   \<and> OrderGraphState.orderStatus (processPaymentNode random s) = ''pending''"
  by (simp add: processPaymentNode_def)

lemma shouldRetryPayment_retry_iff:
  "shouldRetryPayment s = process_payment \<longleftrightarrow>
     OrderGraphState.orderStatus s = ''pending'' \<and> OrderGraphState.retryCount s < 3"
  by (simp add: shouldRetryPayment_def MAX_PAYMENT_RETRIES_def)

lemma shouldRetryPayment_END_iff:
  "shouldRetryPayment s = END \<longleftrightarrow>
     OrderGraphState.orderStatus s = ''pending'' \<and> \<not> OrderGraphState.retryCount s < 3"
  by (auto simp: shouldRetryPayment_def MAX_PAYMENT_RETRIES_def)

lemma app_invoke_visited:
  "map_option fst (app_invoke draws s0) =
     Some (if draws 0 < PAYMENT_SUCCESS_RATE
           then [create_order, confirm_order, process_payment, ship_order, deliver_order]
           else if draws 1 < PAYMENT_SUCCESS_RATE
           then [create_order, confirm_order, process_payment, process_payment,
                 ship_order, deliver_order]
           else if draws 2 < PAYMENT_SUCCESS_RATE
           then [create_order, confirm_order, process_payment, process_payment,
                 process_payment, ship_order, deliver_order]
           else [create_order, confirm_order, process_payment, process_payment,
                 process_payment])"
  by (simp add: app_invoke_def recursionLimit_def eval_nat_numeral createOrderNode_def
      confirmOrderNode_def processPaymentNode_def shipOrderNode_def deliverOrderNode_def
      shouldRetryPayment_def MAX_PAYMENT_RETRIES_def Let_def)

lemma app_invoke_all_fail:
  assumes "\<not> draws 0 < PAYMENT_SUCCESS_RATE" "\<not> draws 1 < PAYMENT_SUCCESS_RATE"
    "\<not> draws 2 < PAYMENT_SUCCESS_RATE"
  shows "\<exists>final. app_invoke draws s0 =
            Some ([create_order, confirm_order, process_payment, process_payment,
                   process_payment], final)
          \<and> OrderGraphState.retryCount final = 3
          \<and> OrderGraphState.orderStatus final = ''pending''"
  using assms
  by (simp add: app_invoke_def recursionLimit_def eval_nat_numeral createOrderNode_def
      confirmOrderNode_def processPaymentNode_def shipOrderNode_def deliverOrderNode_def
      shouldRetryPayment_def MAX_PAYMENT_RETRIES_def Let_def)

lemma app_invoke_bounded:
  "\<exists>visited final. app_invoke draws s0 = Some (visited, final)
      \<and> count_list visited process_payment \<le> 3"
proof -
  obtain r where r: "app_invoke draws s0 = Some r"
    using app_invoke_visited [of draws s0] by (cases "app_invoke draws s0") auto
  then have "count_list (fst r) process_payment \<le> 3"
    using app_invoke_visited [of draws s0] by (auto split: if_splits)
  with r show ?thesis by (cases r) auto
qed

text \<open>
  Claim C1. The order workflows count failures. In the graph, a failed payment adds
  one to \<^verbatim>\<open>retryCount\<close>; \<^verbatim>\<open>shouldRetryPayment\<close> routes back to
  \<^verbatim>\<open>process_payment\<close> exactly when the status is \<^verbatim>\<open>pending\<close> and the counter is
  below 3, and to \<^verbatim>\<open>END\<close> exactly when it is \<^verbatim>\<open>pending\<close> and the counter is not;
  whatever \<^verbatim>\<open>Math.random()\<close> returns, \<^verbatim>\<open>app.invoke\<close> ends, having run
  \<^verbatim>\<open>process_payment\<close> at most three times, and three failures in a row end it after
  the third. The XState order machine does the same: a failed payment adds one, the
  timer of \<^verbatim>\<open>payment_failed\<close> goes back to \<^verbatim>\<open>processing_payment\<close> when the counter
  is below 3 and to the final state \<^verbatim>\<open>canceled\<close> otherwise, and in every run the
  counter stays within 0..3 and a payment is in progress only below 3; three failed
  payments in a row end in \<^verbatim>\<open>canceled\<close>. Every event other than its timer leaves
  \<^verbatim>\<open>payment_failed\<close>, and likewise \<^verbatim>\<open>processing_payment\<close>, as it is, so the
  retry is taken exactly when the counter is below 3; and in every run, whatever the
  events, \<^verbatim>\<open>processing_payment\<close> is entered at most three times: there is no
  fourth payment attempt.
  The chat machine counts retries: a failure leaves \<^verbatim>\<open>retryCount\<close> as it is, the
  timer of \<^verbatim>\<open>error\<close> adds one and goes back to \<^verbatim>\<open>calling_llm\<close> when the counter is
  below 3 and goes to the final state \<^verbatim>\<open>failed\<close> otherwise, the event \<^verbatim>\<open>RETRY\<close>
  goes back whatever the counter is, and every other event leaves \<^verbatim>\<open>error\<close> as it
  is; in every run without \<^verbatim>\<open>RETRY\<close> the counter stays within 0..3 and the machine
  goes back from \<^verbatim>\<open>error\<close> to \<^verbatim>\<open>calling_llm\<close> at most three times, so a message
  is attempted at most four times; and four failures in a row end in \<^verbatim>\<open>failed\<close>.
\<close>

theorem bounded_retry:
  "(\<not> random < PAYMENT_SUCCESS_RATE \<longrightarrow>
      OrderGraphState.retryCount (processPaymentNode random s) = OrderGraphState.retryCount s + 1
      \<and> OrderGraphState.orderStatus (processPaymentNode random s) = ''pending'')
 \<and> (shouldRetryPayment s = process_payment \<longleftrightarrow>
      OrderGraphState.orderStatus s = ''pending'' \<and> OrderGraphState.retryCount s < 3)
 \<and> (shouldRetryPayment s = END \<longleftrightarrow>
      OrderGraphState.orderStatus s = ''pending'' \<and> \<not> OrderGraphState.retryCount s < 3)
 \<and> (\<exists>visited final. app_invoke draws s0 = Some (visited, final)
      \<and> count_list visited process_payment \<le> 3)
 \<and> (\<not> draws 0 < PAYMENT_SUCCESS_RATE \<and> \<not> draws 1 < PAYMENT_SUCCESS_RATE
      \<and> \<not> draws 2 < PAYMENT_SUCCESS_RATE \<longrightarrow>
      (\<exists>final. app_invoke draws s0 =
          Some ([create_order, confirm_order, process_payment, process_payment,
                 process_payment], final)
        \<and> OrderGraphState.retryCount final = 3
        \<and> OrderGraphState.orderStatus final = ''pending''))
 \<and> send orderMachine (order_after PAYMENT_DELAY_MS processing_payment r)
       \<lparr>state_value = processing_payment, ctx = c, status = Active\<rparr>
     = Some (if r < PAYMENT_SUCCESS_RATE
             then \<lparr>state_value = paid,
                   ctx = c\<lparr>OrderContext.orderStatus := ''paid'', OrderContext.retryCount := 0\<rparr>,
                   status = Active\<rparr>
             else \<lparr>state_value = payment_failed,
                   ctx = c\<lparr>OrderContext.retryCount := OrderContext.retryCount c + 1\<rparr>,
                   status = Active\<rparr>)
 \<and> send orderMachine (order_after RETRY_EVENT_DELAY_MS payment_failed r)
       \<lparr>state_value = payment_failed, ctx = c, status = Active\<rparr>
     = Some (if OrderContext.retryCount c < 3
             then \<lparr>state_value = processing_payment,
                   ctx = c\<lparr>OrderContext.orderStatus := ''processing_payment''\<rparr>,
                   status = Active\<rparr>
             else \<lparr>state_value = canceled,
                   ctx = c\<lparr>OrderContext.orderStatus := ''canceled''\<rparr>,
                   status = Done\<rparr>)
 \<and> (\<exists>snap. run orderMachine order_init order_events = Some snap
      \<and> 0 \<le> OrderContext.retryCount (ctx snap) \<and> OrderContext.retryCount (ctx snap) \<le> 3
      \<and> (state_value snap = processing_payment \<longrightarrow> OrderContext.retryCount (ctx snap) < 3))
 \<and> send chatMachine (error_actor msg) \<lparr>state_value = calling_llm, ctx = cc, status = Active\<rparr>
     = Some \<lparr>state_value = ChatState.error, ctx = cc\<lparr>ChatContext.error := Some msg\<rparr>,
             status = Active\<rparr>
 \<and> send chatMachine (chat_after 1500 ChatState.error)
       \<lparr>state_value = ChatState.error, ctx = cc, status = Active\<rparr>
     = Some (if ChatContext.retryCount cc < 3
             then \<lparr>state_value = calling_llm,
                   ctx = cc\<lparr>ChatContext.retryCount := ChatContext.retryCount cc + 1,
                           ChatContext.error := None\<rparr>,
                   status = Active\<rparr>
             else \<lparr>state_value = failed, ctx = cc, status = Done\<rparr>)
 \<and> send chatMachine RETRY \<lparr>state_value = ChatState.error, ctx = cc, status = Active\<rparr>
     = Some \<lparr>state_value = calling_llm,
             ctx = cc\<lparr>ChatContext.retryCount := ChatContext.retryCount cc + 1,
                     ChatContext.error := None\<rparr>,
             status = Active\<rparr>
 \<and> (RETRY \<notin> set chat_events \<longrightarrow>
      (\<exists>snap. run chatMachine chat_init chat_events = Some snap
        \<and> 0 \<le> ChatContext.retryCount (ctx snap) \<and> ChatContext.retryCount (ctx snap) \<le> 3))
 \<and> run chatMachine chat_init
       [SEND_MESSAGE m,
        error_actor msg, chat_after 1500 ChatState.error,
        error_actor msg, chat_after 1500 ChatState.error,
        error_actor msg, chat_after 1500 ChatState.error,
        error_actor msg, chat_after 1500 ChatState.error]
     = Some \<lparr>state_value = failed,
             ctx = \<lparr>message = m, response = None, ChatContext.error = Some msg,
                    ChatContext.retryCount = 3\<rparr>,
             status = Done\<rparr>
 \<and> (\<not> r1 < PAYMENT_SUCCESS_RATE \<and> \<not> r2 < PAYMENT_SUCCESS_RATE
      \<and> \<not> r3 < PAYMENT_SUCCESS_RATE \<longrightarrow>
      run orderMachine order_init
        [CONFIRM_ORDER, PROCESS_PAYMENT,
         order_after PAYMENT_DELAY_MS processing_payment r1,
         order_after RETRY_EVENT_DELAY_MS payment_failed q1,
         order_after PAYMENT_DELAY_MS processing_payment r2,
         order_after RETRY_EVENT_DELAY_MS payment_failed q2,
         order_after PAYMENT_DELAY_MS processing_payment r3,
         order_after RETRY_EVENT_DELAY_MS payment_failed q3]
      = Some \<lparr>state_value = canceled,
              ctx = \<lparr>OrderContext.orderId = ''ORD-001'',
                     OrderContext.items = [''Item A'', ''Item B''], OrderContext.total = 100,
                     OrderContext.orderStatus = ''canceled'', OrderContext.retryCount = 3\<rparr>,
              status = Done\<rparr>)
 \<and> ((\<forall>q. oe \<noteq> order_after RETRY_EVENT_DELAY_MS payment_failed q) \<longrightarrow>
      send orderMachine oe \<lparr>state_value = payment_failed, ctx = c, status = Active\<rparr>
      = Some \<lparr>state_value = payment_failed, ctx = c, status = Active\<rparr>)
 \<and> ((\<forall>q. oe \<noteq> order_after PAYMENT_DELAY_MS processing_payment q) \<longrightarrow>
      send orderMachine oe \<lparr>state_value = processing_payment, ctx = c, status = Active\<rparr>
      = Some \<lparr>state_value = processing_payment, ctx = c, status = Active\<rparr>)
 \<and> (\<exists>n. run_count starts_payment orderMachine order_init order_events = Some n \<and> n \<le> 3)
 \<and> (ce \<noteq> RETRY \<and> ce \<noteq> chat_after 1500 ChatState.error \<longrightarrow>
      send chatMachine ce \<lparr>state_value = ChatState.error, ctx = cc, status = Active\<rparr>
      = Some \<lparr>state_value = ChatState.error, ctx = cc, status = Active\<rparr>)
 \<and> (RETRY \<notin> set chat_events \<longrightarrow>
      (\<exists>n. run_count retries_call chatMachine chat_init chat_events = Some n \<and> n \<le> 3))"
proof -
  have other: "(\<forall>q. oe \<noteq> order_after RETRY_EVENT_DELAY_MS payment_failed q) \<longrightarrow>
      send orderMachine oe \<lparr>state_value = payment_failed, ctx = c, status = Active\<rparr>
      = Some \<lparr>state_value = payment_failed, ctx = c, status = Active\<rparr>"
    using order_payment_failed_other [of oe c] by blast
  have other2: "(\<forall>q. oe \<noteq> order_after PAYMENT_DELAY_MS processing_payment q) \<longrightarrow>
      send orderMachine oe \<lparr>state_value = processing_payment, ctx = c, status = Active\<rparr>
      = Some \<lparr>state_value = processing_payment, ctx = c, status = Active\<rparr>"
    using order_processing_other [of oe c] by blast
  have cother: "ce \<noteq> RETRY \<and> ce \<noteq> chat_after 1500 ChatState.error \<longrightarrow>
      send chatMachine ce \<lparr>state_value = ChatState.error, ctx = cc, status = Active\<rparr>
      = Some \<lparr>state_value = ChatState.error, ctx = cc, status = Active\<rparr>"
    using chat_error_other [of ce cc] by blast
  have cretries: "RETRY \<notin> set chat_events \<longrightarrow>
      (\<exists>n. run_count retries_call chatMachine chat_init chat_events = Some n \<and> n \<le> 3)"
    using chat_at_most_three_retries [of chat_events] by blast
  have three: "\<not> r1 < PAYMENT_SUCCESS_RATE \<and> \<not> r2 < PAYMENT_SUCCESS_RATE
      \<and> \<not> r3 < PAYMENT_SUCCESS_RATE \<longrightarrow>
      run orderMachine order_init
        [CONFIRM_ORDER, PROCESS_PAYMENT,
         order_after PAYMENT_DELAY_MS processing_payment r1,
         order_after RETRY_EVENT_DELAY_MS payment_failed q1,
         order_after PAYMENT_DELAY_MS processing_payment r2,
         order_after RETRY_EVENT_DELAY_MS payment_failed q2,
         order_after PAYMENT_DELAY_MS processing_payment r3,
         order_after RETRY_EVENT_DELAY_MS payment_failed q3]
      = Some \<lparr>state_value = canceled,
              ctx = \<lparr>OrderContext.orderId = ''ORD-001'',
                     OrderContext.items = [''Item A'', ''Item B''], OrderContext.total = 100,
                     OrderContext.orderStatus = ''canceled'', OrderContext.retryCount = 3\<rparr>,
              status = Done\<rparr>"
    using order_three_failures [of r1 r2 r3 q1 q2 q3] by blast
  have graph: "(\<not> random < PAYMENT_SUCCESS_RATE \<longrightarrow>
      OrderGraphState.retryCount (processPaymentNode random s) = OrderGraphState.retryCount s + 1
      \<and> OrderGraphState.orderStatus (processPaymentNode random s) = ''pending'')
 \<and> (shouldRetryPayment s = process_payment \<longleftrightarrow>
      OrderGraphState.orderStatus s = ''pending'' \<and> OrderGraphState.retryCount s < 3)
 \<and> (shouldRetryPayment s = END \<longleftrightarrow>
      OrderGraphState.orderStatus s = ''pending'' \<and> \<not> OrderGraphState.retryCount s < 3)"
    using processPaymentNode_failure [of random s] shouldRetryPayment_retry_iff [of s]
      shouldRetryPayment_END_iff [of s] by blast
  have order: "send orderMachine (order_after RETRY_EVENT_DELAY_MS payment_failed r)
       \<lparr>state_value = payment_failed, ctx = c, status = Active\<rparr>
     = Some (if OrderContext.retryCount c < 3
             then \<lparr>state_value = processing_payment,
                   ctx = c\<lparr>OrderContext.orderStatus := ''processing_payment''\<rparr>,
                   status = Active\<rparr>
             else \<lparr>state_value = canceled,
                   ctx = c\<lparr>OrderContext.orderStatus := ''canceled''\<rparr>,
                   status = Done\<rparr>)"
    using order_retry_timer [of r c] by (simp add: MAX_PAYMENT_RETRIES_def)
  have chat: "RETRY \<notin> set chat_events \<longrightarrow>
      (\<exists>snap. run chatMachine chat_init chat_events = Some snap
        \<and> 0 \<le> ChatContext.retryCount (ctx snap) \<and> ChatContext.retryCount (ctx snap) \<le> 3)"
    using chat_run_bounded [of chat_events] by blast
  have all_fail: "\<not> draws 0 < PAYMENT_SUCCESS_RATE \<and> \<not> draws 1 < PAYMENT_SUCCESS_RATE
      \<and> \<not> draws 2 < PAYMENT_SUCCESS_RATE \<longrightarrow>
      (\<exists>final. app_invoke draws s0 =
          Some ([create_order, confirm_order, process_payment, process_payment,
                 process_payment], final)
        \<and> OrderGraphState.retryCount final = 3
        \<and> OrderGraphState.orderStatus final = ''pending'')"
    using app_invoke_all_fail [of draws s0] by blast
  show ?thesis
    by (intro conjI graph [THEN conjunct1] graph [THEN conjunct2, THEN conjunct1]
        graph [THEN conjunct2, THEN conjunct2] app_invoke_bounded all_fail
        order_payment_timer order order_run_bounded chat_failure chat_retry_timer chat_RETRY
        chat chat_four_failures three other other2 order_no_fourth_attempt cother cretries)
qed


theorem bounded_retry_witness:
  "\<not> (9 / 10 :: real) < PAYMENT_SUCCESS_RATE
 \<and> OrderGraphState.retryCount (processPaymentNode (9 / 10) initialState) = 1
 \<and> shouldRetryPayment (processPaymentNode (9 / 10) initialState) = process_payment
 \<and> map_option fst (app_invoke (\<lambda>k. 9 / 10) initialState)
     = Some [create_order, confirm_order, process_payment, process_payment, process_payment]
 \<and> RETRY \<notin> set [SEND_MESSAGE ''hello'', error_actor ''timeout'']
 \<and> run chatMachine chat_init [SEND_MESSAGE ''hello'', error_actor ''timeout'']
     = Some \<lparr>state_value = ChatState.error,
             ctx = \<lparr>message = ''hello'', response = None, ChatContext.error = Some ''timeout'',
                    ChatContext.retryCount = 0\<rparr>,
             status = Active\<rparr>
 \<and> run orderMachine order_init
       [CONFIRM_ORDER, PROCESS_PAYMENT, order_after PAYMENT_DELAY_MS processing_payment (9 / 10)]
     = Some \<lparr>state_value = payment_failed,
             ctx = \<lparr>OrderContext.orderId = ''ORD-001'',
                    OrderContext.items = [''Item A'', ''Item B''], OrderContext.total = 100,
                    OrderContext.orderStatus = ''processing_payment'',
                    OrderContext.retryCount = 1\<rparr>,
             status = Active\<rparr>
 \<and> send orderMachine RETRY_PAYMENT
       \<lparr>state_value = payment_failed,
        ctx = \<lparr>OrderContext.orderId = ''ORD-001'',
               OrderContext.items = [''Item A'', ''Item B''], OrderContext.total = 100,
               OrderContext.orderStatus = ''processing_payment'',
               OrderContext.retryCount = 1\<rparr>,
        status = Active\<rparr>
     = Some \<lparr>state_value = payment_failed,
             ctx = \<lparr>OrderContext.orderId = ''ORD-001'',
                    OrderContext.items = [''Item A'', ''Item B''], OrderContext.total = 100,
                    OrderContext.orderStatus = ''processing_payment'',
                    OrderContext.retryCount = 1\<rparr>,
             status = Active\<rparr>
 \<and> send orderMachine RETRY_PAYMENT
       \<lparr>state_value = processing_payment,
        ctx = \<lparr>OrderContext.orderId = ''ORD-001'',
               OrderContext.items = [''Item A'', ''Item B''], OrderContext.total = 100,
               OrderContext.orderStatus = ''processing_payment'',
               OrderContext.retryCount = 1\<rparr>,
        status = Active\<rparr>
     = Some \<lparr>state_value = processing_payment,
             ctx = \<lparr>OrderContext.orderId = ''ORD-001'',
                    OrderContext.items = [''Item A'', ''Item B''], OrderContext.total = 100,
                    OrderContext.orderStatus = ''processing_payment'',
                    OrderContext.retryCount = 1\<rparr>,
             status = Active\<rparr>
 \<and> run_count starts_payment orderMachine order_init
       [CONFIRM_ORDER, PROCESS_PAYMENT, order_after PAYMENT_DELAY_MS processing_payment (9 / 10)]
     = Some 1
 \<and> send chatMachine (SEND_MESSAGE ''again'')
       \<lparr>state_value = ChatState.error,
        ctx = \<lparr>message = ''hello'', response = None, ChatContext.error = Some ''timeout'',
               ChatContext.retryCount = 0\<rparr>,
        status = Active\<rparr>
     = Some \<lparr>state_value = ChatState.error,
             ctx = \<lparr>message = ''hello'', response = None, ChatContext.error = Some ''timeout'',
                    ChatContext.retryCount = 0\<rparr>,
             status = Active\<rparr>
 \<and> run_count retries_call chatMachine chat_init [SEND_MESSAGE ''hello'', error_actor ''timeout'']
     = Some 0"
proof -
  have r: "\<not> (9 / 10 :: real) < PAYMENT_SUCCESS_RATE"
    by (simp add: PAYMENT_SUCCESS_RATE_def)
  have v: "map_option fst (app_invoke (\<lambda>k. 9 / 10) initialState)
     = Some [create_order, confirm_order, process_payment, process_payment, process_payment]"
    using r by (simp add: app_invoke_visited)
  have s: "shouldRetryPayment (processPaymentNode (9 / 10) initialState) = process_payment"
    using r by (simp add: shouldRetryPayment_def processPaymentNode_def initialState_def
        MAX_PAYMENT_RETRIES_def)
  have c: "run chatMachine chat_init [SEND_MESSAGE ''hello'', error_actor ''timeout'']
     = Some \<lparr>state_value = ChatState.error,
             ctx = \<lparr>message = ''hello'', response = None, ChatContext.error = Some ''timeout'',
                    ChatContext.retryCount = 0\<rparr>,
             status = Active\<rparr>"
    by (simp add: run_def chat_start chat_first_message chat_failure)
  have o: "run orderMachine order_init
       [CONFIRM_ORDER, PROCESS_PAYMENT, order_after PAYMENT_DELAY_MS processing_payment (9 / 10)]
     = Some \<lparr>state_value = payment_failed,
             ctx = \<lparr>OrderContext.orderId = ''ORD-001'',
                    OrderContext.items = [''Item A'', ''Item B''], OrderContext.total = 100,
                    OrderContext.orderStatus = ''processing_payment'',
                    OrderContext.retryCount = 1\<rparr>,
             status = Active\<rparr>"
    using r by (simp add: run_def order_start order_confirm order_process_payment
        order_payment_timer)
  have n: "run_count starts_payment orderMachine order_init
       [CONFIRM_ORDER, PROCESS_PAYMENT, order_after PAYMENT_DELAY_MS processing_payment (9 / 10)]
     = Some 1"
    using r by (simp add: run_count_def starts_payment_def order_start order_confirm
        order_process_payment order_payment_timer)
  have k: "run_count retries_call chatMachine chat_init
       [SEND_MESSAGE ''hello'', error_actor ''timeout''] = Some 0"
    by (simp add: run_count_def retries_call_def chat_start chat_first_message chat_failure)
  show ?thesis
    using r v s c o n k
      bounded_retry [where random = "9 / 10" and s = initialState and draws = "\<lambda>k. 9 / 10"
        and ?s0.0 = initialState and r = "9 / 10"
        and order_events = "[CONFIRM_ORDER, PROCESS_PAYMENT,
              order_after PAYMENT_DELAY_MS processing_payment (9 / 10)]"
        and chat_events = "[SEND_MESSAGE ''hello'', error_actor ''timeout'']"
        and oe = RETRY_PAYMENT and ce = "SEND_MESSAGE ''again''"
        and c = "\<lparr>OrderContext.orderId = ''ORD-001'',
               OrderContext.items = [''Item A'', ''Item B''], OrderContext.total = 100,
               OrderContext.orderStatus = ''processing_payment'',
               OrderContext.retryCount = 1\<rparr>"
        and cc = "\<lparr>message = ''hello'', response = None, ChatContext.error = Some ''timeout'',
               ChatContext.retryCount = 0\<rparr>"]
    by (simp add: initialState_def)
qed

text \<open>
  For C1 as it is stated (the third failure in a row is terminal, no fourth
  attempt): after its third failure in a row the chat machine is back in
  \<^verbatim>\<open>calling_llm\<close>, calling the model a fourth time, with \<^verbatim>\<open>retryCount = 3\<close>.
\<close>

theorem chat_fourth_attempt_counterexample:
  "run chatMachine chat_init
     [SEND_MESSAGE ''hello'',
      error_actor ''timeout'', chat_after 1500 ChatState.error,
      error_actor ''timeout'', chat_after 1500 ChatState.error,
      error_actor ''timeout'', chat_after 1500 ChatState.error]
   = Some \<lparr>state_value = calling_llm,
           ctx = \<lparr>message = ''hello'', response = None, ChatContext.error = None,
                  ChatContext.retryCount = 3\<rparr>,
           status = Active\<rparr>"
  by (simp add: run_def chat_start chat_first_message chat_failure chat_retry_timer)


section \<open>The timer scheduler\<close>

lemma timers_current_after_step:
  "timers_current T ta \<Longrightarrow> timers_current T (after_step T ta snap')"
  by (auto simp: timers_current_def after_step_def arm_def)

lemma timers_current_t_send:
  "timers_current T ta \<Longrightarrow> t_send T M e ta = Some ta' \<Longrightarrow> timers_current T ta'"
  by (auto simp: t_send_def timers_current_after_step split: option.splits)

lemma timers_current_remove:
  "timers_current T ta \<Longrightarrow>
   timers_current T (ta\<lparr>timers := remove1 tm (timers ta), deliveries := D\<rparr>)"
  by (auto simp: timers_current_def dest: notin_set_remove1)

lemma timers_current_fire:
  "timers_current T ta \<Longrightarrow> fire T M tm ta = Some ta' \<Longrightarrow> timers_current T ta'"
  using timers_current_t_send timers_current_remove
  by (fastforce simp: fire_def split: if_splits)

lemma timers_current_fire_all:
  "timers_current T ta \<Longrightarrow> fire_all T M tms ta = Some ta' \<Longrightarrow> timers_current T ta'"
proof (induction tms arbitrary: ta)
  case Nil
  then show ?case by simp
next
  case (Cons tm tms)
  then show ?case
    by (auto split: option.splits dest: timers_current_fire)
qed

lemma timers_current_clock:
  "timers_current T ta \<Longrightarrow> timers_current T (ta\<lparr>clock := clock ta + 1\<rparr>)"
  by (auto simp: timers_current_def)

lemma timers_current_tick:
  "timers_current T ta \<Longrightarrow> tick T M ta = Some ta' \<Longrightarrow> timers_current T ta'"
  unfolding tick_def using timers_current_fire_all timers_current_clock by blast

lemma timers_current_advance:
  "timers_current T ta \<Longrightarrow> advance T M n ta = Some ta' \<Longrightarrow> timers_current T ta'"
proof (induction n arbitrary: ta)
  case 0
  then show ?case by simp
next
  case (Suc n)
  then show ?case by (auto split: option.splits dest: timers_current_tick)
qed

lemma timers_current_t_stop: "timers_current T (t_stop ta)"
  by (simp add: timers_current_def t_stop_def)

lemma timers_current_t_start: "t_start T M e0 = Some ta \<Longrightarrow> timers_current T ta"
  by (auto simp: t_start_def timers_current_def arm_def split: option.splits)

lemma timers_current_t_apply:
  "timers_current T ta \<Longrightarrow> t_apply T M op ta = Some ta' \<Longrightarrow> timers_current T ta'"
  by (cases op)
     (auto simp: t_apply_def timers_current_t_stop
           dest: timers_current_t_send timers_current_advance)

lemma timers_current_t_run:
  "timers_current T ta \<Longrightarrow> t_run T M ta ops = Some ta' \<Longrightarrow> timers_current T ta'"
proof (induction ops arbitrary: ta)
  case Nil
  then show ?case by simp
next
  case (Cons op ops)
  then show ?case by (auto split: option.splits dest: timers_current_t_apply)
qed

text \<open>The log of deliveries.\<close>

lemma delivered_after_step: "deliveries (after_step T ta snap') = deliveries ta"
  by (simp add: after_step_def)

lemma delivered_t_send: "t_send T M e ta = Some ta' \<Longrightarrow> deliveries ta' = deliveries ta"
  by (auto simp: t_send_def delivered_after_step split: option.splits)

lemma deliveries_current_fire:
  assumes "timers_current T ta" "deliveries_current ta" "fire T M tm ta = Some ta'"
  shows "deliveries_current ta'"
proof (cases "tm \<in> set (timers ta)")
  case True
  then have o: "owner tm = state_value (actor ta)" "visit tm = generation ta"
    using assms(1) by (simp_all add: timers_current_def)
  have "deliveries ta' = deliveries ta @ [(tm, state_value (actor ta), generation ta)]"
    using assms(3) True delivered_t_send [of T M _ _ ta'] by (fastforce simp: fire_def)
  then show ?thesis using assms(2) o by (auto simp: deliveries_current_def)
next
  case False
  then show ?thesis using assms by (simp add: fire_def)
qed

lemma deliveries_current_fire_all:
  "timers_current T ta \<Longrightarrow> deliveries_current ta \<Longrightarrow> fire_all T M tms ta = Some ta'
   \<Longrightarrow> deliveries_current ta'"
proof (induction tms arbitrary: ta)
  case Nil
  then show ?case by simp
next
  case (Cons tm tms)
  then show ?case
    by (auto split: option.splits dest: timers_current_fire deliveries_current_fire)
qed

lemma deliveries_current_tick:
  assumes "timers_current T ta" "deliveries_current ta" "tick T M ta = Some ta'"
  shows "deliveries_current ta'"
proof -
  have "deliveries_current (ta\<lparr>clock := clock ta + 1\<rparr>)"
    using assms(2) by (simp add: deliveries_current_def)
  then show ?thesis
    using assms(3) timers_current_clock [OF assms(1)] deliveries_current_fire_all
    unfolding tick_def by blast
qed

lemma deliveries_current_advance:
  "timers_current T ta \<Longrightarrow> deliveries_current ta \<Longrightarrow> advance T M n ta = Some ta'
   \<Longrightarrow> deliveries_current ta'"
proof (induction n arbitrary: ta)
  case 0
  then show ?case by simp
next
  case (Suc n)
  then show ?case
    by (auto split: option.splits dest: timers_current_tick deliveries_current_tick)
qed

lemma deliveries_current_t_apply:
  assumes "timers_current T ta" "deliveries_current ta" "t_apply T M op ta = Some ta'"
  shows "deliveries_current ta'"
proof (cases op)
  case (Send e)
  then have "deliveries ta' = deliveries ta"
    using assms(3) delivered_t_send by (fastforce simp: t_apply_def)
  then show ?thesis using assms(2) by (simp add: deliveries_current_def)
next
  case (Wait n)
  then show ?thesis using assms deliveries_current_advance by (fastforce simp: t_apply_def)
next
  case Stop
  then show ?thesis using assms by (auto simp: t_apply_def t_stop_def deliveries_current_def)
qed

lemma deliveries_current_t_run:
  "timers_current T ta \<Longrightarrow> deliveries_current ta \<Longrightarrow> t_run T M ta ops = Some ta'
   \<Longrightarrow> deliveries_current ta'"
proof (induction ops arbitrary: ta)
  case Nil
  then show ?case by simp
next
  case (Cons op ops)
  then show ?case
    by (auto split: option.splits dest: timers_current_t_apply deliveries_current_t_apply)
qed

lemma timed_run_current:
  assumes "timed_run T M e0 ops = Some ta"
  shows "timers_current T ta \<and> deliveries_current ta"
proof -
  obtain ta0 where s: "t_start T M e0 = Some ta0" "t_run T M ta0 ops = Some ta"
    using assms by (auto simp: timed_run_def split: option.splits)
  have "deliveries_current ta0"
    using s(1) by (auto simp: t_start_def deliveries_current_def split: option.splits)
  moreover have "timers_current T ta0" using s(1) by (rule timers_current_t_start)
  ultimately show ?thesis
    using s(2) timers_current_t_run [of T ta0 M ops ta] deliveries_current_t_run [of T ta0 M ops ta]
    by simp
qed

text \<open>Once a visit is over, its timers are never deliveries.\<close>

lemma exited_after_step:
  "exited T tm D ta \<Longrightarrow> exited T tm D (after_step T ta snap')"
  unfolding exited_def deliveries_of_def
  by (auto simp: timers_current_after_step delivered_after_step) (simp add: after_step_def)

lemma exited_t_send:
  "exited T tm D ta \<Longrightarrow> t_send T M e ta = Some ta' \<Longrightarrow> exited T tm D ta'"
  by (auto simp: t_send_def exited_after_step split: option.splits)

lemma exited_fire:
  assumes "exited T tm D ta" "fire T M tm' ta = Some ta'"
  shows "exited T tm D ta'"
proof (cases "tm' \<in> set (timers ta)")
  case True
  then have "visit tm' = generation ta"
    using assms(1) by (simp add: exited_def timers_current_def)
  then have ne: "tm' \<noteq> tm" using assms(1) by (auto simp: exited_def)
  have "exited T tm D (ta\<lparr>timers := remove1 tm' (timers ta),
          deliveries := deliveries ta @ [(tm', state_value (actor ta), generation ta)]\<rparr>)"
    using assms(1) ne timers_current_remove [of T ta]
    by (simp add: exited_def deliveries_of_def)
  then show ?thesis using assms(2) True exited_t_send by (fastforce simp: fire_def)
next
  case False
  then show ?thesis using assms by (simp add: fire_def)
qed

lemma exited_fire_all:
  "exited T tm D ta \<Longrightarrow> fire_all T M tms ta = Some ta' \<Longrightarrow> exited T tm D ta'"
proof (induction tms arbitrary: ta)
  case Nil
  then show ?case by simp
next
  case (Cons tm tms)
  then show ?case by (auto split: option.splits dest: exited_fire)
qed

lemma exited_tick:
  assumes "exited T tm D ta" "tick T M ta = Some ta'"
  shows "exited T tm D ta'"
proof -
  have "exited T tm D (ta\<lparr>clock := clock ta + 1\<rparr>)"
    using assms(1) timers_current_clock [of T ta] by (simp add: exited_def deliveries_of_def)
  then show ?thesis using assms(2) exited_fire_all unfolding tick_def by blast
qed

lemma exited_advance:
  "exited T tm D ta \<Longrightarrow> advance T M n ta = Some ta' \<Longrightarrow> exited T tm D ta'"
proof (induction n arbitrary: ta)
  case 0
  then show ?case by simp
next
  case (Suc n)
  then show ?case by (auto split: option.splits dest: exited_tick)
qed

lemma exited_t_stop: "exited T tm D ta \<Longrightarrow> exited T tm D (t_stop ta)"
  by (simp add: exited_def deliveries_of_def timers_current_def t_stop_def)

lemma exited_t_apply:
  "exited T tm D ta \<Longrightarrow> t_apply T M op ta = Some ta' \<Longrightarrow> exited T tm D ta'"
  by (cases op) (auto simp: t_apply_def exited_t_stop dest: exited_t_send exited_advance)

lemma exited_t_run:
  "exited T tm D ta \<Longrightarrow> t_run T M ta ops = Some ta' \<Longrightarrow> exited T tm D ta'"
proof (induction ops arbitrary: ta)
  case Nil
  then show ?case by simp
next
  case (Cons op ops)
  then show ?case by (auto split: option.splits dest: exited_t_apply)
qed

lemma exited_not_scheduled: "exited T tm D ta \<Longrightarrow> tm \<notin> set (timers ta)"
  by (auto simp: exited_def timers_current_def)

lemma exit_cancels:
  assumes "timers_current T ta" "t_send T M e ta = Some ta'"
    "state_value (actor ta') \<noteq> state_value (actor ta)" "tm \<in> set (timers ta)"
  shows "exited T tm (deliveries_of tm ta) ta'"
proof -
  obtain snap' where s: "send M e (actor ta) = Some snap'" "ta' = after_step T ta snap'"
    using assms(2) by (auto simp: t_send_def split: option.splits)
  have ch: "state_value snap' \<noteq> state_value (actor ta)"
    using assms(3) s(2) by (auto simp: after_step_def split: if_splits)
  have g: "generation ta' = generation ta + 1"
    using s(2) ch by (simp add: after_step_def)
  have "visit tm = generation ta"
    using assms(1,4) by (simp add: timers_current_def)
  then show ?thesis
    using g s(2) timers_current_after_step [OF assms(1)]
    by (simp add: exited_def deliveries_of_def delivered_after_step)
qed

text \<open>Time passes without a transition while no timer is due.\<close>

lemma tick_idle:
  assumes "\<forall>tm \<in> set (timers ta). clock ta + 1 < due tm"
  shows "tick T M ta = Some (ta\<lparr>clock := clock ta + 1\<rparr>)"
proof -
  have "filter (\<lambda>tm. due tm \<le> clock ta + 1) (timers ta) = []"
    using assms by (auto simp: filter_empty_conv)
  then show ?thesis by (simp add: tick_def)
qed

lemma advance_idle:
  "\<forall>tm \<in> set (timers ta). clock ta + n < due tm \<Longrightarrow>
   advance T M n ta = Some (ta\<lparr>clock := clock ta + n\<rparr>)"
proof (induction n arbitrary: ta)
  case 0
  then show ?case by simp
next
  case (Suc n)
  have t: "tick T M ta = Some (ta\<lparr>clock := clock ta + 1\<rparr>)"
    using Suc.prems by (intro tick_idle) auto
  have "advance T M n (ta\<lparr>clock := clock ta + 1\<rparr>)
          = Some (ta\<lparr>clock := clock ta + 1\<rparr>\<lparr>clock := clock (ta\<lparr>clock := clock ta + 1\<rparr>) + n\<rparr>)"
    using Suc.prems by (intro Suc.IH) auto
  then show ?case using t by simp
qed

lemma advance_add:
  "advance T M (m + n) ta =
     (case advance T M m ta of None \<Rightarrow> None | Some ta' \<Rightarrow> advance T M n ta')"
  by (induction m arbitrary: ta) (auto split: option.splits)

lemma advance_until_due:
  assumes "\<forall>tm \<in> set (timers ta). clock ta + n < due tm"
  shows "advance T M (Suc n) ta = tick T M (ta\<lparr>clock := clock ta + n\<rparr>)"
proof -
  have "advance T M (n + 1) ta = advance T M 1 (ta\<lparr>clock := clock ta + n\<rparr>)"
    unfolding advance_add using advance_idle [OF assms, of T M] by simp
  then show ?thesis by (simp split: option.splits)
qed

text \<open>A stopped machine, and one that has reached a final state, stay as they are.\<close>

lemma t_send_inert:
  "status (actor ta) \<noteq> Active \<Longrightarrow> timers ta = [] \<Longrightarrow> t_send T M e ta = Some ta"
  by (simp add: t_send_def send_def after_step_def)

lemma t_apply_inert:
  assumes "status (actor ta) \<noteq> Active" "timers ta = []" "t_apply T M op ta = Some ta'"
  shows "state_value (actor ta') = state_value (actor ta) \<and> ctx (actor ta') = ctx (actor ta)
       \<and> status (actor ta') \<noteq> Active \<and> timers ta' = []
       \<and> deliveries ta' = deliveries ta \<and> generation ta' = generation ta"
proof (cases op)
  case (Send e)
  then show ?thesis using assms t_send_inert [of ta T M e] by (simp add: t_apply_def)
next
  case (Wait n)
  then show ?thesis using assms advance_idle [of ta n T M] by (auto simp: t_apply_def)
next
  case Stop
  then show ?thesis using assms by (auto simp: t_apply_def t_stop_def stop_def)
qed

lemma t_run_inert:
  "status (actor ta) \<noteq> Active \<Longrightarrow> timers ta = [] \<Longrightarrow> t_run T M ta ops = Some ta'
   \<Longrightarrow> state_value (actor ta') = state_value (actor ta) \<and> ctx (actor ta') = ctx (actor ta)
       \<and> status (actor ta') \<noteq> Active \<and> timers ta' = []
       \<and> deliveries ta' = deliveries ta \<and> generation ta' = generation ta"
proof (induction ops arbitrary: ta)
  case Nil
  then show ?case by simp
next
  case (Cons op ops)
  from Cons.prems obtain mid where m: "t_apply T M op ta = Some mid" "t_run T M mid ops = Some ta'"
    by (auto split: option.splits)
  note a = t_apply_inert [OF Cons.prems(1,2) m(1)]
  from a have "status (actor mid) \<noteq> Active" "timers mid = []" by simp_all
  from Cons.IH [OF this m(2)] a show ?case by simp
qed

lemma t_run_stopped:
  assumes "t_run T M (t_stop ta) ops = Some ta'"
  shows "state_value (actor ta') = state_value (actor ta) \<and> ctx (actor ta') = ctx (actor ta)
       \<and> status (actor ta') \<noteq> Active \<and> timers ta' = []
       \<and> deliveries ta' = deliveries ta \<and> generation ta' = generation ta"
  using t_run_inert [OF _ _ assms] by (simp add: t_stop_def stop_def)

text \<open>Runs of the chat machine under the scheduler.\<close>

lemma advance_fire:
  assumes "0 < n" "\<forall>tm \<in> set (timers ta). clock ta + (n - 1) < due tm"
  shows "advance T M n ta = tick T M (ta\<lparr>clock := clock ta + (n - 1)\<rparr>)"
  using advance_until_due [OF assms(2), of T M] assms(1) by simp

lemma chat_timer_fires:
  "timed_run chat_timing chatMachine chat_init
     [Send (SEND_MESSAGE m), Send (error_actor x), Wait 1500]
   = Some \<lparr>actor = \<lparr>state_value = calling_llm,
                    ctx = \<lparr>message = m, response = None, ChatContext.error = None,
                           ChatContext.retryCount = 1\<rparr>,
                    status = Active\<rparr>,
           clock = 1500, generation = 3, timers = [],
           deliveries = [(\<lparr>armed_at = 0, delay = 1500, owner = ChatState.error, visit = 2\<rparr>,
                          ChatState.error, 2)]\<rparr>"
  by (simp add: timed_run_def t_start_def t_apply_def t_send_def after_step_def arm_def
      due_def tick_def fire_def advance_fire chat_timing_def
      chat_start chat_first_message chat_failure chat_retry_timer)

lemma chat_exit_cancels_timer:
  "timed_run chat_timing chatMachine chat_init
     [Send (SEND_MESSAGE m), Send (error_actor x), Wait 500, Send RETRY, Wait 100,
      Send (error_actor x), Wait 900]
   = Some \<lparr>actor = \<lparr>state_value = ChatState.error,
                    ctx = \<lparr>message = m, response = None, ChatContext.error = Some x,
                           ChatContext.retryCount = 1\<rparr>,
                    status = Active\<rparr>,
           clock = 1500, generation = 4,
           timers = [\<lparr>armed_at = 600, delay = 1500, owner = ChatState.error, visit = 4\<rparr>],
           deliveries = []\<rparr>"
  by (simp add: timed_run_def t_start_def t_apply_def t_send_def after_step_def arm_def
      due_def advance_idle chat_timing_def
      chat_start chat_first_message chat_failure chat_RETRY)

lemma chat_fresh_timer_fires:
  "timed_run chat_timing chatMachine chat_init
     [Send (SEND_MESSAGE m), Send (error_actor x), Wait 500, Send RETRY, Wait 100,
      Send (error_actor x), Wait 1499]
   = Some \<lparr>actor = \<lparr>state_value = ChatState.error,
                    ctx = \<lparr>message = m, response = None, ChatContext.error = Some x,
                           ChatContext.retryCount = 1\<rparr>,
                    status = Active\<rparr>,
           clock = 2099, generation = 4,
           timers = [\<lparr>armed_at = 600, delay = 1500, owner = ChatState.error, visit = 4\<rparr>],
           deliveries = []\<rparr>
 \<and> timed_run chat_timing chatMachine chat_init
     [Send (SEND_MESSAGE m), Send (error_actor x), Wait 500, Send RETRY, Wait 100,
      Send (error_actor x), Wait 1500]
   = Some \<lparr>actor = \<lparr>state_value = calling_llm,
                    ctx = \<lparr>message = m, response = None, ChatContext.error = None,
                           ChatContext.retryCount = 2\<rparr>,
                    status = Active\<rparr>,
           clock = 2100, generation = 5, timers = [],
           deliveries = [(\<lparr>armed_at = 600, delay = 1500, owner = ChatState.error, visit = 4\<rparr>,
                          ChatState.error, 4)]\<rparr>"
  by (simp add: timed_run_def t_start_def t_apply_def t_send_def after_step_def arm_def
      due_def tick_def fire_def advance_idle advance_fire chat_timing_def
      chat_start chat_first_message chat_failure chat_RETRY chat_retry_timer)

text \<open>With a machine whose \<^verbatim>\<open>send\<close> always returns, every timed run returns.\<close>

lemma t_send_total:
  "\<forall>e snap. \<exists>snap'. send M e snap = Some snap' \<Longrightarrow> \<exists>ta'. t_send T M e ta = Some ta'"
proof -
  assume "\<forall>e snap. \<exists>snap'. send M e snap = Some snap'"
  then obtain snap' where "send M e (actor ta) = Some snap'" by blast
  then show ?thesis by (simp add: t_send_def)
qed

lemma fire_all_total:
  assumes "\<forall>e snap. \<exists>snap'. send M e snap = Some snap'"
  shows "\<exists>ta'. fire_all T M tms ta = Some ta'"
proof (induction tms arbitrary: ta)
  case Nil
  then show ?case by simp
next
  case (Cons tm tms)
  have "\<exists>mid. fire T M tm ta = Some mid"
    using t_send_total [OF assms] by (simp add: fire_def)
  then obtain mid where "fire T M tm ta = Some mid" by blast
  then show ?case using Cons.IH [of mid] by simp
qed

lemma advance_total:
  assumes "\<forall>e snap. \<exists>snap'. send M e snap = Some snap'"
  shows "\<exists>ta'. advance T M n ta = Some ta'"
proof (induction n arbitrary: ta)
  case 0
  then show ?case by simp
next
  case (Suc n)
  obtain mid where "tick T M ta = Some mid"
    using fire_all_total [OF assms] unfolding tick_def by blast
  then show ?case using Suc.IH [of mid] by simp
qed

lemma t_run_total:
  assumes "\<forall>e snap. \<exists>snap'. send M e snap = Some snap'"
  shows "\<exists>ta'. t_run T M ta ops = Some ta'"
proof (induction ops arbitrary: ta)
  case Nil
  then show ?case by simp
next
  case (Cons op ops)
  have "\<exists>mid. t_apply T M op ta = Some mid"
    using t_send_total [OF assms] advance_total [OF assms]
    by (cases op) (simp_all add: t_apply_def)
  then obtain mid where "t_apply T M op ta = Some mid" by blast
  then show ?case using Cons.IH [of mid] by simp
qed

lemma chat_send_total: "\<exists>snap'. send chatMachine e snap = Some snap'"
  by (simp add: send_def chat_settle)

lemma order_send_total: "\<exists>snap'. send orderMachine e snap = Some snap'"
  by (simp add: send_def order_settle)

lemma game_send_total: "\<exists>snap'. send gameMachine e snap = Some snap'"
  by (simp add: send_def game_settle)

lemma chat_timed_run_total: "\<exists>ta. timed_run chat_timing chatMachine chat_init ops = Some ta"
  using t_run_total [of chatMachine chat_timing _ ops] chat_send_total
  by (simp add: timed_run_def t_start_def chat_start)

lemma order_timed_run_total:
  "\<exists>ta. timed_run (order_timing draws) orderMachine order_init ops = Some ta"
  using t_run_total [of orderMachine "order_timing draws" _ ops] order_send_total
  by (simp add: timed_run_def t_start_def order_start)

lemma game_timed_run_total: "\<exists>ta. timed_run game_timing gameMachine game_init ops = Some ta"
  using t_run_total [of gameMachine game_timing _ ops] game_send_total
  by (simp add: timed_run_def t_start_def game_start)

text \<open>The event of a timer, sent to a machine that is in another state, does nothing.\<close>

lemma send_stopped: "send M e (stop snap) = Some (stop snap)"
  by (simp add: send_def stop_def)

lemma chat_stale_timer_event:
  "state_value snap \<noteq> s \<Longrightarrow> send chatMachine (chat_after d s) snap = Some snap"
  unfolding send_def chat_settle
  by (cases "state_value snap") (simp_all add: chatMachine_def resolve_def)

lemma order_stale_timer_event:
  "state_value snap \<noteq> s \<Longrightarrow> send orderMachine (order_after d s r) snap = Some snap"
  unfolding send_def order_settle
  by (cases "state_value snap") (simp_all add: orderMachine_def resolve_def)

lemma game_stale_timer_event:
  "state_value snap \<noteq> s \<Longrightarrow>
   \<not> (state_value snap = playing \<and> js_le (to_number (held_lives (ctx snap))) (Finite 0)) \<Longrightarrow>
   send gameMachine (game_after d s) snap = Some snap"
  unfolding send_def game_settle
  by (cases "state_value snap") (simp_all add: gameMachine_def resolve_def)

text \<open>The game and the order: the timer of a state that \<^verbatim>\<open>stop\<close> has left.\<close>

lemma game_new_game:
  "send gameMachine NEW_GAME
     \<lparr>state_value = menu,
      ctx = context_object
              \<lparr>level = Finite 1, score = Finite 0, lives = Finite 3, playerName = ''Player''\<rparr>,
      status = Active\<rparr>
   = Some \<lparr>state_value = playing,
           ctx = context_object
              \<lparr>level = Finite 1, score = Finite 0, lives = Finite 3, playerName = ''Player''\<rparr>,
           status = Active\<rparr>"
  by code_simp

lemma game_save:
  "send gameMachine SAVE
     \<lparr>state_value = playing,
      ctx = context_object
              \<lparr>level = Finite 1, score = Finite 0, lives = Finite 3, playerName = ''Player''\<rparr>,
      status = Active\<rparr>
   = Some \<lparr>state_value = savingFromPlaying,
           ctx = context_object
              \<lparr>level = Finite 1, score = Finite 0, lives = Finite 3, playerName = ''Player''\<rparr>,
           status = Active\<rparr>"
  by code_simp

lemma game_saved:
  "send gameMachine (game_after 1000 savingFromPlaying)
     \<lparr>state_value = savingFromPlaying,
      ctx = context_object
              \<lparr>level = Finite 1, score = Finite 0, lives = Finite 3, playerName = ''Player''\<rparr>,
      status = Active\<rparr>
   = Some \<lparr>state_value = playing,
           ctx = context_object
              \<lparr>level = Finite 1, score = Finite 0, lives = Finite 3, playerName = ''Player''\<rparr>,
           status = Active\<rparr>"
  by code_simp

lemma game_save_timer_fires:
  "timed_run game_timing gameMachine game_init [Send NEW_GAME, Send SAVE, Wait 1000]
   = Some \<lparr>actor = \<lparr>state_value = playing,
                    ctx = context_object
                            \<lparr>level = Finite 1, score = Finite 0, lives = Finite 3,
                             playerName = ''Player''\<rparr>,
                    status = Active\<rparr>,
           clock = 1000, generation = 3, timers = [],
           deliveries = [(\<lparr>armed_at = 0, delay = 1000, owner = savingFromPlaying, visit = 2\<rparr>,
                          savingFromPlaying, 2)]\<rparr>"
  by (simp add: timed_run_def t_start_def t_apply_def t_send_def after_step_def arm_def
      due_def tick_def fire_def advance_fire game_timing_def
      game_start game_new_game game_save game_saved)

lemma game_stop_cancels_timer:
  "timed_run game_timing gameMachine game_init
     [Send NEW_GAME, Send SAVE, Wait 500, Stop, Wait 1000]
   = Some \<lparr>actor = \<lparr>state_value = savingFromPlaying,
                    ctx = context_object
                            \<lparr>level = Finite 1, score = Finite 0, lives = Finite 3,
                             playerName = ''Player''\<rparr>,
                    status = Stopped\<rparr>,
           clock = 1500, generation = 2, timers = [], deliveries = []\<rparr>"
  by (simp add: timed_run_def t_start_def t_apply_def t_send_def after_step_def arm_def
      due_def advance_idle game_timing_def t_stop_def stop_def
      game_start game_new_game game_save)

lemma order_payment_timer_fires:
  "timed_run (order_timing draws) orderMachine order_init
     [Send CONFIRM_ORDER, Send PROCESS_PAYMENT, Wait 1000]
   = Some \<lparr>actor =
             (if draws 1000 < PAYMENT_SUCCESS_RATE
              then \<lparr>state_value = paid,
                    ctx = \<lparr>OrderContext.orderId = ''ORD-001'',
                           OrderContext.items = [''Item A'', ''Item B''],
                           OrderContext.total = 100,
                           OrderContext.orderStatus = ''paid'', OrderContext.retryCount = 0\<rparr>,
                    status = Active\<rparr>
              else \<lparr>state_value = payment_failed,
                    ctx = \<lparr>OrderContext.orderId = ''ORD-001'',
                           OrderContext.items = [''Item A'', ''Item B''],
                           OrderContext.total = 100,
                           OrderContext.orderStatus = ''processing_payment'',
                           OrderContext.retryCount = 1\<rparr>,
                    status = Active\<rparr>),
           clock = 1000, generation = 3,
           timers = (if draws 1000 < PAYMENT_SUCCESS_RATE then []
                     else [\<lparr>armed_at = 1000, delay = 1500, owner = payment_failed, visit = 3\<rparr>]),
           deliveries = [(\<lparr>armed_at = 0, delay = 1000, owner = processing_payment, visit = 2\<rparr>,
                          processing_payment, 2)]\<rparr>"
  by (simp add: timed_run_def t_start_def t_apply_def t_send_def after_step_def arm_def
      due_def tick_def fire_def advance_fire order_timing_def
      PAYMENT_DELAY_MS_def RETRY_EVENT_DELAY_MS_def
      order_start order_confirm order_process_payment
      order_payment_timer [unfolded PAYMENT_DELAY_MS_def])

lemma order_stop_cancels_timer:
  "timed_run (order_timing draws) orderMachine order_init
     [Send CONFIRM_ORDER, Send PROCESS_PAYMENT, Wait 500, Stop, Wait 1000]
   = Some \<lparr>actor = \<lparr>state_value = processing_payment,
                    ctx = \<lparr>OrderContext.orderId = ''ORD-001'',
                           OrderContext.items = [''Item A'', ''Item B''],
                           OrderContext.total = 100,
                           OrderContext.orderStatus = ''processing_payment'',
                           OrderContext.retryCount = 0\<rparr>,
                    status = Stopped\<rparr>,
           clock = 1500, generation = 2, timers = [], deliveries = []\<rparr>"
  by (simp add: timed_run_def t_start_def t_apply_def t_send_def after_step_def arm_def
      due_def advance_idle order_timing_def t_stop_def stop_def
      PAYMENT_DELAY_MS_def
      order_start order_confirm order_process_payment)

lemma t_apply_inert_total:
  "status (actor ta) \<noteq> Active \<Longrightarrow> timers ta = [] \<Longrightarrow> \<exists>ta'. t_apply T M op ta = Some ta'"
  using t_send_inert [of ta T M] advance_idle [of ta _ T M]
  by (cases op) (simp_all add: t_apply_def)

lemma t_run_inert_total:
  "status (actor ta) \<noteq> Active \<Longrightarrow> timers ta = [] \<Longrightarrow> \<exists>ta'. t_run T M ta ops = Some ta'"
proof (induction ops arbitrary: ta)
  case Nil
  then show ?case by simp
next
  case (Cons op ops)
  from t_apply_inert_total [OF Cons.prems] obtain mid where m: "t_apply T M op ta = Some mid"
    by blast
  from t_apply_inert [OF Cons.prems m] have "status (actor mid) \<noteq> Active" "timers mid = []"
    by simp_all
  from Cons.IH [OF this] m show ?case by simp
qed

lemma t_run_stopped_total: "\<exists>ta'. t_run T M (t_stop ta) ops = Some ta'"
  by (rule t_run_inert_total) (simp_all add: t_stop_def stop_def)

text \<open>
  In the three machines no transition has the state it starts from as its target,
  and no step comes back to the state it left: a step that leaves a state ends in
  another state.
\<close>

lemma resolve_in_candidates: "resolve candidates c e = Some t \<Longrightarrow> t \<in> set candidates"
  by (auto simp: resolve_Some_iff)

lemma chat_targets_leave:
  "t \<in> set (on (states chatMachine s) e) \<Longrightarrow> target t \<noteq> Some s"
  by (cases s; cases e) (auto simp: chatMachine_def split: if_splits)

lemma order_targets_leave:
  "t \<in> set (on (states orderMachine s) e) \<Longrightarrow> target t \<noteq> Some s"
  by (cases s; cases e) (auto simp: orderMachine_def go_def split: if_splits)

lemma game_targets_leave:
  "t \<in> set (on (states gameMachine s) e) \<Longrightarrow>
   target t \<noteq> Some s \<and> (s = gameOver \<longrightarrow> target t \<noteq> Some playing)"
  by (cases s; cases e) (auto simp: gameMachine_def go_def split: if_splits option.splits)

lemma chat_exit_changes_state:
  assumes "status snap = Active"
    "resolve (on (states chatMachine (state_value snap)) e) (ctx snap) e = Some t"
    "target t = Some s"
  shows "\<exists>snap'. send chatMachine e snap = Some snap' \<and> state_value snap' = s
           \<and> s \<noteq> state_value snap"
proof -
  have "s \<noteq> state_value snap"
    using chat_targets_leave [OF resolve_in_candidates [OF assms(2)]] assms(3) by simp
  then show ?thesis
    using assms by (simp add: send_def chat_settle microstep_def enter_def)
qed

lemma order_exit_changes_state:
  assumes "status snap = Active"
    "resolve (on (states orderMachine (state_value snap)) e) (ctx snap) e = Some t"
    "target t = Some s"
  shows "\<exists>snap'. send orderMachine e snap = Some snap' \<and> state_value snap' = s
           \<and> s \<noteq> state_value snap"
proof -
  have "s \<noteq> state_value snap"
    using order_targets_leave [OF resolve_in_candidates [OF assms(2)]] assms(3) by simp
  then show ?thesis
    using assms by (simp add: send_def order_settle microstep_def enter_def)
qed

lemma game_exit_changes_state:
  assumes "status snap = Active"
    "resolve (on (states gameMachine (state_value snap)) e) (ctx snap) e = Some t"
    "target t = Some s"
  shows "\<exists>snap'. send gameMachine e snap = Some snap'
           \<and> state_value snap' \<noteq> state_value snap"
proof -
  note l = game_targets_leave [OF resolve_in_candidates [OF assms(2)]]
  have n: "s \<noteq> state_value snap" using l assms(3) by simp
  have g: "state_value snap = gameOver \<longrightarrow> s \<noteq> playing" using l assms(3) by simp
  have m: "state_value (microstep gameMachine t e snap) = s"
    using assms(3) n by (simp add: microstep_def enter_def)
  show ?thesis
    using assms m n g by (auto simp: send_def game_settle)
qed

section \<open>Timer cancellation\<close>

text \<open>
  Claim C4. A timer is scheduled when its state is entered and is delivered, as an
  event passed to \<^verbatim>\<open>send\<close>, once its delay has passed. In every run of a machine
  under the scheduler (events sent, time passing, \<^verbatim>\<open>stop\<close>, in any order) each
  scheduled timer belongs to the present visit of the present state of a running
  machine, and each timer that was delivered was delivered in the state and during
  the visit that armed it. When an event takes the machine out of a state, each
  timer \<open>tm\<close> that was scheduled is cancelled: whatever happens \<open>later\<close>, it is not
  scheduled again, it is not delivered, and its firing changes nothing. After
  \<^verbatim>\<open>stop\<close> no timer is scheduled and nothing that happens later changes the state
  or the context or delivers a timer. While no scheduled timer is due, time passes
  without a transition. The event of a timer does nothing in a stopped machine, and
  nothing in \<^verbatim>\<open>chatMachine\<close>, \<^verbatim>\<open>orderMachine\<close> and \<^verbatim>\<open>gameMachine\<close> when the machine
  is in another state than the timer's. In these three machines a step that takes a
  transition with a target ends in another state than it began in, so that every
  exit is a change of the state; and their runs always return.

  In \<^verbatim>\<open>chatMachine\<close> the state \<^verbatim>\<open>error\<close> has the timer of 1500 ms and the event
  \<^verbatim>\<open>RETRY\<close>: left alone for 1500 ms the timer fires; when \<^verbatim>\<open>RETRY\<close> arrives after
  500 ms and the call fails again at 600 ms, nothing happens at 1500 ms, nor at
  2099 ms, and the fresh timer fires at 2100 ms. In \<^verbatim>\<open>gameMachine\<close> and
  \<^verbatim>\<open>orderMachine\<close> the timers of \<^verbatim>\<open>savingFromPlaying\<close> and \<^verbatim>\<open>processing_payment\<close>
  fire after 1000 ms, and not when the actor is stopped after 500 ms.
\<close>

theorem exited_state_timer_never_fires:
  fixes T :: "('s, 'e) timing" and M :: "('s, 'c, 'e) machine"
  shows
  "(timed_run T M e0 ops = Some ta \<longrightarrow> timers_current T ta \<and> deliveries_current ta)
 \<and> (timers_current T xa \<and> tm \<in> set (timers xa) \<and> t_send T M e xa = Some xa1
      \<and> state_value (actor xa1) \<noteq> state_value (actor xa) \<and> t_run T M xa1 later = Some xa2
    \<longrightarrow> tm \<notin> set (timers xa1) \<and> tm \<notin> set (timers xa2)
        \<and> deliveries_of tm xa2 = deliveries_of tm xa
        \<and> fire T M tm xa2 = Some xa2 \<and> visit tm < generation xa2)
 \<and> (\<exists>sa2. t_run T M (t_stop sa) after_stop = Some sa2
        \<and> state_value (actor sa2) = state_value (actor sa) \<and> ctx (actor sa2) = ctx (actor sa)
        \<and> status (actor sa2) \<noteq> Active \<and> timers sa2 = [] \<and> deliveries sa2 = deliveries sa)
 \<and> ((\<forall>tm \<in> set (timers ia). clock ia + n < due tm)
    \<longrightarrow> advance T M n ia = Some (ia\<lparr>clock := clock ia + n\<rparr>))
 \<and> send M e' (stop snap) = Some (stop snap)
 \<and> (state_value csnap \<noteq> cs \<longrightarrow> send chatMachine (chat_after cd cs) csnap = Some csnap)
 \<and> (state_value osnap \<noteq> os \<longrightarrow> send orderMachine (order_after od os r) osnap = Some osnap)
 \<and> (state_value gsnap \<noteq> gs
      \<and> \<not> (state_value gsnap = playing
            \<and> js_le (to_number (held_lives (ctx gsnap))) (Finite 0))
    \<longrightarrow> send gameMachine (game_after gd gs) gsnap = Some gsnap)
 \<and> (status c1 = Active
      \<and> resolve (on (states chatMachine (state_value c1)) ce) (ctx c1) ce = Some ct
      \<and> target ct = Some ct_target
    \<longrightarrow> (\<exists>snap'. send chatMachine ce c1 = Some snap'
          \<and> state_value snap' \<noteq> state_value c1))
 \<and> (status o1 = Active
      \<and> resolve (on (states orderMachine (state_value o1)) oe) (ctx o1) oe = Some ot
      \<and> target ot = Some ot_target
    \<longrightarrow> (\<exists>snap'. send orderMachine oe o1 = Some snap'
          \<and> state_value snap' \<noteq> state_value o1))
 \<and> (status g1 = Active
      \<and> resolve (on (states gameMachine (state_value g1)) ge) (ctx g1) ge = Some gt
      \<and> target gt = Some gt_target
    \<longrightarrow> (\<exists>snap'. send gameMachine ge g1 = Some snap'
          \<and> state_value snap' \<noteq> state_value g1))
 \<and> (\<exists>ta. timed_run chat_timing chatMachine chat_init chat_ops = Some ta)
 \<and> (\<exists>ta. timed_run (order_timing draws) orderMachine order_init order_ops = Some ta)
 \<and> (\<exists>ta. timed_run game_timing gameMachine game_init game_ops = Some ta)
 \<and> timed_run chat_timing chatMachine chat_init
      [Send (SEND_MESSAGE m), Send (error_actor x), Wait 1500]
    = Some \<lparr>actor = \<lparr>state_value = calling_llm,
                     ctx = \<lparr>message = m, response = None, ChatContext.error = None,
                            ChatContext.retryCount = 1\<rparr>,
                     status = Active\<rparr>,
            clock = 1500, generation = 3, timers = [],
            deliveries = [(\<lparr>armed_at = 0, delay = 1500, owner = ChatState.error, visit = 2\<rparr>,
                           ChatState.error, 2)]\<rparr>
 \<and> timed_run chat_timing chatMachine chat_init
      [Send (SEND_MESSAGE m), Send (error_actor x), Wait 500, Send RETRY, Wait 100,
       Send (error_actor x), Wait 900]
    = Some \<lparr>actor = \<lparr>state_value = ChatState.error,
                     ctx = \<lparr>message = m, response = None, ChatContext.error = Some x,
                            ChatContext.retryCount = 1\<rparr>,
                     status = Active\<rparr>,
            clock = 1500, generation = 4,
            timers = [\<lparr>armed_at = 600, delay = 1500, owner = ChatState.error, visit = 4\<rparr>],
            deliveries = []\<rparr>
 \<and> timed_run chat_timing chatMachine chat_init
      [Send (SEND_MESSAGE m), Send (error_actor x), Wait 500, Send RETRY, Wait 100,
       Send (error_actor x), Wait 1499]
    = Some \<lparr>actor = \<lparr>state_value = ChatState.error,
                     ctx = \<lparr>message = m, response = None, ChatContext.error = Some x,
                            ChatContext.retryCount = 1\<rparr>,
                     status = Active\<rparr>,
            clock = 2099, generation = 4,
            timers = [\<lparr>armed_at = 600, delay = 1500, owner = ChatState.error, visit = 4\<rparr>],
            deliveries = []\<rparr>
 \<and> timed_run chat_timing chatMachine chat_init
      [Send (SEND_MESSAGE m), Send (error_actor x), Wait 500, Send RETRY, Wait 100,
       Send (error_actor x), Wait 1500]
    = Some \<lparr>actor = \<lparr>state_value = calling_llm,
                     ctx = \<lparr>message = m, response = None, ChatContext.error = None,
                            ChatContext.retryCount = 2\<rparr>,
                     status = Active\<rparr>,
            clock = 2100, generation = 5, timers = [],
            deliveries = [(\<lparr>armed_at = 600, delay = 1500, owner = ChatState.error, visit = 4\<rparr>,
                           ChatState.error, 4)]\<rparr>
 \<and> timed_run game_timing gameMachine game_init [Send NEW_GAME, Send SAVE, Wait 1000]
    = Some \<lparr>actor = \<lparr>state_value = playing,
                     ctx = context_object
                             \<lparr>level = Finite 1, score = Finite 0, lives = Finite 3,
                              playerName = ''Player''\<rparr>,
                     status = Active\<rparr>,
            clock = 1000, generation = 3, timers = [],
            deliveries = [(\<lparr>armed_at = 0, delay = 1000, owner = savingFromPlaying, visit = 2\<rparr>,
                           savingFromPlaying, 2)]\<rparr>
 \<and> timed_run game_timing gameMachine game_init
      [Send NEW_GAME, Send SAVE, Wait 500, Stop, Wait 1000]
    = Some \<lparr>actor = \<lparr>state_value = savingFromPlaying,
                     ctx = context_object
                             \<lparr>level = Finite 1, score = Finite 0, lives = Finite 3,
                              playerName = ''Player''\<rparr>,
                     status = Stopped\<rparr>,
            clock = 1500, generation = 2, timers = [], deliveries = []\<rparr>
 \<and> timed_run (order_timing draws) orderMachine order_init
      [Send CONFIRM_ORDER, Send PROCESS_PAYMENT, Wait 1000]
    = Some \<lparr>actor =
              (if draws 1000 < PAYMENT_SUCCESS_RATE
               then \<lparr>state_value = paid,
                     ctx = \<lparr>OrderContext.orderId = ''ORD-001'',
                            OrderContext.items = [''Item A'', ''Item B''],
                            OrderContext.total = 100,
                            OrderContext.orderStatus = ''paid'', OrderContext.retryCount = 0\<rparr>,
                     status = Active\<rparr>
               else \<lparr>state_value = payment_failed,
                     ctx = \<lparr>OrderContext.orderId = ''ORD-001'',
                            OrderContext.items = [''Item A'', ''Item B''],
                            OrderContext.total = 100,
                            OrderContext.orderStatus = ''processing_payment'',
                            OrderContext.retryCount = 1\<rparr>,
                     status = Active\<rparr>),
            clock = 1000, generation = 3,
            timers = (if draws 1000 < PAYMENT_SUCCESS_RATE then []
                      else [\<lparr>armed_at = 1000, delay = 1500, owner = payment_failed, visit = 3\<rparr>]),
            deliveries = [(\<lparr>armed_at = 0, delay = 1000, owner = processing_payment, visit = 2\<rparr>,
                           processing_payment, 2)]\<rparr>
 \<and> timed_run (order_timing draws) orderMachine order_init
      [Send CONFIRM_ORDER, Send PROCESS_PAYMENT, Wait 500, Stop, Wait 1000]
    = Some \<lparr>actor = \<lparr>state_value = processing_payment,
                     ctx = \<lparr>OrderContext.orderId = ''ORD-001'',
                            OrderContext.items = [''Item A'', ''Item B''],
                            OrderContext.total = 100,
                            OrderContext.orderStatus = ''processing_payment'',
                            OrderContext.retryCount = 0\<rparr>,
                     status = Stopped\<rparr>,
            clock = 1500, generation = 2, timers = [], deliveries = []\<rparr>"
proof -
  have inv: "timed_run T M e0 ops = Some ta \<longrightarrow> timers_current T ta \<and> deliveries_current ta"
    using timed_run_current [of T M e0 ops ta] by simp
  have ex: "timers_current T xa \<and> tm \<in> set (timers xa) \<and> t_send T M e xa = Some xa1
      \<and> state_value (actor xa1) \<noteq> state_value (actor xa) \<and> t_run T M xa1 later = Some xa2
    \<longrightarrow> tm \<notin> set (timers xa1) \<and> tm \<notin> set (timers xa2)
        \<and> deliveries_of tm xa2 = deliveries_of tm xa
        \<and> fire T M tm xa2 = Some xa2 \<and> visit tm < generation xa2"
  proof
    assume a: "timers_current T xa \<and> tm \<in> set (timers xa) \<and> t_send T M e xa = Some xa1
      \<and> state_value (actor xa1) \<noteq> state_value (actor xa) \<and> t_run T M xa1 later = Some xa2"
    then have e1: "exited T tm (deliveries_of tm xa) xa1"
      using exit_cancels [of T xa M e xa1 tm] by simp
    then have e2: "exited T tm (deliveries_of tm xa) xa2"
      using a exited_t_run [of T tm _ xa1 M later xa2] by simp
    show "tm \<notin> set (timers xa1) \<and> tm \<notin> set (timers xa2)
        \<and> deliveries_of tm xa2 = deliveries_of tm xa
        \<and> fire T M tm xa2 = Some xa2 \<and> visit tm < generation xa2"
      using exited_not_scheduled [OF e1] exited_not_scheduled [OF e2] e2
      by (simp add: exited_def fire_def)
  qed
  have st: "\<exists>sa2. t_run T M (t_stop sa) after_stop = Some sa2
        \<and> state_value (actor sa2) = state_value (actor sa) \<and> ctx (actor sa2) = ctx (actor sa)
        \<and> status (actor sa2) \<noteq> Active \<and> timers sa2 = [] \<and> deliveries sa2 = deliveries sa"
  proof -
    obtain sa2 where s: "t_run T M (t_stop sa) after_stop = Some sa2"
      using t_run_stopped_total [of T M sa after_stop] by blast
    from t_run_stopped [OF s] s show ?thesis by simp
  qed
  have idle: "(\<forall>tm \<in> set (timers ia). clock ia + n < due tm)
    \<longrightarrow> advance T M n ia = Some (ia\<lparr>clock := clock ia + n\<rparr>)"
    using advance_idle [of ia n T M] by simp
  have game: "state_value gsnap \<noteq> gs
      \<and> \<not> (state_value gsnap = playing
            \<and> js_le (to_number (held_lives (ctx gsnap))) (Finite 0))
    \<longrightarrow> send gameMachine (game_after gd gs) gsnap = Some gsnap"
    using game_stale_timer_event [of gsnap gs gd] by simp
  note scenarios = chat_timer_fires [of m x] chat_exit_cancels_timer [of m x]
    chat_fresh_timer_fires [of m x] game_save_timer_fires game_stop_cancels_timer
    order_payment_timer_fires [of draws] order_stop_cancels_timer [of draws]
  show ?thesis
    apply (intro conjI)
    subgoal by (rule inv)
    subgoal by (rule ex)
    subgoal by (rule st)
    subgoal by (rule idle)
    subgoal by (rule send_stopped)
    subgoal using chat_stale_timer_event [of csnap cs cd] by simp
    subgoal using order_stale_timer_event [of osnap os od r] by simp
    subgoal by (rule game)
    subgoal using chat_exit_changes_state [of c1 ce ct ct_target] by auto
    subgoal using order_exit_changes_state [of o1 oe ot ot_target] by auto
    subgoal using game_exit_changes_state [of g1 ge gt gt_target] by auto
    subgoal by (rule chat_timed_run_total)
    subgoal by (rule order_timed_run_total)
    subgoal by (rule game_timed_run_total)
    subgoal by (rule scenarios(1))
    subgoal by (rule scenarios(2))
    subgoal using scenarios(3) by simp
    subgoal using scenarios(3) by simp
    subgoal by (rule scenarios(4))
    subgoal by (rule scenarios(5))
    subgoal by (rule scenarios(6))
    subgoal by (rule scenarios(7))
    done
qed

theorem exited_state_timer_never_fires_witness:
  "timed_run chat_timing chatMachine chat_init
     [Send (SEND_MESSAGE ''hi''), Send (error_actor ''down''), Wait 500]
   = Some \<lparr>actor = \<lparr>state_value = ChatState.error,
                    ctx = \<lparr>message = ''hi'', response = None, ChatContext.error = Some ''down'',
                           ChatContext.retryCount = 0\<rparr>,
                    status = Active\<rparr>,
           clock = 500, generation = 2,
           timers = [\<lparr>armed_at = 0, delay = 1500, owner = ChatState.error, visit = 2\<rparr>],
           deliveries = []\<rparr>
 \<and> timers_current chat_timing
      \<lparr>actor = \<lparr>state_value = ChatState.error,
                ctx = \<lparr>message = ''hi'', response = None, ChatContext.error = Some ''down'',
                       ChatContext.retryCount = 0\<rparr>,
                status = Active\<rparr>,
       clock = 500, generation = 2,
       timers = [\<lparr>armed_at = 0, delay = 1500, owner = ChatState.error, visit = 2\<rparr>],
       deliveries = []\<rparr>
 \<and> t_send chat_timing chatMachine RETRY
      \<lparr>actor = \<lparr>state_value = ChatState.error,
                ctx = \<lparr>message = ''hi'', response = None, ChatContext.error = Some ''down'',
                       ChatContext.retryCount = 0\<rparr>,
                status = Active\<rparr>,
       clock = 500, generation = 2,
       timers = [\<lparr>armed_at = 0, delay = 1500, owner = ChatState.error, visit = 2\<rparr>],
       deliveries = []\<rparr>
    = Some \<lparr>actor = \<lparr>state_value = calling_llm,
                     ctx = \<lparr>message = ''hi'', response = None, ChatContext.error = None,
                            ChatContext.retryCount = 1\<rparr>,
                     status = Active\<rparr>,
            clock = 500, generation = 3, timers = [], deliveries = []\<rparr>
 \<and> t_run chat_timing chatMachine
      \<lparr>actor = \<lparr>state_value = calling_llm,
                ctx = \<lparr>message = ''hi'', response = None, ChatContext.error = None,
                       ChatContext.retryCount = 1\<rparr>,
                status = Active\<rparr>,
       clock = 500, generation = 3, timers = [], deliveries = []\<rparr>
      [Wait 100, Send (error_actor ''down''), Wait 1500]
    = Some \<lparr>actor = \<lparr>state_value = calling_llm,
                     ctx = \<lparr>message = ''hi'', response = None, ChatContext.error = None,
                            ChatContext.retryCount = 2\<rparr>,
                     status = Active\<rparr>,
            clock = 2100, generation = 5, timers = [],
            deliveries = [(\<lparr>armed_at = 600, delay = 1500, owner = ChatState.error, visit = 4\<rparr>,
                           ChatState.error, 4)]\<rparr>
 \<and> deliveries_of \<lparr>armed_at = 0, delay = 1500, owner = ChatState.error, visit = 2\<rparr>
      \<lparr>actor = \<lparr>state_value = calling_llm,
                ctx = \<lparr>message = ''hi'', response = None, ChatContext.error = None,
                       ChatContext.retryCount = 2\<rparr>,
                status = Active\<rparr>,
       clock = 2100, generation = 5, timers = [],
       deliveries = [(\<lparr>armed_at = 600, delay = 1500, owner = ChatState.error, visit = 4\<rparr>,
                      ChatState.error, 4)]\<rparr>
    = []
 \<and> fire chat_timing chatMachine \<lparr>armed_at = 0, delay = 1500, owner = ChatState.error, visit = 2\<rparr>
      \<lparr>actor = \<lparr>state_value = calling_llm,
                ctx = \<lparr>message = ''hi'', response = None, ChatContext.error = None,
                       ChatContext.retryCount = 2\<rparr>,
                status = Active\<rparr>,
       clock = 2100, generation = 5, timers = [],
       deliveries = [(\<lparr>armed_at = 600, delay = 1500, owner = ChatState.error, visit = 4\<rparr>,
                      ChatState.error, 4)]\<rparr>
    = Some \<lparr>actor = \<lparr>state_value = calling_llm,
                     ctx = \<lparr>message = ''hi'', response = None, ChatContext.error = None,
                            ChatContext.retryCount = 2\<rparr>,
                     status = Active\<rparr>,
            clock = 2100, generation = 5, timers = [],
            deliveries = [(\<lparr>armed_at = 600, delay = 1500, owner = ChatState.error, visit = 4\<rparr>,
                           ChatState.error, 4)]\<rparr>
 \<and> t_run chat_timing chatMachine
      (t_stop \<lparr>actor = \<lparr>state_value = ChatState.error,
                        ctx = \<lparr>message = ''hi'', response = None,
                               ChatContext.error = Some ''down'', ChatContext.retryCount = 0\<rparr>,
                        status = Active\<rparr>,
               clock = 500, generation = 2,
               timers = [\<lparr>armed_at = 0, delay = 1500, owner = ChatState.error, visit = 2\<rparr>],
               deliveries = []\<rparr>)
      [Wait 2000, Send RETRY]
    = Some \<lparr>actor = \<lparr>state_value = ChatState.error,
                     ctx = \<lparr>message = ''hi'', response = None,
                            ChatContext.error = Some ''down'', ChatContext.retryCount = 0\<rparr>,
                     status = Stopped\<rparr>,
            clock = 2500, generation = 2, timers = [], deliveries = []\<rparr>
 \<and> advance chat_timing chatMachine 999
      \<lparr>actor = \<lparr>state_value = ChatState.error,
                ctx = \<lparr>message = ''hi'', response = None, ChatContext.error = Some ''down'',
                       ChatContext.retryCount = 0\<rparr>,
                status = Active\<rparr>,
       clock = 500, generation = 2,
       timers = [\<lparr>armed_at = 0, delay = 1500, owner = ChatState.error, visit = 2\<rparr>],
       deliveries = []\<rparr>
    = Some \<lparr>actor = \<lparr>state_value = ChatState.error,
                     ctx = \<lparr>message = ''hi'', response = None,
                            ChatContext.error = Some ''down'', ChatContext.retryCount = 0\<rparr>,
                     status = Active\<rparr>,
            clock = 1499, generation = 2,
            timers = [\<lparr>armed_at = 0, delay = 1500, owner = ChatState.error, visit = 2\<rparr>],
            deliveries = []\<rparr>
 \<and> target (hd (error_on RETRY)) = Some calling_llm
 \<and> target (hd (pending_on CONFIRM_ORDER)) = Some confirmed
 \<and> target (hd (menu_on NEW_GAME)) = Some playing
 \<and> send chatMachine (chat_after 1500 ChatState.error)
      \<lparr>state_value = calling_llm,
       ctx = \<lparr>message = ''hi'', response = None, ChatContext.error = None,
              ChatContext.retryCount = 1\<rparr>,
       status = Active\<rparr>
    = Some \<lparr>state_value = calling_llm,
            ctx = \<lparr>message = ''hi'', response = None, ChatContext.error = None,
                   ChatContext.retryCount = 1\<rparr>,
            status = Active\<rparr>
 \<and> send orderMachine (order_after PAYMENT_DELAY_MS processing_payment (9 / 10))
      \<lparr>state_value = paid,
       ctx = \<lparr>OrderContext.orderId = ''ORD-001'', OrderContext.items = [''Item A'', ''Item B''],
              OrderContext.total = 100, OrderContext.orderStatus = ''paid'',
              OrderContext.retryCount = 0\<rparr>,
       status = Active\<rparr>
    = Some \<lparr>state_value = paid,
            ctx = \<lparr>OrderContext.orderId = ''ORD-001'',
                   OrderContext.items = [''Item A'', ''Item B''],
                   OrderContext.total = 100, OrderContext.orderStatus = ''paid'',
                   OrderContext.retryCount = 0\<rparr>,
            status = Active\<rparr>
 \<and> send gameMachine (game_after 1000 savingFromPlaying)
      \<lparr>state_value = playing,
       ctx = context_object
               \<lparr>level = Finite 1, score = Finite 0, lives = Finite 3, playerName = ''Player''\<rparr>,
       status = Active\<rparr>
    = Some \<lparr>state_value = playing,
            ctx = context_object
               \<lparr>level = Finite 1, score = Finite 0, lives = Finite 3, playerName = ''Player''\<rparr>,
            status = Active\<rparr>"
proof -
  let ?tm = "\<lparr>armed_at = 0, delay = 1500, owner = ChatState.error, visit = 2\<rparr> :: ChatState timer"
  let ?a = "\<lparr>actor = \<lparr>state_value = ChatState.error,
                ctx = \<lparr>message = ''hi'', response = None, ChatContext.error = Some ''down'',
                       ChatContext.retryCount = 0\<rparr>,
                status = Active\<rparr>,
       clock = 500, generation = 2, timers = [?tm], deliveries = []\<rparr>"
  let ?a1 = "\<lparr>actor = \<lparr>state_value = calling_llm,
                ctx = \<lparr>message = ''hi'', response = None, ChatContext.error = None,
                       ChatContext.retryCount = 1\<rparr>,
                status = Active\<rparr>,
       clock = 500, generation = 3, timers = [], deliveries = []\<rparr> :: (ChatState, ChatContext) timed_actor"
  let ?a2 = "\<lparr>actor = \<lparr>state_value = calling_llm,
                ctx = \<lparr>message = ''hi'', response = None, ChatContext.error = None,
                       ChatContext.retryCount = 2\<rparr>,
                status = Active\<rparr>,
       clock = 2100, generation = 5, timers = [],
       deliveries = [(\<lparr>armed_at = 600, delay = 1500, owner = ChatState.error, visit = 4\<rparr>,
                      ChatState.error, 4)]\<rparr> :: (ChatState, ChatContext) timed_actor"
  let ?ops = "[Send (SEND_MESSAGE ''hi''), Send (error_actor ''down''), Wait 500]"
  let ?later = "[Wait 100, Send (error_actor ''down''), Wait 1500]"
  let ?g = "\<lparr>state_value = playing,
       ctx = context_object
               \<lparr>level = Finite 1, score = Finite 0, lives = Finite 3, playerName = ''Player''\<rparr>,
       status = Active\<rparr>"
  let ?o = "\<lparr>state_value = paid,
       ctx = \<lparr>OrderContext.orderId = ''ORD-001'', OrderContext.items = [''Item A'', ''Item B''],
              OrderContext.total = 100, OrderContext.orderStatus = ''paid'',
              OrderContext.retryCount = 0\<rparr>,
       status = Active\<rparr>"
  let ?p = "\<lparr>state_value = pending,
       ctx = \<lparr>OrderContext.orderId = ''ORD-001'', OrderContext.items = [''Item A'', ''Item B''],
              OrderContext.total = 100, OrderContext.orderStatus = ''pending'',
              OrderContext.retryCount = 0\<rparr>,
       status = Active\<rparr>"
  have r: "timed_run chat_timing chatMachine chat_init ?ops = Some ?a"
    by (simp add: timed_run_def t_start_def t_apply_def t_send_def after_step_def arm_def
        due_def advance_idle chat_timing_def chat_start chat_first_message chat_failure)
  have s: "t_send chat_timing chatMachine RETRY ?a = Some ?a1"
    by (simp add: t_send_def after_step_def arm_def chat_timing_def chat_RETRY)
  have l: "t_run chat_timing chatMachine ?a1 ?later = Some ?a2"
    by (simp add: t_apply_def t_send_def after_step_def arm_def due_def tick_def fire_def
        advance_idle advance_fire chat_timing_def chat_failure chat_retry_timer)
  have st: "t_run chat_timing chatMachine (t_stop ?a) [Wait 2000, Send RETRY]
      = Some (?a\<lparr>actor := stop (actor ?a), timers := [], clock := 2500\<rparr>)"
    by (simp add: t_apply_def t_send_def after_step_def advance_idle t_stop_def stop_def send_def)
  have g: "\<not> js_le (to_number (held_lives (ctx ?g))) (Finite 0)"
    by (simp add: context_object_def to_number_def)
  note t = exited_state_timer_never_fires
    [where T = chat_timing and M = chatMachine and ?e0.0 = chat_init and ops = "?ops" and ta = "?a"
       and xa = "?a" and tm = "?tm" and e = RETRY and ?xa1.0 = "?a1" and later = "?later"
       and ?xa2.0 = "?a2" and sa = "?a" and after_stop = "[Wait 2000, Send RETRY]"
       and ia = "?a" and n = 999
       and csnap = "actor ?a1" and cs = ChatState.error and cd = 1500
       and osnap = "?o" and os = processing_payment and od = PAYMENT_DELAY_MS and r = "9 / 10"
       and gsnap = "?g" and gs = savingFromPlaying and gd = 1000
       and ?c1.0 = "actor ?a" and ce = RETRY and ct = "hd (error_on RETRY)"
       and ct_target = calling_llm
       and ?o1.0 = "?p" and oe = CONFIRM_ORDER and ot = "hd (pending_on CONFIRM_ORDER)"
       and ot_target = confirmed
       and ?g1.0 = "?g\<lparr>state_value := menu\<rparr>" and ge = NEW_GAME
       and gt = "hd (menu_on NEW_GAME)" and gt_target = playing]
  have rc: "resolve (on (states chatMachine (state_value (actor ?a))) RETRY) (ctx (actor ?a)) RETRY
      = Some (hd (error_on RETRY))"
    by (simp add: chatMachine_def resolve_def guard_passes_def)
  have ro: "resolve (on (states orderMachine (state_value ?p)) CONFIRM_ORDER) (ctx ?p)
      CONFIRM_ORDER = Some (hd (pending_on CONFIRM_ORDER))"
    by (simp add: orderMachine_def resolve_def guard_passes_def go_def)
  have rg: "resolve (on (states gameMachine (state_value (?g\<lparr>state_value := menu\<rparr>))) NEW_GAME)
      (ctx (?g\<lparr>state_value := menu\<rparr>)) NEW_GAME = Some (hd (menu_on NEW_GAME))"
    by (simp add: gameMachine_def resolve_def guard_passes_def)
  from t r s l st g rc ro rg show ?thesis
    by (simp add: due_def stop_def deliveries_of_def go_def)
qed

end
